(* ===== verification/Prelude.thy ===== *)
theory Prelude
  imports Main
begin

text \<open>
  Shared vocabulary of the slack_agent development: JSON values as Python's
  \<open>json\<close> module produces them, the exceptions the program can raise, Python's
  insertion-ordered \<open>dict\<close> as an association list, and a small state/error/divergence
  program type in which every effectful operation of the bot is written.
\<close>

section \<open>Rule collections\<close>

named_theorems dict_simps "facts on Python dicts modelled as association lists"
named_theorems prog_simps "facts on the state/error/divergence program type"
named_theorems frame_intros "programs that leave the extension of the media state alone"
named_theorems inv_intros "programs that preserve a state invariant"

section \<open>JSON values\<close>

text \<open>
  The values \<open>json.loads\<close> returns and \<open>json.dumps\<close> accepts: the tool arguments and
  results, the trace artifact and the decoded history are all of this type. A JSON object
  is the association list of its members in document order.
\<close>

datatype json =
    JNull
  | JBool bool
  | JInt int
  | JStr string
  | JList "json list"
  | JObj "(string \<times> json) list"

type_synonym kwargs = "(string \<times> json) list"

section \<open>Exceptions\<close>

text \<open>
  One constructor per exception the program raises or lets through; the comments name
  the Python exception.
\<close>

datatype error =
    KeyError string          \<comment> \<open>\<open>d[k]\<close> on a dict without key \<open>k\<close>\<close>
  | TypeError                \<comment> \<open>subscripting or iterating a value of the wrong type; bad keyword arguments\<close>
  | ToolNotFound string      \<comment> \<open>\<open>ValueError(f"Tool '{name}' not found.")\<close>\<close>
  | UnknownPartType json     \<comment> \<open>\<open>ValueError(f"Unknown part type: ...")\<close>\<close>
  | UnpackError              \<comment> \<open>\<open>ValueError\<close>: not enough values to unpack\<close>
  | IndexError               \<comment> \<open>\<open>xs[0]\<close> on an empty sequence\<close>
  | PermissionDenied         \<comment> \<open>\<open>google.api_core.exceptions.PermissionDenied\<close>\<close>
  | NetworkError string      \<comment> \<open>\<open>requests.get\<close> of the URL failed\<close>
  | JSONDecodeError          \<comment> \<open>\<open>json.loads\<close> of a body that is not JSON\<close>
  | ToolFailure string       \<comment> \<open>an exception raised inside the body of a tool\<close>

section \<open>Python dicts\<close>

text \<open>
  A Python \<open>dict\<close> keeps its keys in first-insertion order: assigning to a present key
  replaces the value in place, assigning to a new key appends it.
\<close>

fun dict_set :: "('k \<times> 'v) list \<Rightarrow> 'k \<Rightarrow> 'v \<Rightarrow> ('k \<times> 'v) list" where
  "dict_set [] k v = [(k, v)]"
| "dict_set ((k', v') # xs) k v =
     (if k' = k then (k, v) # xs else (k', v') # dict_set xs k v)"

lemma map_of_dict_set [dict_simps]: "map_of (dict_set xs k v) = (map_of xs)(k \<mapsto> v)"
  by (induction xs) (auto simp: fun_eq_iff)

lemma keys_dict_set [dict_simps]:
  "map fst (dict_set xs k v) = (if k \<in> set (map fst xs) then map fst xs else map fst xs @ [k])"
proof (induction xs)
  case Nil then show ?case by simp
next
  case (Cons p xs) then show ?case by (cases p) auto
qed

lemma distinct_dict_set [dict_simps]:
  "distinct (map fst xs) \<Longrightarrow> distinct (map fst (dict_set xs k v))"
  by (simp add: keys_dict_set)

lemma set_dict_set_sub [dict_simps]: "set (dict_set xs k v) \<subseteq> insert (k, v) (set xs)"
  by (induction xs) (auto split: if_splits)

lemma dict_set_present_length [dict_simps]:
  "k \<in> set (map fst xs) \<Longrightarrow> length (dict_set xs k v) = length xs"
proof (induction xs)
  case Nil then show ?case by simp
next
  case (Cons p xs) then show ?case by (cases p) auto
qed

text \<open>\<open>d[k]\<close> on a dict parsed by \<open>json.loads\<close>: the last member with that key wins.\<close>

definition dict_get :: "(string \<times> json) list \<Rightarrow> string \<Rightarrow> error + json" where
  "dict_get kvs k = (case map_of (rev kvs) k of None \<Rightarrow> Inl (KeyError k) | Some v \<Rightarrow> Inr v)"

text \<open>\<open>x[k]\<close> with a string key: only a dict can be subscripted so.\<close>

fun json_get :: "json \<Rightarrow> string \<Rightarrow> error + json" where
  "json_get (JObj kvs) k = dict_get kvs k"
| "json_get _ k = Inl TypeError"

text \<open>\<open>for x in v\<close>: a list yields its items, a dict its keys, a string its characters.\<close>

fun py_iter :: "json \<Rightarrow> error + json list" where
  "py_iter (JList xs) = Inr xs"
| "py_iter (JObj kvs) = Inr (map (\<lambda>kv. JStr (fst kv)) kvs)"
| "py_iter (JStr s) = Inr (map (\<lambda>c. JStr [c]) s)"
| "py_iter _ = Inl TypeError"

lemma map_of_rev_distinct [dict_simps]: "distinct (map fst xs) \<Longrightarrow> map_of (rev xs) = map_of xs"
proof
  fix k
  assume d: "distinct (map fst xs)"
  then have d': "distinct (map fst (rev xs))" by (simp add: rev_map [symmetric])
  show "map_of (rev xs) k = map_of xs k"
  proof (cases "map_of xs k")
    case None
    then have "map_of (rev xs) k = None" by (simp add: map_of_eq_None_iff)
    with None show ?thesis by simp
  next
    case (Some v)
    with d have "(k, v) \<in> set xs" by (simp add: map_of_eq_Some_iff)
    with d' Some show ?thesis by (simp add: map_of_eq_Some_iff)
  qed
qed

lemma dict_get_distinct [dict_simps]:
  "distinct (map fst kvs) \<Longrightarrow> dict_get kvs k = (case map_of kvs k of None \<Rightarrow> Inl (KeyError k) | Some v \<Rightarrow> Inr v)"
  by (simp add: dict_get_def map_of_rev_distinct)

lemma dict_get_missing [dict_simps]:
  assumes "k \<notin> fst ` set kvs"
  shows "dict_get kvs k = Inl (KeyError k)"
proof -
  from assms have "map_of (rev kvs) k = None" by (simp add: map_of_eq_None_iff)
  then show ?thesis by (simp add: dict_get_def)
qed

section \<open>Error-propagating traversal\<close>

text \<open>A \<open>for\<close> loop that builds a list and stops at the first exception.\<close>

fun emap :: "('a \<Rightarrow> error + 'b) \<Rightarrow> 'a list \<Rightarrow> error + 'b list" where
  "emap f [] = Inr []"
| "emap f (x # xs) =
     (case f x of Inl e \<Rightarrow> Inl e
      | Inr y \<Rightarrow> (case emap f xs of Inl e \<Rightarrow> Inl e | Inr ys \<Rightarrow> Inr (y # ys)))"

lemma emap_map [simp]: "(\<And>x. x \<in> set xs \<Longrightarrow> f x = Inr (g x)) \<Longrightarrow> emap f xs = Inr (map g xs)"
  by (induction xs) auto

lemma emap_map_inverse [simp]:
  "(\<And>x. x \<in> set xs \<Longrightarrow> f (h x) = Inr x) \<Longrightarrow> emap f (map h xs) = Inr xs"
  by (induction xs) auto

lemma emap_Inr_length: "emap f xs = Inr ys \<Longrightarrow> length ys = length xs"
  by (induction xs arbitrary: ys) (auto split: sum.splits)

lemma emap_Inr_elem: "emap f xs = Inr ys \<Longrightarrow> y \<in> set ys \<Longrightarrow> \<exists>x \<in> set xs. f x = Inr y"
  by (induction xs arbitrary: ys) (auto split: sum.splits)

lemma emap_first_error [simp]: "f x = Inl e \<Longrightarrow> emap f (x # xs) = Inl e"
  by simp

section \<open>Programs: state, exceptions and divergence\<close>

text \<open>
  An effectful operation takes the state, and either runs forever (\<open>None\<close>) or stops
  with a new state and a result or an exception. Mutations made before an exception
  stay in the state, as the process-wide dicts of the program keep them.
\<close>

type_synonym ('s, 'a) prog = "'s \<Rightarrow> ((error + 'a) \<times> 's) option"

definition ok :: "'a \<Rightarrow> ('s, 'a) prog" where
  "ok a s = Some (Inr a, s)"

definition throw :: "error \<Rightarrow> ('s, 'a) prog" where
  "throw e s = Some (Inl e, s)"

definition pbind :: "('s, 'a) prog \<Rightarrow> ('a \<Rightarrow> ('s, 'b) prog) \<Rightarrow> ('s, 'b) prog" where
  "pbind m f s =
     (case m s of None \<Rightarrow> None
      | Some (Inl e, s') \<Rightarrow> Some (Inl e, s')
      | Some (Inr a, s') \<Rightarrow> f a s')"

definition lift :: "error + 'a \<Rightarrow> ('s, 'a) prog" where
  "lift r s = Some (r, s)"

definition gets :: "('s \<Rightarrow> 'a) \<Rightarrow> ('s, 'a) prog" where
  "gets f s = Some (Inr (f s), s)"

definition modify :: "('s \<Rightarrow> 's) \<Rightarrow> ('s, unit) prog" where
  "modify f s = Some (Inr (), f s)"

text \<open>
  The outcome of a program run on a state of its own (a local object): its result, with
  the caller's state unchanged.
\<close>

definition run_local :: "((error + 'a) \<times> 't) option \<Rightarrow> ('s, 'a) prog" where
  "run_local r s = (case r of None \<Rightarrow> None | Some (x, t') \<Rightarrow> Some (x, s))"

text \<open>A program preserves a state predicate when every state it stops in from a state
  satisfying the predicate satisfies it again, whatever its result.\<close>

definition preserves :: "('s \<Rightarrow> bool) \<Rightarrow> ('s, 'a) prog \<Rightarrow> bool" where
  "preserves I m \<longleftrightarrow> (\<forall>s r s'. I s \<longrightarrow> m s = Some (r, s') \<longrightarrow> I s')"

lemma pbind_ok [simp, prog_simps]: "pbind (ok a) f = f a"
  by (simp add: pbind_def ok_def fun_eq_iff)

lemma pbind_throw [simp, prog_simps]: "pbind (throw e) f = throw e"
  by (simp add: pbind_def throw_def fun_eq_iff)

lemma pbind_ok_expanded [simp, prog_simps]: "pbind (\<lambda>s. Some (Inr a, s)) f = f a"
  by (simp add: pbind_def fun_eq_iff)

lemma pbind_throw_expanded [simp, prog_simps]:
  "pbind (\<lambda>s. Some (Inl e, s)) f = (\<lambda>s. Some (Inl e, s))"
  by (simp add: pbind_def fun_eq_iff)

lemma pbind_assoc [prog_simps]: "pbind (pbind m f) g = pbind m (\<lambda>a. pbind (f a) g)"
  by (auto simp: pbind_def fun_eq_iff split: option.splits sum.splits)

lemma pbind_apply [prog_simps]:
  "m s = Some (Inr a, s') \<Longrightarrow> pbind m f s = f a s'"
  "m s = Some (Inl e, s') \<Longrightarrow> pbind m f s = Some (Inl e, s')"
  "m s = None \<Longrightarrow> pbind m f s = None"
  by (simp_all add: pbind_def)

lemma lift_simps [simp, prog_simps]: "lift (Inr a) = ok a" "lift (Inl e) = throw e"
  by (simp_all add: lift_def ok_def throw_def fun_eq_iff)

lemma prog_apply [simp, prog_simps]:
  "ok a s = Some (Inr a, s)" "throw e s = Some (Inl e, s)"
  "gets f s = Some (Inr (f s), s)" "modify g s = Some (Inr (), g s)"
  by (simp_all add: ok_def throw_def gets_def modify_def)

lemma pbind_Some_Inr [prog_simps]:
  "pbind m f s = Some (Inr b, s'') \<Longrightarrow> \<exists>a s'. m s = Some (Inr a, s') \<and> f a s' = Some (Inr b, s'')"
  by (auto simp: pbind_def split: option.splits sum.splits)

lemma pbind_SomeE:
  assumes "pbind m f s = Some (r, s'')"
  obtains (Exc) e where "m s = Some (Inl e, s'')" and "r = Inl e"
    | (Ret) a s' where "m s = Some (Inr a, s')" and "f a s' = Some (r, s'')"
  using assms by (auto simp: pbind_def split: option.splits sum.splits)

lemma preservesD: "preserves I m \<Longrightarrow> I s \<Longrightarrow> m s = Some (r, s') \<Longrightarrow> I s'"
  unfolding preserves_def by blast

lemma preserves_ok [inv_intros]: "preserves I (ok a)"
  and preserves_lift [inv_intros]: "preserves I (lift x)"
  and preserves_throw [inv_intros]: "preserves I (throw e)"
  and preserves_run_local [inv_intros]: "preserves I (run_local r)"
  by (auto simp: preserves_def lift_def run_local_def split: option.splits)

lemma preserves_pbind [inv_intros]:
  "preserves I m \<Longrightarrow> (\<And>a. preserves I (f a)) \<Longrightarrow> preserves I (pbind m f)"
proof (unfold preserves_def, intro allI impI)
  fix s r s''
  assume m: "\<forall>s r s'. I s \<longrightarrow> m s = Some (r, s') \<longrightarrow> I s'"
    and f: "\<And>a. \<forall>s r s'. I s \<longrightarrow> f a s = Some (r, s') \<longrightarrow> I s'"
    and i: "I s" and run: "pbind m f s = Some (r, s'')"
  show "I s''"
  proof (cases "m s")
    case None
    with run show ?thesis by (simp add: pbind_def)
  next
    case (Some x)
    obtain v s' where x: "x = (v, s')" by (cases x)
    with Some m i have i': "I s'" by blast
    show ?thesis
    proof (cases v)
      case (Inl e)
      with Some x run i' show ?thesis by (simp add: pbind_def)
    next
      case (Inr a)
      with Some x run have "f a s' = Some (r, s'')" by (simp add: pbind_def)
      with f i' show ?thesis by blast
    qed
  qed
qed

lemma preserves_if [inv_intros]:
  "preserves I m1 \<Longrightarrow> preserves I m2 \<Longrightarrow> preserves I (if b then m1 else m2)"
  by simp

lemma preserves_case_option [inv_intros]:
  "preserves I m1 \<Longrightarrow> (\<And>x. preserves I (m2 x)) \<Longrightarrow> preserves I (case v of None \<Rightarrow> m1 | Some x \<Rightarrow> m2 x)"
  by (cases v) simp_all

lemma preserves_case_prod [inv_intros]:
  "(\<And>x y. preserves I (m x y)) \<Longrightarrow> preserves I (case p of (x, y) \<Rightarrow> m x y)"
  by (cases p) simp

lemma preserves_case_sum [inv_intros]:
  "(\<And>x. preserves I (m1 x)) \<Longrightarrow> (\<And>y. preserves I (m2 y)) \<Longrightarrow>
     preserves I (case v of Inl x \<Rightarrow> m1 x | Inr y \<Rightarrow> m2 y)"
  by (cases v) simp_all

lemma preserves_modify [inv_intros]:
  "(\<And>s. I s \<Longrightarrow> I (g s)) \<Longrightarrow> preserves I (modify g)"
  by (simp add: preserves_def)

text \<open>Python's \<open>in\<close> on strings: \<open>needle in hay\<close>.\<close>

fun str_contains :: "string \<Rightarrow> string \<Rightarrow> bool" where
  "str_contains n [] = (n = [])"
| "str_contains n (c # cs) = (take (length n) (c # cs) = n \<or> str_contains n cs)"

end
