(* ===== verification/Media.thy ===== *)
theory Media
  imports Prelude
begin

text \<open>
  The media cache and uploader of \<open>src/slack_agent/events/app_mention.py\<close>:
  \<open>SUPPORTED_MIME_TYPES\<close>, the process-wide \<open>file_upload_dict\<close> and its start-up fill
  from \<open>genai.list_files\<close>, and \<open>get_file_part\<close> with its unbounded polling loop for
  videos. The Gemini File API and Slack's file download are external; they are modelled
  as an explicit environment (a store of uploaded files with a clock, and a map from
  download URL to body), so that the program's calls to them are ordinary steps.
\<close>

section \<open>Supported media types\<close>

definition SUPPORTED_MIME_TYPES :: "string list" where
  "SUPPORTED_MIME_TYPES =
     [''image/png'', ''image/jpeg'', ''image/webp'', ''image/heic'', ''image/heif'',
      ''video/mp4'', ''video/mpeg'', ''video/avi'', ''video/x-flv'', ''video/mpg'',
      ''video/webm'', ''video/wmv'', ''video/3gpp'',
      ''audio/wav'', ''audio/mp3'', ''audio/aiff'', ''audio/aac'', ''audio/ogg'', ''audio/flac'',
      ''application/pdf'', ''application/x-javascript'', ''text/javascript'',
      ''application/x-python'', ''text/x-python'', ''text/plain'', ''text/html'', ''text/css'',
      ''text/md'', ''text/csv'', ''text/xml'', ''text/rtf'']"

section \<open>The Gemini File API (environment)\<close>

datatype file_state = STATE_UNSPECIFIED | PROCESSING | ACTIVE | FAILED

text \<open>A \<open>genai\<close> \<open>File\<close> object, with the fields the program reads.\<close>

record gfile =
  gname :: string
  display_name :: string
  gmime :: string
  gstate :: file_state

text \<open>
  What the backend keeps of an uploaded file: the time its processing ends
  (\<open>None\<close>: it never ends) and the state it ends in.
\<close>

record stored =
  st_display :: string
  st_mime :: string
  st_bytes :: string
  st_ready :: "nat option"
  st_final :: file_state

record backend =
  bfiles :: "string \<rightharpoonup> stored"
  clock :: nat
  uploads :: nat
  delay_of :: "string \<Rightarrow> nat option"
  outcome_of :: "string \<Rightarrow> file_state"

definition state_at :: "nat \<Rightarrow> stored \<Rightarrow> file_state" where
  "state_at t st =
     (case st_ready st of None \<Rightarrow> PROCESSING
      | Some r \<Rightarrow> if t < r then PROCESSING else st_final st)"

definition file_view :: "backend \<Rightarrow> string \<Rightarrow> stored \<Rightarrow> gfile" where
  "file_view b n st =
     \<lparr>gname = n, display_name = st_display st, gmime = st_mime st,
      gstate = state_at (clock b) st\<rparr>"

text \<open>\<open>genai.get_file(name)\<close>: a file the backend no longer has is \<open>PermissionDenied\<close>.\<close>

definition genai_get_file :: "backend \<Rightarrow> string \<Rightarrow> error + gfile" where
  "genai_get_file b n =
     (case bfiles b n of None \<Rightarrow> Inl PermissionDenied | Some st \<Rightarrow> Inr (file_view b n st))"

fun nat_digits :: "nat \<Rightarrow> string" where
  "nat_digits n =
     (if n < 10 then [char_of (48 + n)] else nat_digits (n div 10) @ [char_of (48 + n mod 10)])"

definition upload_name :: "backend \<Rightarrow> string" where
  "upload_name b = ''files/'' @ nat_digits (uploads b)"

text \<open>\<open>genai.upload_file(bytes, display_name=..., mime_type=...)\<close>.\<close>

definition genai_upload_file :: "backend \<Rightarrow> string \<Rightarrow> string \<Rightarrow> string \<Rightarrow> gfile \<times> backend" where
  "genai_upload_file b content disp mime =
     (let n = upload_name b;
          st = \<lparr>st_display = disp, st_mime = mime, st_bytes = content,
                st_ready = map_option (\<lambda>d. clock b + d) (delay_of b mime),
                st_final = outcome_of b mime\<rparr>;
          b' = b\<lparr>bfiles := (bfiles b)(n \<mapsto> st), uploads := Suc (uploads b)\<rparr>
      in (file_view b' n st, b'))"

text \<open>\<open>time.sleep(5)\<close>: five seconds pass on the backend's clock.\<close>

definition sleep5 :: "backend \<Rightarrow> backend" where
  "sleep5 b = b\<lparr>clock := clock b + 5\<rparr>"

text \<open>
  Gemini deletes an upload on its own (uploads expire; the comments at lines 105--111 of
  \<open>app_mention.py\<close>): afterwards \<open>genai.get_file\<close> on its name is \<open>PermissionDenied\<close>.
\<close>

definition genai_expire :: "backend \<Rightarrow> string \<Rightarrow> backend" where
  "genai_expire b n = b\<lparr>bfiles := (bfiles b)(n := None)\<rparr>"

section \<open>Slack file download (environment)\<close>

text \<open>
  The body \<open>requests.get(url_private_download)\<close> answers, or a network failure for a URL
  without one. An HTTP error response is a body like any other: the code does not call
  \<open>raise_for_status\<close> and uploads it.
\<close>

type_synonym downloads = "string \<rightharpoonup> string"

definition requests_get :: "downloads \<Rightarrow> string \<Rightarrow> error + string" where
  "requests_get dl url = (case dl url of None \<Rightarrow> Inl (NetworkError url) | Some c \<Rightarrow> Inr c)"

section \<open>The cache and \<open>get_file_part\<close>\<close>

text \<open>
  The process-wide state the handler closes over: \<open>file_upload_dict\<close>, from Slack file
  id (the upload's display name) to Gemini file name, and the Gemini backend itself.
\<close>

record mstate =
  file_upload_dict :: "string \<rightharpoonup> string"
  gemini :: backend

text \<open>Start-up: \<open>file_upload_dict[file.display_name] = file.name\<close> for every listed file.\<close>

definition init_upload_dict :: "gfile list \<Rightarrow> (string \<rightharpoonup> string)" where
  "init_upload_dict fs = fold (\<lambda>f d. d(display_name f \<mapsto> gname f)) fs Map.empty"

text \<open>\<open>while file.state.name == "PROCESSING": time.sleep(5); file = genai.get_file(file.name)\<close>\<close>

partial_function (option) wait_processing :: "gfile \<Rightarrow> ('a mstate_scheme, gfile) prog" where
  "wait_processing f s =
     (if gstate f = PROCESSING
      then (let s' = s\<lparr>gemini := sleep5 (gemini s)\<rparr> in
            case genai_get_file (gemini s') (gname f) of
              Inl e \<Rightarrow> Some (Inl e, s')
            | Inr f' \<Rightarrow> wait_processing f' s')
      else Some (Inr f, s))"

text \<open>Lines 103--111: the cache lookup; a file the backend lost is evicted.\<close>

definition lookup_cached :: "string \<Rightarrow> ('a mstate_scheme, gfile option) prog" where
  "lookup_cached file_id s =
     (case file_upload_dict s file_id of
        None \<Rightarrow> Some (Inr None, s)
      | Some name \<Rightarrow>
          (case genai_get_file (gemini s) name of
             Inr f \<Rightarrow> Some (Inr (Some f), s)
           | Inl e \<Rightarrow>
               (if e = PermissionDenied
                then Some (Inr None, s\<lparr>file_upload_dict := (file_upload_dict s)(file_id := None)\<rparr>)
                else Some (Inl e, s))))"

text \<open>Lines 113--117: download the attachment from Slack and upload it.\<close>

definition upload_from_slack :: "downloads \<Rightarrow> string \<Rightarrow> string \<Rightarrow> string \<Rightarrow> ('a mstate_scheme, gfile) prog" where
  "upload_from_slack dl file_url file_id mimetype s =
     (case requests_get dl file_url of
        Inl e \<Rightarrow> Some (Inl e, s)
      | Inr content \<Rightarrow>
          (let (f, b') = genai_upload_file (gemini s) content file_id mimetype
           in Some (Inr f, s\<lparr>gemini := b'\<rparr>)))"

definition get_file_part :: "downloads \<Rightarrow> string \<Rightarrow> string \<Rightarrow> string \<Rightarrow> ('a mstate_scheme, gfile option) prog" where
  "get_file_part dl file_url file_id mimetype =
     (if mimetype \<notin> set SUPPORTED_MIME_TYPES then ok None
      else
        pbind (lookup_cached file_id) (\<lambda>cached.
        pbind (case cached of None \<Rightarrow> upload_from_slack dl file_url file_id mimetype | Some f \<Rightarrow> ok f) (\<lambda>f.
        pbind (if str_contains ''video'' mimetype then wait_processing f else ok f) (\<lambda>f.
        pbind (modify (\<lambda>s. s\<lparr>file_upload_dict := (file_upload_dict s)(file_id \<mapsto> gname f)\<rparr>)) (\<lambda>_.
        ok (Some f))))))"


section \<open>Proof predicates and example states\<close>

text \<open>A program that leaves every field beyond the cache and the backend as it was.\<close>

definition keeps_more :: "('a mstate_scheme, 'b) prog \<Rightarrow> bool" where
  "keeps_more m \<longleftrightarrow> (\<forall>s r s'. m s = Some (r, s') \<longrightarrow> mstate.more s' = mstate.more s)"

text \<open>What the polling loop keeps: the cache, the stored files and the upload count;
  the clock only advances; a returned file is no longer processing and is current.\<close>

definition wait_post :: "gfile \<Rightarrow> 'a mstate_scheme \<Rightarrow> (error + gfile) \<times> 'a mstate_scheme \<Rightarrow> bool" where
  "wait_post f s r =
     (case r of (res, s') \<Rightarrow>
        file_upload_dict s' = file_upload_dict s \<and> bfiles (gemini s') = bfiles (gemini s)
        \<and> uploads (gemini s') = uploads (gemini s) \<and> clock (gemini s) \<le> clock (gemini s')
        \<and> (case res of Inl e \<Rightarrow> True
           | Inr f' \<Rightarrow> gstate f' \<noteq> PROCESSING \<and> gname f' = gname f
               \<and> (genai_get_file (gemini s) (gname f) = Inr f \<longrightarrow> genai_get_file (gemini s') (gname f') = Inr f')))"

text \<open>A file still processing whose processing the backend never finishes.\<close>

definition never_ready :: "gfile \<Rightarrow> 'a mstate_scheme \<Rightarrow> bool" where
  "never_ready f s \<longleftrightarrow> gstate f = PROCESSING
     \<and> (\<exists>st. bfiles (gemini s) (gname f) = Some st \<and> st_ready st = None)"

text \<open>A backend that processes an MP4 upload for 12 seconds and everything else at once.\<close>

definition example_backend :: backend where
  "example_backend = \<lparr>bfiles = Map.empty, clock = 0, uploads = 0,
     delay_of = (\<lambda>m. if m = ''video/mp4'' then Some 12 else Some 0), outcome_of = (\<lambda>m. ACTIVE)\<rparr>"

definition example_mstate :: mstate where
  "example_mstate = \<lparr>file_upload_dict = [''F01'' \<mapsto> ''files/7''], gemini = example_backend\<rparr>"

definition example_downloads :: downloads where
  "example_downloads = [''https://files.slack.com/F01'' \<mapsto> ''PNGDATA'', ''https://files.slack.com/F02'' \<mapsto> ''MP4DATA'']"

definition example_video :: stored where
  "example_video = \<lparr>st_display = ''F02'', st_mime = ''video/mp4'', st_bytes = ''MP4DATA'',
     st_ready = Some 12, st_final = ACTIVE\<rparr>"

definition example_stuck :: stored where
  "example_stuck = example_video\<lparr>st_ready := None\<rparr>"

section \<open>Lemmas\<close>

subsection \<open>The media layer touches only the cache and the backend\<close>

lemma keeps_more_ok [frame_intros]: "keeps_more (ok a)"
  by (simp add: keeps_more_def)

lemma keeps_more_lift [frame_intros]: "keeps_more (lift r)"
  by (simp add: keeps_more_def lift_def)

lemma keeps_more_pbind [frame_intros]:
  "keeps_more m \<Longrightarrow> (\<And>a. keeps_more (f a)) \<Longrightarrow> keeps_more (pbind m f)"
  unfolding keeps_more_def pbind_def
  by (fastforce split: option.splits sum.splits)

lemma keeps_more_if [frame_intros]:
  "keeps_more m1 \<Longrightarrow> keeps_more m2 \<Longrightarrow> keeps_more (if b then m1 else m2)"
  by simp

lemma keeps_more_case_option [frame_intros]:
  "keeps_more m1 \<Longrightarrow> (\<And>x. keeps_more (m2 x)) \<Longrightarrow> keeps_more (case v of None \<Rightarrow> m1 | Some x \<Rightarrow> m2 x)"
  by (cases v) simp_all

lemma keeps_more_case_prod [frame_intros]:
  "(\<And>x y. keeps_more (m x y)) \<Longrightarrow> keeps_more (case p of (x, y) \<Rightarrow> m x y)"
  by (cases p) simp

lemma keeps_more_modify_dict [frame_intros]:
  "keeps_more (modify (\<lambda>s. s\<lparr>file_upload_dict := g s\<rparr>))"
  by (simp add: keeps_more_def)

lemma keeps_more_lookup_cached [frame_intros]: "keeps_more (lookup_cached fid)"
  by (auto simp: keeps_more_def lookup_cached_def split: option.splits sum.splits if_splits)

lemma keeps_more_upload [frame_intros]: "keeps_more (upload_from_slack dl url fid mime)"
  by (auto simp: keeps_more_def upload_from_slack_def split: sum.splits prod.splits)

lemma wait_processing_more:
  assumes ret: "wait_processing f s = Some (r, s')"
  shows "mstate.more s' = mstate.more s"
proof -
  have "mstate.more (snd (r, s')) = mstate.more s"
  proof (rule wait_processing.raw_induct [where P = "\<lambda>f s r. mstate.more (snd r) = mstate.more s", OF _ ret])
    fix w :: "gfile \<Rightarrow> ('a mstate_scheme, gfile) prog" and f s r
    assume IH: "\<And>f s r. w f s = Some r \<Longrightarrow> mstate.more (snd r) = mstate.more s"
      and eq: "(if gstate f = PROCESSING
        then let s' = s\<lparr>gemini := sleep5 (gemini s)\<rparr>
             in case genai_get_file (gemini s') (gname f) of
                Inl e \<Rightarrow> Some (Inl e, s') | Inr f' \<Rightarrow> w f' s'
        else Some (Inr f, s)) = Some r"
    show "mstate.more (snd r) = mstate.more s"
      using eq by (auto simp: Let_def split: if_splits sum.splits dest: IH)
  qed
  then show ?thesis by simp
qed

lemma keeps_more_wait [frame_intros]: "keeps_more (wait_processing f)"
  by (auto simp: keeps_more_def dest: wait_processing_more)

lemma keeps_more_get_file_part [frame_intros]: "keeps_more (get_file_part dl url fid mime)"
  unfolding get_file_part_def by (intro frame_intros)

subsection \<open>Polling and resolution\<close>

lemma genai_get_file_name: "genai_get_file b n = Inr f \<Longrightarrow> gname f = n"
  by (auto simp: genai_get_file_def file_view_def split: option.splits)

lemma wait_processing_post:
  assumes "wait_processing f s = Some r"
  shows "wait_post f s r"
proof (rule wait_processing.raw_induct [where P = wait_post, OF _ assms])
  fix w :: "gfile \<Rightarrow> ('a mstate_scheme, gfile) prog" and f s r
  assume IH: "\<And>f s r. w f s = Some r \<Longrightarrow> wait_post f s r"
    and eq: "(if gstate f = PROCESSING
      then let s' = s\<lparr>gemini := sleep5 (gemini s)\<rparr>
           in case genai_get_file (gemini s') (gname f) of
              Inl e \<Rightarrow> Some (Inl e, s') | Inr f' \<Rightarrow> w f' s'
      else Some (Inr f, s)) = Some r"
  show "wait_post f s r"
  proof (cases "gstate f = PROCESSING")
    case False
    with eq show ?thesis by (auto simp: wait_post_def)
  next
    case True
    let ?s' = "s\<lparr>gemini := sleep5 (gemini s)\<rparr>"
    show ?thesis
    proof (cases "genai_get_file (gemini ?s') (gname f)")
      case (Inl e)
      with True eq show ?thesis by (auto simp: wait_post_def sleep5_def)
    next
      case (Inr f')
      with True eq have "w f' ?s' = Some r" by simp
      then have post: "wait_post f' ?s' r" by (rule IH)
      from Inr have "gname f' = gname f" by (rule genai_get_file_name)
      with Inr post show ?thesis
        by (auto simp: wait_post_def sleep5_def split: prod.splits sum.splits)
    qed
  qed
qed

lemma state_at_never: "st_ready st = None \<Longrightarrow> state_at t st = PROCESSING"
  by (simp add: state_at_def)

text \<open>
  C22: the video polling loop returns, with a file that is no longer processing, when the
  backend finishes processing the file at some time and in a state other than processing.
\<close>

theorem wait_processing_terminates:
  assumes "bfiles (gemini s) (gname f) = Some st" and "st_ready st = Some r"
    and "st_final st \<noteq> PROCESSING"
  shows "\<exists>f' s'. wait_processing f s = Some (Inr f', s')"
  using assms
proof (induction "r - clock (gemini s)" arbitrary: f s rule: less_induct)
  case less
  show ?case
  proof (cases "gstate f = PROCESSING")
    case False
    then show ?thesis by (simp add: wait_processing.simps)
  next
    case True
    let ?s' = "s\<lparr>gemini := sleep5 (gemini s)\<rparr>"
    let ?f' = "file_view (gemini ?s') (gname f) st"
    have get: "genai_get_file (gemini ?s') (gname f) = Inr ?f'"
      using less.prems by (simp add: genai_get_file_def sleep5_def)
    have stored': "bfiles (gemini ?s') (gname ?f') = Some st"
      using less.prems by (simp add: sleep5_def file_view_def)
    have "\<exists>f'' s''. wait_processing ?f' ?s' = Some (Inr f'', s'')"
    proof (cases "clock (gemini s) < r")
      case True
      then have "r - clock (gemini ?s') < r - clock (gemini s)"
        by (simp add: sleep5_def)
      from less.hyps [OF this stored' less.prems(2,3)] show ?thesis .
    next
      case False
      then have "gstate ?f' \<noteq> PROCESSING"
        using less.prems by (simp add: file_view_def state_at_def sleep5_def)
      then show ?thesis by (simp add: wait_processing.simps)
    qed
    with get show ?thesis
      by (subst wait_processing.simps) (simp add: True Let_def)
  qed
qed

text \<open>
  C30: the polling loop sleeps a whole number of 5-second intervals and, when the file was still
  processing, returns at the first poll after processing ended: at most 4 seconds late.
\<close>

theorem wait_processing_clock:
  assumes "bfiles (gemini s) (gname f) = Some st" and "st_ready st = Some r"
    and "st_final st \<noteq> PROCESSING" and "gstate f = state_at (clock (gemini s)) st"
  shows "\<exists>f' s' k. wait_processing f s = Some (Inr f', s') \<and> clock (gemini s') = clock (gemini s) + 5 * k \<and>
    (if clock (gemini s) < r then r \<le> clock (gemini s') \<and> clock (gemini s') < r + 5 else k = 0)"
  using assms
proof (induction "r - clock (gemini s)" arbitrary: f s rule: less_induct)
  case less
  show ?case
  proof (cases "clock (gemini s) < r")
    case False
    with less.prems have "gstate f \<noteq> PROCESSING" by (simp add: state_at_def)
    with False show ?thesis by (simp add: wait_processing.simps)
  next
    case True
    with less.prems have proc: "gstate f = PROCESSING" by (simp add: state_at_def)
    let ?s' = "s\<lparr>gemini := sleep5 (gemini s)\<rparr>"
    let ?f' = "file_view (gemini ?s') (gname f) st"
    have get: "genai_get_file (gemini ?s') (gname f) = Inr ?f'"
      using less.prems by (simp add: genai_get_file_def sleep5_def)
    have stored': "bfiles (gemini ?s') (gname ?f') = Some st"
      using less.prems by (simp add: sleep5_def file_view_def)
    have cur': "gstate ?f' = state_at (clock (gemini ?s')) st" by (simp add: file_view_def)
    have c': "clock (gemini ?s') = clock (gemini s) + 5" by (simp add: sleep5_def)
    from True have "r - clock (gemini ?s') < r - clock (gemini s)" by (simp add: sleep5_def)
    from less.hyps [OF this stored' less.prems(2,3) cur'] obtain f'' s'' k where
      run: "wait_processing ?f' ?s' = Some (Inr f'', s'')"
      and k: "clock (gemini s'') = clock (gemini ?s') + 5 * k"
      and b: "if clock (gemini ?s') < r then r \<le> clock (gemini s'') \<and> clock (gemini s'') < r + 5 else k = 0"
      by blast
    from k c' have "clock (gemini s'') = clock (gemini s) + 5 * Suc k" by simp
    moreover from b k c' True have "r \<le> clock (gemini s'') \<and> clock (gemini s'') < r + 5"
      by (auto split: if_splits)
    ultimately have "\<exists>k. clock (gemini s'') = clock (gemini s) + 5 * k \<and>
        r \<le> clock (gemini s'') \<and> clock (gemini s'') < r + 5" by blast
    with run get proc True show ?thesis
      by (subst wait_processing.simps) (simp add: Let_def)
  qed
qed

text \<open>
  C23: the video polling loop never returns when the backend never finishes processing the
  file: the loop has no bound on its iterations.
\<close>

theorem wait_processing_diverges:
  assumes "never_ready f s"
  shows "wait_processing f s = None"
proof (rule ccontr)
  assume "wait_processing f s \<noteq> None"
  then obtain r where ret: "wait_processing f s = Some r" by blast
  have "\<not> never_ready f s"
  proof (rule wait_processing.raw_induct [where P = "\<lambda>f s r. \<not> never_ready f s", OF _ ret])
    fix w :: "gfile \<Rightarrow> ('a mstate_scheme, gfile) prog" and f s r
    assume IH: "\<And>f s r. w f s = Some r \<Longrightarrow> \<not> never_ready f s"
      and eq: "(if gstate f = PROCESSING
        then let s' = s\<lparr>gemini := sleep5 (gemini s)\<rparr>
             in case genai_get_file (gemini s') (gname f) of
                Inl e \<Rightarrow> Some (Inl e, s') | Inr f' \<Rightarrow> w f' s'
        else Some (Inr f, s)) = Some r"
    show "\<not> never_ready f s"
    proof
      assume nr: "never_ready f s"
      then obtain st where st: "bfiles (gemini s) (gname f) = Some st" "st_ready st = None"
        and p: "gstate f = PROCESSING" by (auto simp: never_ready_def)
      let ?s' = "s\<lparr>gemini := sleep5 (gemini s)\<rparr>"
      let ?f' = "file_view (gemini ?s') (gname f) st"
      have get: "genai_get_file (gemini ?s') (gname f) = Inr ?f'"
        using st by (simp add: genai_get_file_def sleep5_def)
      with p eq have "w ?f' ?s' = Some r" by simp
      then have "\<not> never_ready ?f' ?s'" by (rule IH)
      moreover have "never_ready ?f' ?s'"
        using st by (simp add: never_ready_def file_view_def state_at_never sleep5_def)
      ultimately show False by contradiction
    qed
  qed
  with assms show False by contradiction
qed

lemma lookup_cached_Some:
  "lookup_cached fid s = Some (Inr (Some f), s') \<Longrightarrow>
     s' = s \<and> file_upload_dict s fid = Some (gname f) \<and> genai_get_file (gemini s) (gname f) = Inr f"
  by (auto simp: lookup_cached_def genai_get_file_name split: option.splits sum.splits if_splits)

lemma upload_from_slack_Inr:
  "upload_from_slack dl url fid mime s = Some (Inr f, s') \<Longrightarrow>
     genai_get_file (gemini s') (gname f) = Inr f \<and> file_upload_dict s' = file_upload_dict s"
  by (auto simp: upload_from_slack_def genai_upload_file_def genai_get_file_def file_view_def
      Let_def split: sum.splits)

lemma get_file_part_supported:
  "mimetype \<in> set SUPPORTED_MIME_TYPES \<Longrightarrow>
   get_file_part dl url fid mimetype =
     pbind (lookup_cached fid) (\<lambda>cached.
     pbind (case cached of None \<Rightarrow> upload_from_slack dl url fid mimetype | Some f \<Rightarrow> ok f) (\<lambda>f.
     pbind (if str_contains ''video'' mimetype then wait_processing f else ok f) (\<lambda>f.
     pbind (modify (\<lambda>s. s\<lparr>file_upload_dict := (file_upload_dict s)(fid \<mapsto> gname f)\<rparr>)) (\<lambda>_.
     ok (Some f)))))"
  by (simp add: get_file_part_def)

lemma get_file_part_post:
  assumes ret: "get_file_part dl url fid mime s = Some (Inr (Some f), s')"
  shows "file_upload_dict s' fid = Some (gname f) \<and> genai_get_file (gemini s') (gname f) = Inr f
    \<and> (str_contains ''video'' mime \<longrightarrow> gstate f \<noteq> PROCESSING)"
proof -
  have sup: "mime \<in> set SUPPORTED_MIME_TYPES"
    using ret by (auto simp: get_file_part_def split: if_splits)
  from ret obtain c s1 where c: "lookup_cached fid s = Some (Inr c, s1)"
    and r1: "pbind (case c of None \<Rightarrow> upload_from_slack dl url fid mime | Some f \<Rightarrow> ok f) (\<lambda>g.
       pbind (if str_contains ''video'' mime then wait_processing g else ok g) (\<lambda>h.
       pbind (modify (\<lambda>s. s\<lparr>file_upload_dict := (file_upload_dict s)(fid \<mapsto> gname h)\<rparr>)) (\<lambda>_.
       ok (Some h)))) s1 = Some (Inr (Some f), s')"
    using pbind_Some_Inr [OF ret [unfolded get_file_part_supported [OF sup]]] by blast
  from r1 obtain g s2 where g: "(case c of None \<Rightarrow> upload_from_slack dl url fid mime | Some f \<Rightarrow> ok f) s1 = Some (Inr g, s2)"
    and r2: "pbind (if str_contains ''video'' mime then wait_processing g else ok g) (\<lambda>h.
       pbind (modify (\<lambda>s. s\<lparr>file_upload_dict := (file_upload_dict s)(fid \<mapsto> gname h)\<rparr>)) (\<lambda>_.
       ok (Some h))) s2 = Some (Inr (Some f), s')"
    using pbind_Some_Inr [OF r1] by blast
  from r2 obtain h s3 where h: "(if str_contains ''video'' mime then wait_processing g else ok g) s2 = Some (Inr h, s3)"
    and r3: "pbind (modify (\<lambda>s. s\<lparr>file_upload_dict := (file_upload_dict s)(fid \<mapsto> gname h)\<rparr>)) (\<lambda>_.
       ok (Some h)) s3 = Some (Inr (Some f), s')"
    using pbind_Some_Inr [OF r2] by blast
  from r3 have fh: "f = h" and s': "s' = s3\<lparr>file_upload_dict := (file_upload_dict s3)(fid \<mapsto> gname h)\<rparr>"
    by (auto simp: pbind_def)
  have g_cur: "genai_get_file (gemini s2) (gname g) = Inr g"
  proof (cases c)
    case None
    with g show ?thesis by (auto dest: upload_from_slack_Inr)
  next
    case (Some g')
    with c g show ?thesis by (auto dest: lookup_cached_Some)
  qed
  have "genai_get_file (gemini s3) (gname h) = Inr h
    \<and> (str_contains ''video'' mime \<longrightarrow> gstate h \<noteq> PROCESSING)"
  proof (cases "str_contains ''video'' mime")
    case True
    with h have "wait_post g s2 (Inr h, s3)" by (simp add: wait_processing_post)
    with g_cur True show ?thesis by (auto simp: wait_post_def)
  next
    case False
    with h g_cur show ?thesis by simp
  qed
  with fh s' show ?thesis by simp
qed

section \<open>Properties\<close>

text \<open>
  C21: an attachment whose MIME type is not in \<open>SUPPORTED_MIME_TYPES\<close> contributes no
  part, and nothing is fetched, uploaded or cached.
\<close>

theorem get_file_part_unsupported:
  assumes "mime \<notin> set SUPPORTED_MIME_TYPES"
  shows "get_file_part dl url fid mime s = Some (Inr None, s)"
  using assms by (simp add: get_file_part_def)

text \<open>
  C18: resolving an attachment a second time, right after it was resolved, returns the same
  Gemini file and changes nothing: no download, no upload, no cache change.
\<close>

theorem get_file_part_idempotent:
  assumes ret: "get_file_part dl url fid mime s = Some (Inr (Some f), s')"
  shows "get_file_part dl' url' fid mime s' = Some (Inr (Some f), s')"
proof -
  have sup: "mime \<in> set SUPPORTED_MIME_TYPES"
    using ret by (auto simp: get_file_part_def split: if_splits)
  from ret have post: "file_upload_dict s' fid = Some (gname f)"
    "genai_get_file (gemini s') (gname f) = Inr f"
    "str_contains ''video'' mime \<longrightarrow> gstate f \<noteq> PROCESSING"
    by (simp_all add: get_file_part_post)
  from post(1,2) have look: "lookup_cached fid s' = Some (Inr (Some f), s')"
    by (simp add: lookup_cached_def)
  from post(3) have wait: "(if str_contains ''video'' mime then wait_processing f else ok f) s'
      = Some (Inr f, s')"
    by (simp add: wait_processing.simps)
  from post(1) have "s'\<lparr>file_upload_dict := (file_upload_dict s')(fid \<mapsto> gname f)\<rparr> = s'"
    by (simp add: fun_upd_idem)
  with look wait show ?thesis
    by (simp add: get_file_part_supported [OF sup] pbind_def)
qed

text \<open>
  C19: when the cached Gemini file is gone from the backend, the entry is evicted, the
  attachment is downloaded and uploaded exactly once, and the cache maps the Slack file id to
  the new upload.
\<close>

theorem get_file_part_evicted:
  assumes "mime \<in> set SUPPORTED_MIME_TYPES" and "\<not> str_contains ''video'' mime"
    and "file_upload_dict s fid = Some n" and "bfiles (gemini s) n = None"
    and "dl url = Some c"
  shows "get_file_part dl url fid mime s =
    (let (f, b') = genai_upload_file (gemini s) c fid mime
     in Some (Inr (Some f), s\<lparr>file_upload_dict := (file_upload_dict s)(fid \<mapsto> gname f), gemini := b'\<rparr>))"
proof -
  from assms(3,4) have look: "lookup_cached fid s =
      Some (Inr None, s\<lparr>file_upload_dict := (file_upload_dict s)(fid := None)\<rparr>)"
    by (simp add: lookup_cached_def genai_get_file_def)
  from assms(1,2,5) look show ?thesis
    by (simp add: get_file_part_supported pbind_def upload_from_slack_def requests_get_def
        split_def Let_def)
qed

text \<open>
  C20: when the cached file is gone and the download then fails, the network error propagates
  and the eviction stays in the process-wide cache.
\<close>

theorem get_file_part_download_error:
  assumes "mime \<in> set SUPPORTED_MIME_TYPES"
    and "file_upload_dict s fid = Some n" and "bfiles (gemini s) n = None"
    and "dl url = None"
  shows "get_file_part dl url fid mime s =
    Some (Inl (NetworkError url), s\<lparr>file_upload_dict := (file_upload_dict s)(fid := None)\<rparr>)"
proof -
  from assms(2,3) have look: "lookup_cached fid s =
      Some (Inr None, s\<lparr>file_upload_dict := (file_upload_dict s)(fid := None)\<rparr>)"
    by (simp add: lookup_cached_def genai_get_file_def)
  from assms(1,4) look show ?thesis
    by (simp add: get_file_part_supported pbind_def upload_from_slack_def requests_get_def)
qed

section \<open>Witnesses\<close>

theorem get_file_part_unsupported_witness:
  "''application/zip'' \<notin> set SUPPORTED_MIME_TYPES \<and>
   get_file_part example_downloads ''https://files.slack.com/F03'' ''F03'' ''application/zip'' example_mstate
     = Some (Inr None, example_mstate)"
  using get_file_part_unsupported [of "''application/zip''" example_downloads
      "''https://files.slack.com/F03''" "''F03''" example_mstate]
  by (simp add: SUPPORTED_MIME_TYPES_def)

theorem get_file_part_idempotent_witness:
  "\<exists>f s'. get_file_part example_downloads ''https://files.slack.com/F02'' ''F02'' ''video/mp4'' example_mstate
      = Some (Inr (Some f), s') \<and>
    get_file_part example_downloads ''https://files.slack.com/F02'' ''F02'' ''video/mp4'' s'
      = Some (Inr (Some f), s')"
proof -
  have "\<exists>f s'. get_file_part example_downloads ''https://files.slack.com/F02'' ''F02'' ''video/mp4''
      example_mstate = Some (Inr (Some f), s')"
    by (simp add: get_file_part_def SUPPORTED_MIME_TYPES_def example_mstate_def example_downloads_def
        example_backend_def pbind_def lookup_cached_def upload_from_slack_def requests_get_def
        genai_upload_file_def upload_name_def file_view_def state_at_def genai_get_file_def
        sleep5_def wait_processing.simps Let_def)
  then obtain f s' where r: "get_file_part example_downloads ''https://files.slack.com/F02'' ''F02''
      ''video/mp4'' example_mstate = Some (Inr (Some f), s')" by blast
  show ?thesis using r get_file_part_idempotent [OF r] by blast
qed

theorem get_file_part_evicted_witness:
  "''image/png'' \<in> set SUPPORTED_MIME_TYPES \<and> \<not> str_contains ''video'' ''image/png'' \<and>
   file_upload_dict example_mstate ''F01'' = Some ''files/7'' \<and>
   bfiles (gemini example_mstate) ''files/7'' = None \<and>
   example_downloads ''https://files.slack.com/F01'' = Some ''PNGDATA'' \<and>
   get_file_part example_downloads ''https://files.slack.com/F01'' ''F01'' ''image/png'' example_mstate =
    (let (f, b') = genai_upload_file (gemini example_mstate) ''PNGDATA'' ''F01'' ''image/png''
     in Some (Inr (Some f), example_mstate\<lparr>file_upload_dict := (file_upload_dict example_mstate)(''F01'' \<mapsto> gname f), gemini := b'\<rparr>))"
  using get_file_part_evicted [of "''image/png''" example_mstate "''F01''" "''files/7''"
      example_downloads "''https://files.slack.com/F01''" "''PNGDATA''"]
  by (simp add: SUPPORTED_MIME_TYPES_def example_mstate_def example_backend_def example_downloads_def)

theorem get_file_part_download_error_witness:
  "''image/png'' \<in> set SUPPORTED_MIME_TYPES \<and>
   file_upload_dict example_mstate ''F01'' = Some ''files/7'' \<and>
   bfiles (gemini example_mstate) ''files/7'' = None \<and>
   example_downloads ''https://files.slack.com/F09'' = None \<and>
   get_file_part example_downloads ''https://files.slack.com/F09'' ''F01'' ''image/png'' example_mstate =
    Some (Inl (NetworkError ''https://files.slack.com/F09''),
          example_mstate\<lparr>file_upload_dict := (file_upload_dict example_mstate)(''F01'' := None)\<rparr>)"
  using get_file_part_download_error [of "''image/png''" example_mstate "''F01''" "''files/7''"
      example_downloads "''https://files.slack.com/F09''"]
  by (simp add: SUPPORTED_MIME_TYPES_def example_mstate_def example_backend_def example_downloads_def)

theorem wait_processing_terminates_witness:
  "bfiles (gemini (example_mstate\<lparr>gemini := example_backend\<lparr>bfiles := [''files/0'' \<mapsto> example_video]\<rparr>\<rparr>)) ''files/0'' = Some example_video \<and>
   st_ready example_video = Some 12 \<and> st_final example_video \<noteq> PROCESSING \<and>
   (\<exists>f' s'. wait_processing \<lparr>gname = ''files/0'', display_name = ''F02'', gmime = ''video/mp4'', gstate = PROCESSING\<rparr>
      (example_mstate\<lparr>gemini := example_backend\<lparr>bfiles := [''files/0'' \<mapsto> example_video]\<rparr>\<rparr>) = Some (Inr f', s'))"
  using wait_processing_terminates [of
      "example_mstate\<lparr>gemini := example_backend\<lparr>bfiles := [''files/0'' \<mapsto> example_video]\<rparr>\<rparr>"
      "\<lparr>gname = ''files/0'', display_name = ''F02'', gmime = ''video/mp4'', gstate = PROCESSING\<rparr>"
      example_video 12]
  by (simp add: example_video_def)

theorem wait_processing_clock_witness:
  "\<exists>f' s'. wait_processing \<lparr>gname = ''files/0'', display_name = ''F02'', gmime = ''video/mp4'', gstate = PROCESSING\<rparr>
      (example_mstate\<lparr>gemini := example_backend\<lparr>bfiles := [''files/0'' \<mapsto> example_video]\<rparr>\<rparr>) = Some (Inr f', s')
    \<and> clock (gemini s') = 15"
proof -
  from wait_processing_clock [of
      "example_mstate\<lparr>gemini := example_backend\<lparr>bfiles := [''files/0'' \<mapsto> example_video]\<rparr>\<rparr>"
      "\<lparr>gname = ''files/0'', display_name = ''F02'', gmime = ''video/mp4'', gstate = PROCESSING\<rparr>"
      example_video 12]
  obtain f' s' k where run: "wait_processing \<lparr>gname = ''files/0'', display_name = ''F02'', gmime = ''video/mp4'', gstate = PROCESSING\<rparr>
      (example_mstate\<lparr>gemini := example_backend\<lparr>bfiles := [''files/0'' \<mapsto> example_video]\<rparr>\<rparr>) = Some (Inr f', s')"
    and k: "clock (gemini s') = 5 * k" and b: "12 \<le> clock (gemini s')" "clock (gemini s') < 17"
    by (auto simp: example_video_def example_mstate_def example_backend_def state_at_def)
  from k b have "clock (gemini s') = 15" by presburger
  with run show ?thesis by blast
qed

theorem wait_processing_diverges_witness:
  "never_ready \<lparr>gname = ''files/0'', display_name = ''F02'', gmime = ''video/mp4'', gstate = PROCESSING\<rparr>
      (example_mstate\<lparr>gemini := example_backend\<lparr>bfiles := [''files/0'' \<mapsto> example_stuck]\<rparr>\<rparr>) \<and>
   wait_processing \<lparr>gname = ''files/0'', display_name = ''F02'', gmime = ''video/mp4'', gstate = PROCESSING\<rparr>
      (example_mstate\<lparr>gemini := example_backend\<lparr>bfiles := [''files/0'' \<mapsto> example_stuck]\<rparr>\<rparr>) = None"
proof -
  have nr: "never_ready \<lparr>gname = ''files/0'', display_name = ''F02'', gmime = ''video/mp4'', gstate = PROCESSING\<rparr>
      (example_mstate\<lparr>gemini := example_backend\<lparr>bfiles := [''files/0'' \<mapsto> example_stuck]\<rparr>\<rparr>)"
    by (simp add: never_ready_def example_stuck_def)
  show ?thesis using nr wait_processing_diverges [OF nr] by simp
qed

end
