(* ===== verification/History.thy ===== *)
theory History
  imports Media
begin

text \<open>
  Conversation turns and parts as the handler builds them, the decoder of a
  \<open>function_call.json\<close> attachment (\<open>get_function_call_history\<close>), and the records the
  handler writes into that attachment after a turn with tool calls. \<open>json.loads\<close> is a
  parameter of the decoder: the JSON library is outside the program.
\<close>

section \<open>Turns and parts\<close>

text \<open>
  A part is a text string, an uploaded Gemini file, a \<open>FunctionCall\<close> proto or a
  \<open>FunctionResponse\<close> proto (whose \<open>response\<close> is the JSON dict it carries).
  A turn is the dict \<open>{"role": ..., "parts": [...]}\<close>; its role is whatever value the
  code put there.
\<close>

datatype part =
    PText string
  | PFile gfile
  | PCall string kwargs
  | PResp string json

record turn =
  role :: json
  parts :: "part list"

section \<open>Decoding a history attachment\<close>

text \<open>Proto constructors: \<open>name=\<close> takes a string and \<open>args=\<close> a dict, else \<open>TypeError\<close>.\<close>

fun as_string :: "json \<Rightarrow> error + string" where
  "as_string (JStr s) = Inr s"
| "as_string _ = Inl TypeError"

fun as_struct :: "json \<Rightarrow> error + kwargs" where
  "as_struct (JObj kvs) = Inr kvs"
| "as_struct _ = Inl TypeError"

text \<open>Lines 77--94: one element of \<open>message["parts"]\<close>.\<close>

definition decode_part :: "json \<Rightarrow> error + part" where
  "decode_part elem =
     (case json_get elem ''part_type'' of
        Inl e \<Rightarrow> Inl e
      | Inr pt \<Rightarrow>
          (if pt = JStr ''function_call'' then
             (case json_get elem ''name'' of Inl e \<Rightarrow> Inl e | Inr n \<Rightarrow>
              case json_get elem ''args'' of Inl e \<Rightarrow> Inl e | Inr a \<Rightarrow>
              case as_string n of Inl e \<Rightarrow> Inl e | Inr n' \<Rightarrow>
              case as_struct a of Inl e \<Rightarrow> Inl e | Inr a' \<Rightarrow> Inr (PCall n' a'))
           else if pt = JStr ''function_response'' then
             (case json_get elem ''name'' of Inl e \<Rightarrow> Inl e | Inr n \<Rightarrow>
              case json_get elem ''value'' of Inl e \<Rightarrow> Inl e | Inr v \<Rightarrow>
              case as_string n of Inl e \<Rightarrow> Inl e | Inr n' \<Rightarrow>
                Inr (PResp n' (JObj [(''result'', v)])))
           else Inl (UnknownPartType pt)))"

text \<open>Lines 74--95: one message of the attachment becomes one turn.\<close>

definition decode_message :: "json \<Rightarrow> error + turn" where
  "decode_message m =
     (case json_get m ''parts'' of Inl e \<Rightarrow> Inl e | Inr ps \<Rightarrow>
      case py_iter ps of Inl e \<Rightarrow> Inl e | Inr elems \<Rightarrow>
      case emap decode_part elems of Inl e \<Rightarrow> Inl e | Inr prts \<Rightarrow>
      case json_get m ''role'' of Inl e \<Rightarrow> Inl e | Inr r \<Rightarrow>
        Inr \<lparr>role = r, parts = prts\<rparr>)"

definition decode_history :: "json \<Rightarrow> error + turn list" where
  "decode_history v =
     (case py_iter v of Inl e \<Rightarrow> Inl e | Inr msgs \<Rightarrow> emap decode_message msgs)"

text \<open>Lines 70--97: download the attachment, parse it, decode it.\<close>

definition get_function_call_history ::
  "downloads \<Rightarrow> (string \<Rightarrow> json option) \<Rightarrow> string \<Rightarrow> error + turn list" where
  "get_function_call_history dl loads file_url =
     (case requests_get dl file_url of
        Inl e \<Rightarrow> Inl e
      | Inr body \<Rightarrow>
          (case loads body of None \<Rightarrow> Inl JSONDecodeError | Some v \<Rightarrow> decode_history v))"

section \<open>The trace the handler writes\<close>

text \<open>
  Lines 188--194 and 207--213: each executed call and each response is one record of
  \<open>function_call_history\<close>; the attachment's body is \<open>json.dumps\<close> of their list.
\<close>

datatype trace_rec = CallRec string kwargs | RespRec string json

fun rec_json :: "trace_rec \<Rightarrow> json" where
  "rec_json (CallRec n a) =
     JObj [(''part_type'', JStr ''function_call''), (''name'', JStr n), (''args'', JObj a)]"
| "rec_json (RespRec n r) =
     JObj [(''part_type'', JStr ''function_response''), (''name'', JStr n), (''response'', r)]"

definition trace_json :: "trace_rec list \<Rightarrow> json" where
  "trace_json tr = JList (map rec_json tr)"

section \<open>The format the decoder reads\<close>

text \<open>
  The attachment layout \<open>get_function_call_history\<close> was written for: a list of
  \<open>{"role", "parts"}\<close> messages whose parts carry \<open>args\<close> or \<open>value\<close>. Nothing in
  the program writes it; it states what the decoder accepts.
\<close>

fun part_json :: "part \<Rightarrow> json" where
  "part_json (PCall n a) =
     JObj [(''part_type'', JStr ''function_call''), (''name'', JStr n), (''args'', JObj a)]"
| "part_json (PResp n r) =
     JObj [(''part_type'', JStr ''function_response''), (''name'', JStr n),
           (''value'', (case r of JObj [(k, v)] \<Rightarrow> v | _ \<Rightarrow> JNull))]"
| "part_json p = JNull"

definition turn_json :: "turn \<Rightarrow> json" where
  "turn_json t = JObj [(''role'', role t), (''parts'', JList (map part_json (parts t)))]"

definition replayable_part :: "part \<Rightarrow> bool" where
  "replayable_part p =
     (case p of PCall n a \<Rightarrow> True
      | PResp n r \<Rightarrow> (case r of JObj [(k, v)] \<Rightarrow> k = ''result'' | _ \<Rightarrow> False)
      | _ \<Rightarrow> False)"


section \<open>Lemmas\<close>

lemma decode_message_rec: "decode_message (rec_json r) = Inl (KeyError ''parts'')"
  by (cases r) (simp_all add: decode_message_def dict_get_def)

lemma decode_part_replayable: "decode_part elem = Inr p \<Longrightarrow> replayable_part p"
  by (auto simp: decode_part_def replayable_part_def split: sum.splits if_splits json.splits)

lemma decode_message_parts:
  "decode_message m = Inr t \<Longrightarrow> \<exists>elems. emap decode_part elems = Inr (parts t)"
  by (auto simp: decode_message_def split: sum.splits)

section \<open>Properties\<close>

text \<open>
  C3: a call record the handler writes decodes to the same \<open>FunctionCall\<close>, but a
  response record never decodes: the writer stores the result under \<open>response\<close>, the
  decoder reads \<open>value\<close>.
\<close>

theorem decode_part_rec:
  "decode_part (rec_json r) =
     (case r of CallRec n a \<Rightarrow> Inr (PCall n a) | RespRec n v \<Rightarrow> Inl (KeyError ''value''))"
  by (cases r) (simp_all add: decode_part_def dict_get_def)

text \<open>
  C2: the decoder rejects every non-empty trace the handler attaches: the attachment is a
  flat list of records, and the decoder looks up \<open>parts\<close> in its first element.
\<close>

theorem decode_trace_fails:
  assumes "tr \<noteq> []"
  shows "decode_history (trace_json tr) = Inl (KeyError ''parts'')"
proof -
  from assms obtain r rs where tr: "tr = r # rs" by (cases tr) auto
  have "decode_message (rec_json r) = Inl (KeyError ''parts'')"
    by (rule decode_message_rec)
  with tr show ?thesis by (simp add: decode_history_def trace_json_def)
qed

lemma decode_part_json:
  "replayable_part p \<Longrightarrow> decode_part (part_json p) = Inr p"
  by (cases p) (auto simp: replayable_part_def decode_part_def dict_get_def
      split: json.splits list.splits prod.splits if_splits)

text \<open>
  C24: the decoder reads back, turn for turn and part for part, any history written in the
  nested \<open>{"role", "parts"}\<close> layout whose parts are calls or \<open>{"result": v}\<close> responses.
\<close>

theorem decode_history_roundtrip:
  assumes "\<forall>t \<in> set ts. \<forall>p \<in> set (parts t). replayable_part p"
  shows "decode_history (JList (map turn_json ts)) = Inr ts"
proof -
  have "decode_message (turn_json t) = Inr t" if "t \<in> set ts" for t
  proof -
    from assms that have "emap decode_part (map part_json (parts t)) = Inr (parts t)"
      by (simp add: decode_part_json)
    then show ?thesis by (simp add: decode_message_def turn_json_def dict_get_def)
  qed
  then show ?thesis by (simp add: decode_history_def)
qed

text \<open>
  C25: an element whose \<open>part_type\<close> is neither \<open>function_call\<close> nor
  \<open>function_response\<close> is a hard \<open>Unknown part type\<close> error.
\<close>

theorem decode_unknown:
  assumes "json_get elem ''part_type'' = Inr pt"
    and "pt \<noteq> JStr ''function_call''" and "pt \<noteq> JStr ''function_response''"
  shows "decode_part elem = Inl (UnknownPartType pt)"
  using assms by (simp add: decode_part_def)

text \<open>
  C31: whatever attachment the decoder accepts, every part of every turn it returns is a
  \<open>FunctionCall\<close> or a \<open>FunctionResponse\<close> whose response is \<open>{"result": v}\<close>: the only
  part types the replayed history can contain.
\<close>

theorem decode_history_parts_type:
  assumes "decode_history v = Inr ts" and "t \<in> set ts" and "p \<in> set (parts t)"
  shows "replayable_part p"
proof -
  from assms(1) obtain msgs where "emap decode_message msgs = Inr ts"
    by (auto simp: decode_history_def split: sum.splits)
  from emap_Inr_elem [OF this assms(2)] obtain m where "decode_message m = Inr t" by blast
  from decode_message_parts [OF this] obtain elems where "emap decode_part elems = Inr (parts t)" by blast
  from emap_Inr_elem [OF this assms(3)] obtain e where "decode_part e = Inr p" by blast
  then show ?thesis by (rule decode_part_replayable)
qed

section \<open>Witnesses\<close>

theorem decode_history_parts_type_witness:
  "decode_history (JList [JObj [(''role'', JStr ''model''), (''parts'', JList
       [JObj [(''part_type'', JStr ''function_call''), (''name'', JStr ''get_current_weather''),
              (''args'', JObj [(''city'', JStr ''Tokyo'')])]])]])
     = Inr [\<lparr>role = JStr ''model'', parts = [PCall ''get_current_weather'' [(''city'', JStr ''Tokyo'')]]\<rparr>] \<and>
   replayable_part (PCall ''get_current_weather'' [(''city'', JStr ''Tokyo'')])"
proof -
  have run: "decode_history (JList [JObj [(''role'', JStr ''model''), (''parts'', JList
       [JObj [(''part_type'', JStr ''function_call''), (''name'', JStr ''get_current_weather''),
              (''args'', JObj [(''city'', JStr ''Tokyo'')])]])]])
     = Inr [\<lparr>role = JStr ''model'', parts = [PCall ''get_current_weather'' [(''city'', JStr ''Tokyo'')]]\<rparr>]"
    by (simp add: decode_history_def decode_message_def decode_part_def dict_get_def)
  from decode_history_parts_type [OF run] run show ?thesis by simp
qed

theorem decode_trace_fails_witness:
  "[CallRec ''get_current_weather'' [(''city'', JStr ''Tokyo'')],
    RespRec ''get_current_weather'' (JObj [(''weather'', JStr ''sunny'')])] \<noteq> [] \<and>
   decode_history (trace_json [CallRec ''get_current_weather'' [(''city'', JStr ''Tokyo'')],
       RespRec ''get_current_weather'' (JObj [(''weather'', JStr ''sunny'')])])
     = Inl (KeyError ''parts'')"
  using decode_trace_fails [of "[CallRec ''get_current_weather'' [(''city'', JStr ''Tokyo'')],
       RespRec ''get_current_weather'' (JObj [(''weather'', JStr ''sunny'')])]"]
  by simp

theorem decode_history_roundtrip_witness:
  "decode_history (JList (map turn_json
      [\<lparr>role = JStr ''model'', parts = [PCall ''get_current_weather'' [(''city'', JStr ''Tokyo'')]]\<rparr>,
       \<lparr>role = JStr ''user'', parts = [PResp ''get_current_weather'' (JObj [(''result'', JStr ''sunny'')])]\<rparr>]))
   = Inr [\<lparr>role = JStr ''model'', parts = [PCall ''get_current_weather'' [(''city'', JStr ''Tokyo'')]]\<rparr>,
          \<lparr>role = JStr ''user'', parts = [PResp ''get_current_weather'' (JObj [(''result'', JStr ''sunny'')])]\<rparr>]"
  by (rule decode_history_roundtrip) (simp add: replayable_part_def)

theorem decode_unknown_witness:
  "json_get (JObj [(''part_type'', JStr ''image'')]) ''part_type'' = Inr (JStr ''image'') \<and>
   JStr ''image'' \<noteq> JStr ''function_call'' \<and> JStr ''image'' \<noteq> JStr ''function_response'' \<and>
   decode_part (JObj [(''part_type'', JStr ''image'')]) = Inl (UnknownPartType (JStr ''image''))"
  using decode_unknown [of "JObj [(''part_type'', JStr ''image'')]" "JStr ''image''"]
  by (simp add: dict_get_def)

end
