(* ===== verification/Thread.thy ===== *)
theory Thread
  imports History
begin

text \<open>
  The thread reconstructor \<open>get_thread_messages\<close> of
  \<open>src/slack_agent/events/app_mention.py\<close>: it walks the Slack thread oldest first,
  turns each message into a \<open>user\<close> or \<open>model\<close> turn of resolved attachments and text,
  splices in the turns of any \<open>function_call.json\<close> attachment, and splits off the last
  turn as the new message. Slack itself is an environment: the thread each
  \<open>conversations_replies\<close> call returns, the bodies behind download URLs, and the
  \<open>json.loads\<close> of those bodies.
\<close>

section \<open>Slack data\<close>

text \<open>A file of a Slack message: \<open>file["id"]\<close>, \<open>["name"]\<close>, \<open>["mimetype"]\<close>, \<open>["url_private_download"]\<close>.\<close>

record sfile =
  sf_id :: string
  sf_name :: string
  sf_mimetype :: string
  sf_url :: string

text \<open>
  A message of \<open>conversations_replies\<close>: whether it has a \<open>bot_profile\<close>, its
  \<open>text\<close> if present, and its \<open>files\<close> (an absent key and an empty list behave alike).
\<close>

record smessage =
  bot_profile :: bool
  stext :: "string option"
  sfiles :: "sfile list"

record slack_env =
  downloads :: downloads
  loads :: "string \<Rightarrow> json option"
  replies :: "string \<Rightarrow> string \<Rightarrow> smessage list"

text \<open>The reserved name of the trace attachment (line 137).\<close>

definition TRACE_FILE_NAME :: string where
  "TRACE_FILE_NAME = ''function_call.json''"

section \<open>Reconstruction\<close>

definition msg_role :: "smessage \<Rightarrow> json" where
  "msg_role m = (if bot_profile m then JStr ''model'' else JStr ''user'')"

definition text_parts :: "smessage \<Rightarrow> part list" where
  "text_parts m = (case stext m of None \<Rightarrow> [] | Some t \<Rightarrow> [PText t])"

text \<open>
  Lines 136--146: the files of one message. A trace attachment appends its decoded turns
  to \<open>thread_messages\<close>; any other file is resolved by \<open>get_file_part\<close> and, if it
  yields a file, becomes a part of the current message.
\<close>

fun thread_files ::
  "slack_env \<Rightarrow> sfile list \<Rightarrow> turn list \<Rightarrow> part list \<Rightarrow> ('a mstate_scheme, turn list \<times> part list) prog" where
  "thread_files env [] tms ps = ok (tms, ps)"
| "thread_files env (f # fs) tms ps =
     (if sf_name f = TRACE_FILE_NAME
      then pbind (lift (get_function_call_history (downloads env) (loads env) (sf_url f)))
             (\<lambda>h. thread_files env fs (tms @ h) ps)
      else pbind (get_file_part (downloads env) (sf_url f) (sf_id f) (sf_mimetype f))
             (\<lambda>fp. thread_files env fs tms (case fp of None \<Rightarrow> ps | Some g \<Rightarrow> ps @ [PFile g])))"

text \<open>Lines 132--151: one Slack message.\<close>

definition thread_message :: "slack_env \<Rightarrow> turn list \<Rightarrow> smessage \<Rightarrow> ('a mstate_scheme, turn list) prog" where
  "thread_message env tms m =
     pbind (thread_files env (sfiles m) tms [])
       (\<lambda>(tms', ps). ok (tms' @ [\<lparr>role = msg_role m, parts = ps @ text_parts m\<rparr>]))"

fun thread_loop :: "slack_env \<Rightarrow> smessage list \<Rightarrow> turn list \<Rightarrow> ('a mstate_scheme, turn list) prog" where
  "thread_loop env [] tms = ok tms"
| "thread_loop env (m # ms) tms = pbind (thread_message env tms m) (\<lambda>tms'. thread_loop env ms tms')"

text \<open>Line 153: \<open>*history, message = thread_messages\<close>.\<close>

definition split_last :: "turn list \<Rightarrow> error + turn \<times> turn list" where
  "split_last tms = (if tms = [] then Inl UnpackError else Inr (last tms, butlast tms))"

definition get_thread_messages ::
  "slack_env \<Rightarrow> string \<Rightarrow> string \<Rightarrow> ('a mstate_scheme, turn \<times> turn list) prog" where
  "get_thread_messages env channel thread_ts =
     pbind (thread_loop env (replies env channel thread_ts) []) (\<lambda>tms. lift (split_last tms))"

text \<open>The turn a message without attachments becomes.\<close>

definition plain_turn :: "smessage \<Rightarrow> turn" where
  "plain_turn m = \<lparr>role = msg_role m, parts = text_parts m\<rparr>"


fun is_file_part :: "part \<Rightarrow> bool" where
  "is_file_part (PFile g) = True"
| "is_file_part _ = False"

section \<open>Example thread\<close>

text \<open>
  A mention, the bot's reply that used a tool (its text and the trace attachment the
  handler posted), and a follow-up mention; and a thread without attachments.
\<close>

definition example_trace_file :: sfile where
  "example_trace_file = \<lparr>sf_id = ''F10'', sf_name = ''function_call.json'',
     sf_mimetype = ''application/json'', sf_url = ''https://files.slack.com/F10''\<rparr>"

definition example_thread :: "smessage list" where
  "example_thread =
     [\<lparr>bot_profile = False, stext = Some ''<@U0BOT> weather in Tokyo?'', sfiles = []\<rparr>,
      \<lparr>bot_profile = True, stext = Some ''It is sunny in Tokyo.'', sfiles = [example_trace_file]\<rparr>,
      \<lparr>bot_profile = False, stext = Some ''<@U0BOT> and tomorrow?'', sfiles = []\<rparr>]"

definition example_plain_thread :: "smessage list" where
  "example_plain_thread =
     [\<lparr>bot_profile = False, stext = Some ''<@U0BOT> hello'', sfiles = []\<rparr>,
      \<lparr>bot_profile = True, stext = Some ''Hello!'', sfiles = []\<rparr>,
      \<lparr>bot_profile = False, stext = Some ''<@U0BOT> thanks'', sfiles = []\<rparr>]"

definition example_trace :: "trace_rec list" where
  "example_trace = [CallRec ''get_current_weather'' [(''city'', JStr ''Tokyo'')],
     RespRec ''get_current_weather'' (JObj [(''city'', JStr ''Tokyo''), (''weather'', JStr ''sunny'')])]"

definition example_env :: slack_env where
  "example_env =
     \<lparr>downloads = [''https://files.slack.com/F10'' \<mapsto> ''TRACE-BODY''],
      loads = (\<lambda>b. if b = ''TRACE-BODY'' then Some (trace_json example_trace) else None),
      replies = (\<lambda>ch ts. if ts = ''1700000000.000100'' then example_thread
                        else if ts = ''1700000000.000200'' then example_plain_thread else [])\<rparr>"

section \<open>Lemmas and properties\<close>

lemma keeps_more_thread_files [frame_intros]: "keeps_more (thread_files env fs tms ps)"
  by (induction fs arbitrary: tms ps) (simp_all add: frame_intros)

lemma keeps_more_thread_loop [frame_intros]: "keeps_more (thread_loop env ms tms)"
  by (induction ms arbitrary: tms) (simp_all add: thread_message_def frame_intros)

lemma keeps_more_get_thread_messages [frame_intros]: "keeps_more (get_thread_messages env ch ts)"
  unfolding get_thread_messages_def by (intro frame_intros)

lemma thread_loop_append:
  "thread_loop env (xs @ ys) tms s = pbind (thread_loop env xs tms) (\<lambda>t. thread_loop env ys t) s"
  by (induction xs arbitrary: tms s) (auto simp: pbind_def split: option.splits sum.splits)

lemma thread_message_plain:
  "sfiles m = [] \<Longrightarrow> thread_message env tms m s = Some (Inr (tms @ [plain_turn m]), s)"
  by (simp add: thread_message_def plain_turn_def)

lemma thread_loop_plain:
  "\<forall>m \<in> set ms. sfiles m = [] \<Longrightarrow> thread_loop env ms tms s = Some (Inr (tms @ map plain_turn ms), s)"
  by (induction ms arbitrary: tms) (simp_all add: thread_message_plain pbind_def)

lemma thread_files_shape:
  "thread_files env fs tms ps s = Some (Inr (tms', ps'), s') \<Longrightarrow>
     (\<exists>h. tms' = tms @ h) \<and> (\<exists>fps. ps' = ps @ fps \<and> list_all is_file_part fps)"
proof (induction fs arbitrary: tms ps s)
  case Nil
  then show ?case by simp
next
  case (Cons f fs)
  show ?case
  proof (cases "sf_name f = TRACE_FILE_NAME")
    case True
    with Cons.prems obtain h s1 where
      "thread_files env fs (tms @ h) ps s1 = Some (Inr (tms', ps'), s')"
      by (auto simp: pbind_def lift_def split: sum.splits)
    from Cons.IH [OF this] show ?thesis by auto
  next
    case False
    with Cons.prems obtain fp s1 where
      "thread_files env fs tms (case fp of None \<Rightarrow> ps | Some g \<Rightarrow> ps @ [PFile g]) s1 = Some (Inr (tms', ps'), s')"
      by (auto simp: pbind_def split: option.splits sum.splits)
    from Cons.IH [OF this] show ?thesis
      by (cases fp) auto
  qed
qed

lemma thread_message_shape:
  assumes "thread_message env tms m s = Some (Inr tms', s')"
  shows "\<exists>pre fps. tms' = pre @ [\<lparr>role = msg_role m, parts = fps @ text_parts m\<rparr>] \<and> list_all is_file_part fps"
proof -
  from assms obtain tms1 ps s1 where
    tf: "thread_files env (sfiles m) tms [] s = Some (Inr (tms1, ps), s1)"
    and eq: "tms' = tms1 @ [\<lparr>role = msg_role m, parts = ps @ text_parts m\<rparr>]"
    by (auto simp: thread_message_def pbind_def split: option.splits sum.splits prod.splits)
  from thread_files_shape [OF tf] eq show ?thesis by auto
qed

lemma thread_loop_last:
  assumes "thread_loop env ms tms s = Some (Inr tms', s')" and "ms \<noteq> []"
  shows "\<exists>fps. last tms' = \<lparr>role = msg_role (last ms), parts = fps @ text_parts (last ms)\<rparr> \<and> list_all is_file_part fps"
  using assms
proof (induction ms arbitrary: tms s)
  case Nil
  then show ?case by simp
next
  case (Cons m ms)
  from Cons.prems(1) obtain tms1 s1 where
    tm: "thread_message env tms m s = Some (Inr tms1, s1)"
    and rest: "thread_loop env ms tms1 s1 = Some (Inr tms', s')"
    by (auto simp: pbind_def split: option.splits sum.splits)
  show ?case
  proof (cases "ms = []")
    case True
    with rest tm show ?thesis by (auto dest: thread_message_shape)
  next
    case False
    from Cons.IH [OF rest False] False show ?thesis by simp
  qed
qed

text \<open>
  C17: a thread with no messages makes the unpacking \<open>*history, message = ...\<close> fail, and
  nothing is resolved or cached.
\<close>

theorem get_thread_messages_empty:
  "replies env ch ts = [] \<Longrightarrow> get_thread_messages env ch ts s = Some (Inl UnpackError, s)"
  by (simp add: get_thread_messages_def split_last_def)

text \<open>
  C16: for a thread of N messages without attachments, the new message is the last message
  as a turn (its role from \<open>bot_profile\<close>, its text) and the history is the other N-1
  messages as turns, in thread order; no state changes.
\<close>

theorem get_thread_messages_plain:
  assumes "replies env ch ts \<noteq> []" and "\<forall>m \<in> set (replies env ch ts). sfiles m = []"
  shows "get_thread_messages env ch ts s =
     Some (Inr (plain_turn (last (replies env ch ts)), map plain_turn (butlast (replies env ch ts))), s)"
  using assms by (simp add: get_thread_messages_def thread_loop_plain split_last_def map_butlast last_map pbind_def)

text \<open>
  C15: whenever reconstruction succeeds, the new message is the turn of the last Slack message
  of the thread: its role, its resolved attachments, then its text.
\<close>

theorem get_thread_messages_last:
  assumes "get_thread_messages env ch ts s = Some (Inr (msg, hist), s')"
  shows "\<exists>fps. msg = \<lparr>role = msg_role (last (replies env ch ts)), parts = fps @ text_parts (last (replies env ch ts))\<rparr>
    \<and> list_all is_file_part fps"
proof -
  from assms obtain tms s1 where
    tl: "thread_loop env (replies env ch ts) [] s = Some (Inr tms, s1)"
    and sp: "split_last tms = Inr (msg, hist)"
    by (auto simp: get_thread_messages_def pbind_def lift_def split: option.splits sum.splits)
  from sp have ne: "tms \<noteq> []" and m: "msg = last tms" by (auto simp: split_last_def split: if_splits)
  have "replies env ch ts \<noteq> []"
  proof
    assume "replies env ch ts = []"
    with tl ne show False by simp
  qed
  from thread_loop_last [OF tl this] m show ?thesis by simp
qed

lemma get_thread_messages_trace:
  assumes "replies env ch ts = pre @ m # post" and "\<forall>x \<in> set pre. sfiles x = []"
    and "sfiles m = f # fs" and "sf_name f = TRACE_FILE_NAME"
    and "downloads env (sf_url f) = Some body" and "loads env body = Some (trace_json tr)"
    and "tr \<noteq> []"
  shows "get_thread_messages env ch ts s = Some (Inl (KeyError ''parts''), s)"
proof -
  from assms(7) obtain r rs where tr: "tr = r # rs" by (cases tr) auto
  have "get_function_call_history (downloads env) (loads env) (sf_url f) = Inl (KeyError ''parts'')"
    using assms(5,6) tr
    by (simp add: get_function_call_history_def requests_get_def decode_history_def trace_json_def
        decode_message_rec)
  with assms(3,4) have "thread_message env (map plain_turn pre) m s = Some (Inl (KeyError ''parts''), s)"
    by (simp add: thread_message_def pbind_def)
  with assms(1,2) show ?thesis
    by (simp add: get_thread_messages_def thread_loop_append thread_loop_plain pbind_def)
qed

section \<open>Witnesses\<close>

theorem get_thread_messages_empty_witness:
  "replies example_env ''C01'' ''1700000000.000900'' = [] \<and>
   get_thread_messages example_env ''C01'' ''1700000000.000900'' example_mstate
     = Some (Inl UnpackError, example_mstate)"
  using get_thread_messages_empty [of example_env "''C01''" "''1700000000.000900''" example_mstate]
  by (simp add: example_env_def)

theorem get_thread_messages_plain_witness:
  "get_thread_messages example_env ''C01'' ''1700000000.000200'' example_mstate =
     Some (Inr (plain_turn (last example_plain_thread), map plain_turn (butlast example_plain_thread)),
           example_mstate)"
  using get_thread_messages_plain [of example_env "''C01''" "''1700000000.000200''" example_mstate]
  by (simp add: example_env_def example_plain_thread_def)

theorem get_thread_messages_last_witness:
  "\<exists>msg hist s'. get_thread_messages example_env ''C01'' ''1700000000.000200'' example_mstate
      = Some (Inr (msg, hist), s') \<and>
    (\<exists>fps. msg = \<lparr>role = JStr ''user'', parts = fps @ [PText ''<@U0BOT> thanks'']\<rparr> \<and> list_all is_file_part fps)"
proof -
  have run: "get_thread_messages example_env ''C01'' ''1700000000.000200'' example_mstate =
     Some (Inr (plain_turn (last example_plain_thread), map plain_turn (butlast example_plain_thread)),
           example_mstate)"
    by (simp add: get_thread_messages_def example_env_def example_plain_thread_def pbind_def
        thread_message_def plain_turn_def split_last_def)
  have last_msg: "last (replies example_env ''C01'' ''1700000000.000200'') =
      \<lparr>bot_profile = False, stext = Some ''<@U0BOT> thanks'', sfiles = []\<rparr>"
    by (simp add: example_env_def example_plain_thread_def)
  from get_thread_messages_last [OF run] last_msg show ?thesis
    using run by (auto simp: msg_role_def text_parts_def)
qed

lemma example_thread_fails:
  "get_thread_messages example_env ''C01'' ''1700000000.000100'' example_mstate =
     Some (Inl (KeyError ''parts''), example_mstate)"
proof (rule get_thread_messages_trace)
  show "replies example_env ''C01'' ''1700000000.000100'' =
      [hd example_thread] @ example_thread ! 1 # [example_thread ! 2]"
    by (simp add: example_env_def example_thread_def)
  show "\<forall>x \<in> set [hd example_thread]. sfiles x = []"
    by (simp add: example_thread_def)
  show "sfiles (example_thread ! 1) = example_trace_file # []"
    by (simp add: example_thread_def)
  show "sf_name example_trace_file = TRACE_FILE_NAME"
    by (simp add: example_trace_file_def TRACE_FILE_NAME_def)
  show "downloads example_env (sf_url example_trace_file) = Some ''TRACE-BODY''"
    by (simp add: example_env_def example_trace_file_def)
  show "loads example_env ''TRACE-BODY'' = Some (trace_json example_trace)"
    by (simp add: example_env_def)
  show "example_trace \<noteq> []"
    by (simp add: example_trace_def)
qed

end
