(* ===== verification/Registry.thy ===== *)
theory Registry
  imports Prelude
begin

text \<open>
  The tool registry of \<open>src/slack_agent/functions/utils/registry.py\<close> and the one tool
  of \<open>src/slack_agent/functions/example.py\<close>. The module-level dict
  \<open>_function_registry\<close> is an association list from tool name to tool, in Python's
  insertion order; a tool is a Python function, that is its \<open>__name__\<close> and a body
  from keyword arguments to a JSON result or an exception.
\<close>

section \<open>Data\<close>

record tool_fn =
  fn_name :: string
  fn_body :: "kwargs \<Rightarrow> error + json"

type_synonym registry = "(string \<times> tool_fn) list"

definition function_registry_init :: registry where
  "function_registry_init = []"

section \<open>Operations\<close>

text \<open>\<open>register\<close> is a decorator: it stores the function under its name and returns it.\<close>

definition register :: "tool_fn \<Rightarrow> registry \<Rightarrow> tool_fn \<times> registry" where
  "register f r = (f, dict_set r (fn_name f) f)"

definition get_functions :: "registry \<Rightarrow> tool_fn list" where
  "get_functions r = map snd r"

definition call_function :: "registry \<Rightarrow> string \<Rightarrow> kwargs \<Rightarrow> error + json" where
  "call_function r name kw =
     (case map_of r name of
        None \<Rightarrow> Inl (ToolNotFound name)
      | Some f \<Rightarrow> fn_body f kw)"

section \<open>The example tool\<close>

text \<open>
  \<open>get_current_weather(city)\<close> called with \<open>**kwargs\<close>: exactly the keyword \<open>city\<close>
  is accepted, anything else is a \<open>TypeError\<close> of the call.
\<close>

definition get_current_weather_body :: "kwargs \<Rightarrow> error + json" where
  "get_current_weather_body kw =
     (case kw of
        [(k, city)] \<Rightarrow>
          (if k = ''city''
           then Inr (JObj [(''city'', city), (''weather'', JStr ''sunny''),
                           (''temperature'', JInt 30), (''unit'', JStr ''C'')])
           else Inl TypeError)
      | _ \<Rightarrow> Inl TypeError)"

definition get_current_weather :: tool_fn where
  "get_current_weather = \<lparr>fn_name = ''get_current_weather'', fn_body = get_current_weather_body\<rparr>"

text \<open>The registry once the package has been imported: the decorator has run once.\<close>

definition module_registry :: registry where
  "module_registry = snd (register get_current_weather function_registry_init)"

section \<open>Invariant and abstraction\<close>

text \<open>Keys are distinct and every tool is stored under its own \<open>__name__\<close>.\<close>

definition registry_ok :: "registry \<Rightarrow> bool" where
  "registry_ok r \<longleftrightarrow> distinct (map fst r) \<and> (\<forall>p \<in> set r. fn_name (snd p) = fst p)"

text \<open>The abstract registry is the finite map from names to tools.\<close>

abbreviation registry_abs :: "registry \<Rightarrow> string \<rightharpoonup> tool_fn" where
  "registry_abs r \<equiv> map_of r"

lemma registry_abs_register [simp]:
  "registry_abs (snd (register f r)) = (registry_abs r)(fn_name f \<mapsto> f)"
  by (simp add: register_def map_of_dict_set)

lemma call_function_abs: "call_function r n kw =
     (case registry_abs r n of None \<Rightarrow> Inl (ToolNotFound n) | Some f \<Rightarrow> fn_body f kw)"
  by (simp add: call_function_def)

lemma registry_ok_init [simp]: "registry_ok function_registry_init"
  by (simp add: registry_ok_def function_registry_init_def)

lemma module_registry_eq:
  "module_registry = [(''get_current_weather'', get_current_weather)]"
  by (simp add: module_registry_def register_def function_registry_init_def get_current_weather_def)

lemma registry_names_register:
  assumes "\<forall>p \<in> set r. fn_name (snd p) = fst p"
  shows "\<forall>p \<in> set (snd (register f r)). fn_name (snd p) = fst p"
proof -
  have "set (dict_set r (fn_name f) f) \<subseteq> insert (fn_name f, f) (set r)"
    by (rule set_dict_set_sub)
  with assms show ?thesis by (auto simp: register_def)
qed

lemma registry_ok_names:
  "registry_ok r \<Longrightarrow> map fn_name (get_functions r) = map fst r"
  by (simp add: get_functions_def registry_ok_def)

section \<open>Properties\<close>

text \<open>
  C26: registering a tool makes \<open>call_function\<close> under its name run that tool's body,
  and leaves every other name as it was (a re-registration overwrites).
\<close>

theorem call_after_register:
  "call_function (snd (register f r)) n kw =
     (if n = fn_name f then fn_body f kw else call_function r n kw)"
  by (simp add: call_function_abs)

text \<open>
  C27: \<open>register\<close> keeps the registry invariant: distinct names, each tool under its
  own name.
\<close>

theorem register_preserves_ok:
  assumes "registry_ok r"
  shows "registry_ok (snd (register f r))"
proof -
  from assms have "\<forall>p \<in> set r. fn_name (snd p) = fst p"
    by (simp add: registry_ok_def)
  then have "\<forall>p \<in> set (snd (register f r)). fn_name (snd p) = fst p"
    by (rule registry_names_register)
  with assms show ?thesis
    by (simp add: registry_ok_def register_def distinct_dict_set)
qed

text \<open>
  C28: calling a name that no tool was registered under raises the
  \<open>Tool '...' not found.\<close> error and runs no tool.
\<close>

theorem call_unregistered:
  assumes "n \<notin> fst ` set r"
  shows "call_function r n kw = Inl (ToolNotFound n)"
proof -
  from assms have "map_of r n = None" by (simp add: map_of_eq_None_iff)
  then show ?thesis by (simp add: call_function_def)
qed

text \<open>
  C29: \<open>get_functions\<close> lists the tools in first-registration order: a new name is
  appended, a re-registered name keeps its place and takes the new tool.
\<close>

theorem get_functions_register:
  assumes "registry_ok r"
  shows "map fn_name (get_functions (snd (register f r))) =
    (if fn_name f \<in> set (map fn_name (get_functions r))
     then map fn_name (get_functions r) else map fn_name (get_functions r) @ [fn_name f])"
proof -
  from assms have "\<forall>p \<in> set r. fn_name (snd p) = fst p"
    by (simp add: registry_ok_def)
  then have "\<forall>p \<in> set (snd (register f r)). fn_name (snd p) = fst p"
    by (rule registry_names_register)
  then have "map fn_name (get_functions (snd (register f r))) = map fst (snd (register f r))"
    by (simp add: get_functions_def)
  with assms show ?thesis
    by (simp add: registry_ok_names register_def keys_dict_set)
qed

section \<open>Witnesses\<close>

theorem register_preserves_ok_witness:
  "registry_ok function_registry_init \<and>
   registry_ok (snd (register get_current_weather function_registry_init))"
  using register_preserves_ok [OF registry_ok_init, of get_current_weather] by simp

theorem call_unregistered_witness:
  "''web_search'' \<notin> fst ` set module_registry \<and>
   call_function module_registry ''web_search'' [] = Inl (ToolNotFound ''web_search'')"
  using call_unregistered [of "''web_search''" module_registry "[]"]
  by (simp add: module_registry_eq)

theorem get_functions_register_witness:
  "registry_ok function_registry_init \<and>
   map fn_name (get_functions (snd (register get_current_weather function_registry_init))) =
     [''get_current_weather'']"
  using get_functions_register [OF registry_ok_init, of get_current_weather]
  by (simp add: get_functions_def register_def function_registry_init_def get_current_weather_def
      registry_ok_def)

end
