(* ===== verification/Orchestrator.thy ===== *)
theory Orchestrator
  imports Thread Registry
begin

text \<open>
  The app-mention handler \<open>event_fun\<close> of \<open>src/slack_agent/events/app_mention.py\<close>:
  it acknowledges the event, builds the new message (from the thread, or from the event's
  own text and files), opens a chat with the history, runs the send / inspect / execute /
  resend loop until the model answers without tool calls, and posts the answer, with the
  call trace attached when tools ran. The Gemini model is an oracle from the chat history
  to the parts of its next response; the chat session is the list of turns it has seen.
\<close>

section \<open>The model and the chat session\<close>

type_synonym llm = "turn list \<Rightarrow> part list"

text \<open>\<open>model.start_chat(history=history)\<close>: \<open>None\<close> is an empty history.\<close>

definition start_chat :: "turn list option \<Rightarrow> turn list" where
  "start_chat hist = (case hist of None \<Rightarrow> [] | Some h \<Rightarrow> h)"

text \<open>
  \<open>chat.send_message(content)\<close>: the content joins the history, the model answers on the
  whole history, and its answer joins the history as a \<open>model\<close> turn.
\<close>

definition send_message :: "llm \<Rightarrow> turn list \<Rightarrow> turn \<Rightarrow> part list \<times> turn list" where
  "send_message model h msg =
     (let h' = h @ [msg]; r = model h' in (r, h' @ [\<lparr>role = JStr ''model'', parts = r\<rparr>]))"

section \<open>One round of tool calls\<close>

text \<open>Line 181: \<open>[part for part in response.parts if part.function_call]\<close>.\<close>

fun function_calls :: "part list \<Rightarrow> (string \<times> kwargs) list" where
  "function_calls [] = []"
| "function_calls (PCall n a # ps) = (n, a) # function_calls ps"
| "function_calls (p # ps) = function_calls ps"

text \<open>
  Lines 183--194: every call is executed in order; its result is stored in the dict
  \<open>function_responses\<close> under the tool's name (a later call of the same tool overwrites
  the value, the key keeps its first position) and a call record is appended to the trace.
\<close>

fun run_calls ::
  "registry \<Rightarrow> (string \<times> kwargs) list \<Rightarrow> (string \<times> json) list \<Rightarrow> trace_rec list
     \<Rightarrow> error + (string \<times> json) list \<times> trace_rec list" where
  "run_calls reg [] resps tr = Inr (resps, tr)"
| "run_calls reg ((n, a) # cs) resps tr =
     (case call_function reg n a of
        Inl e \<Rightarrow> Inl e
      | Inr v \<Rightarrow> run_calls reg cs (dict_set resps n v) (tr @ [CallRec n a]))"

text \<open>Lines 196--213: one \<open>FunctionResponse\<close> part and one response record per dict entry.\<close>

definition response_parts :: "(string \<times> json) list \<Rightarrow> part list" where
  "response_parts resps = map (\<lambda>(n, v). PResp n (JObj [(''result'', v)])) resps"

definition response_recs :: "(string \<times> json) list \<Rightarrow> trace_rec list" where
  "response_recs resps = map (\<lambda>(n, v). RespRec n v) resps"

definition tool_round :: "registry \<Rightarrow> (string \<times> kwargs) list \<Rightarrow> error + part list \<times> trace_rec list" where
  "tool_round reg calls =
     (case run_calls reg calls [] [] of
        Inl e \<Rightarrow> Inl e
      | Inr (resps, tr) \<Rightarrow> Inr (response_parts resps, tr @ response_recs resps))"

section \<open>The tool-calling loop\<close>

text \<open>
  Lines 181--215, over the chat history: while the last response has tool calls, run them
  and send their results. The loop has no bound; it ends only when the model answers
  without calls, so it is a partial function.
\<close>

partial_function (option) tool_loop ::
  "registry \<Rightarrow> llm \<Rightarrow> part list \<Rightarrow> trace_rec list \<Rightarrow> (turn list, part list \<times> trace_rec list) prog" where
  "tool_loop reg model resp tr h =
     (if function_calls resp = [] then Some (Inr (resp, tr), h)
      else
        (case tool_round reg (function_calls resp) of
           Inl e \<Rightarrow> Some (Inl e, h)
         | Inr (rparts, rrecs) \<Rightarrow>
             (case send_message model h \<lparr>role = JStr ''user'', parts = rparts\<rparr> of
                (resp', h') \<Rightarrow> tool_loop reg model resp' (tr @ rrecs) h')))"

text \<open>Line 217: \<open>response.candidates[0].content.parts[0].text\<close>.\<close>

definition final_text :: "part list \<Rightarrow> error + string" where
  "final_text ps = (case ps of [] \<Rightarrow> Inl IndexError | p # _ \<Rightarrow> Inr (case p of PText t \<Rightarrow> t | _ \<Rightarrow> []))"

text \<open>Lines 177--217: one chat turn, from the new message to the answer and its trace.\<close>

definition chat_turn ::
  "registry \<Rightarrow> llm \<Rightarrow> turn list option \<Rightarrow> turn \<Rightarrow> ((error + string \<times> trace_rec list) \<times> turn list) option" where
  "chat_turn reg model hist msg =
     (case send_message model (start_chat hist) msg of
        (resp, h1) \<Rightarrow>
          (case tool_loop reg model resp [] h1 of
             None \<Rightarrow> None
           | Some (Inl e, h2) \<Rightarrow> Some (Inl e, h2)
           | Some (Inr (resp', tr), h2) \<Rightarrow>
               Some (case final_text resp' of Inl e \<Rightarrow> Inl e | Inr t \<Rightarrow> Inr (t, tr), h2)))"

section \<open>The reply\<close>

text \<open>
  Lines 218--227: with a trace, \<open>files_upload_v2\<close> posts the trace as
  \<open>function_call.json\<close> (its body \<open>json.dumps\<close> of the records) with the answer as
  the comment; without one, \<open>say\<close> posts the answer. Both reply in the thread of the
  event's own timestamp.
\<close>

datatype reply =
    Say string string string
  | FileUpload string string json string string

definition publish :: "string \<Rightarrow> string \<Rightarrow> string \<Rightarrow> trace_rec list \<Rightarrow> reply" where
  "publish message channel event_ts tr =
     (if tr \<noteq> [] then FileUpload TRACE_FILE_NAME message (trace_json tr) channel event_ts
      else Say message channel event_ts)"

section \<open>The handler\<close>

text \<open>The \<open>event\<close> dict: channel, ts, text, files and, for a mention in a thread, thread_ts.\<close>

record event =
  ev_channel :: string
  ev_ts :: string
  ev_text :: string
  ev_files :: "sfile list"
  ev_thread_ts :: "string option"

text \<open>The process state: the media cache and backend, the acknowledged events, the posts.\<close>

record world = mstate +
  acks :: "string list"
  posted :: "reply list"

text \<open>Lines 169--175: the files of a mention outside a thread.\<close>

fun event_files :: "slack_env \<Rightarrow> sfile list \<Rightarrow> part list \<Rightarrow> ('a mstate_scheme, part list) prog" where
  "event_files env [] msg = ok msg"
| "event_files env (f # fs) msg =
     pbind (get_file_part (downloads env) (sf_url f) (sf_id f) (sf_mimetype f))
       (\<lambda>fp. event_files env fs (case fp of None \<Rightarrow> msg | Some g \<Rightarrow> msg @ [PFile g]))"

text \<open>Lines 163--175: the new message and the history (\<open>None\<close> outside a thread).\<close>

definition build_message :: "slack_env \<Rightarrow> event \<Rightarrow> ('a mstate_scheme, turn \<times> turn list option) prog" where
  "build_message env ev =
     (case ev_thread_ts ev of
        Some tts \<Rightarrow> pbind (get_thread_messages env (ev_channel ev) tts) (\<lambda>(m, h). ok (m, Some h))
      | None \<Rightarrow>
          pbind (event_files env (ev_files ev) [PText (ev_text ev)])
            (\<lambda>ps. ok (\<lparr>role = JStr ''user'', parts = ps\<rparr>, None)))"

definition event_fun :: "registry \<Rightarrow> llm \<Rightarrow> slack_env \<Rightarrow> event \<Rightarrow> (world, unit) prog" where
  "event_fun reg model env ev =
     pbind (modify (\<lambda>w. w\<lparr>acks := acks w @ [ev_ts ev]\<rparr>)) (\<lambda>_.
     pbind (build_message env ev) (\<lambda>(msg, hist).
     pbind (run_local (chat_turn reg model hist msg)) (\<lambda>(txt, tr).
     modify (\<lambda>w. w\<lparr>posted := posted w @ [publish txt (ev_channel ev) (ev_ts ev) tr]\<rparr>))))"


section \<open>Proof predicates, test doubles and example states\<close>

text \<open>Every call of a call list runs its tool without an exception.\<close>

definition calls_ok :: "registry \<Rightarrow> (string \<times> kwargs) list \<Rightarrow> bool" where
  "calls_ok reg cs =
     list_all (\<lambda>c. case call_function reg (fst c) (snd c) of Inr v \<Rightarrow> True | Inl e \<Rightarrow> False) cs"

text \<open>The trace records one round of tool calls adds.\<close>

definition round_trace :: "registry \<Rightarrow> part list \<Rightarrow> trace_rec list" where
  "round_trace reg r = (case tool_round reg (function_calls r) of Inl e \<Rightarrow> [] | Inr (ps, recs) \<Rightarrow> recs)"

text \<open>
  A scripted model: on a chat that started with \<open>base\<close> turns, its i-th answer is the
  i-th response of the script (each send adds the sent turn and the answer).
\<close>

definition scripted :: "nat \<Rightarrow> part list list \<Rightarrow> llm" where
  "scripted base rs h = (let i = (length h - Suc base) div 2 in if i < length rs then rs ! i else [])"

text \<open>A model that calls registered tools in every answer.\<close>

definition keeps_calling :: "registry \<Rightarrow> llm \<Rightarrow> part list \<Rightarrow> bool" where
  "keeps_calling reg model resp \<longleftrightarrow>
     (\<forall>h. function_calls (model h) \<noteq> [] \<and> calls_ok reg (function_calls (model h)))
     \<and> function_calls resp \<noteq> [] \<and> calls_ok reg (function_calls resp)"

definition example_world :: world where
  "example_world = \<lparr>file_upload_dict = Map.empty, gemini = example_backend, acks = [], posted = []\<rparr>"

definition example_event :: event where
  "example_event = \<lparr>ev_channel = ''C01'', ev_ts = ''1700000000.000300'',
     ev_text = ''<@U0BOT> weather in Tokyo?'', ev_files = [], ev_thread_ts = None\<rparr>"

definition weather_model :: llm where
  "weather_model h =
     (if length h = 1 then [PCall ''get_current_weather'' [(''city'', JStr ''Tokyo'')]]
      else [PText ''It is sunny in Tokyo.''])"

definition search_model :: llm where
  "search_model h = [PCall ''web_search'' [(''query'', JStr ''Tokyo'')]]"

definition greeting_model :: llm where
  "greeting_model h = [PText ''Hello!'']"

definition weather_rounds :: "part list list" where
  "weather_rounds = [[PCall ''get_current_weather'' [(''city'', JStr ''Tokyo'')]], [PText ''It is sunny in Tokyo.'']]"

definition weather_loop_model :: llm where
  "weather_loop_model h = [PCall ''get_current_weather'' [(''city'', JStr ''Tokyo'')]]"

section \<open>Lemmas\<close>

lemma run_calls_ok:
  assumes "calls_ok reg cs" and "distinct (map fst resps)"
  shows "\<exists>resps'. run_calls reg cs resps tr = Inr (resps', tr @ map (\<lambda>(n, a). CallRec n a) cs)
    \<and> distinct (map fst resps') \<and> set (map fst resps') = set (map fst resps) \<union> fst ` set cs"
  using assms
proof (induction cs arbitrary: resps tr)
  case Nil
  then show ?case by simp
next
  case (Cons c cs)
  obtain n a where c: "c = (n, a)" by (cases c)
  from Cons.prems c obtain v where v: "call_function reg n a = Inr v" and rest: "calls_ok reg cs"
    by (auto simp: calls_ok_def split: sum.splits)
  from Cons.prems(2) have d: "distinct (map fst (dict_set resps n v))" by (rule distinct_dict_set)
  from Cons.IH [OF rest d, of "tr @ [CallRec n a]"] obtain resps' where
    "run_calls reg cs (dict_set resps n v) (tr @ [CallRec n a]) = Inr (resps', tr @ [CallRec n a] @ map (\<lambda>(n, a). CallRec n a) cs)"
    and "distinct (map fst resps')"
    and "set (map fst resps') = set (map fst (dict_set resps n v)) \<union> fst ` set cs" by auto
  with c v show ?case by (auto simp: keys_dict_set split: if_splits)
qed

lemma tool_round_ok:
  assumes "calls_ok reg (function_calls r)"
  shows "\<exists>rp. tool_round reg (function_calls r) = Inr (rp, round_trace reg r)"
proof -
  from run_calls_ok [OF assms, of "[]" "[]"] obtain resps' where
    rc: "run_calls reg (function_calls r) [] [] = Inr (resps', map (\<lambda>(n, a). CallRec n a) (function_calls r))"
    by auto
  then show ?thesis by (simp add: tool_round_def round_trace_def)
qed

lemma scripted_index:
  "scripted base rs h = (if (length h - Suc base) div 2 < length rs then rs ! ((length h - Suc base) div 2) else [])"
  by (simp add: scripted_def Let_def)

lemma tool_loop_scripted:
  assumes "i < length rs" and "length h = base + 2 * i + 2"
    and "\<forall>j. Suc j < length rs \<longrightarrow> function_calls (rs ! j) \<noteq> [] \<and> calls_ok reg (function_calls (rs ! j))"
    and "function_calls (last rs) = []"
  shows "\<exists>h'. tool_loop reg (scripted base rs) (rs ! i) tr h =
      Some (Inr (last rs, tr @ concat (map (round_trace reg) (drop i (butlast rs)))), h')
    \<and> length h' = base + 2 * length rs"
  using assms
proof (induction "length rs - i" arbitrary: i tr h rule: less_induct)
  case less
  show ?case
  proof (cases "Suc i < length rs")
    case False
    with less.prems(1) have i: "i = length rs - 1" by simp
    from less.prems(1) have ne: "rs \<noteq> []" by auto
    with i have "rs ! i = last rs" by (simp add: last_conv_nth)
    moreover from ne have pos: "0 < length rs" by simp
    with less.prems(2) i have "length h = base + 2 * length rs" by arith
    moreover from i have "drop i (butlast rs) = []" by simp
    ultimately show ?thesis using less.prems(4)
      by (subst tool_loop.simps) simp
  next
    case True
    with less.prems(3) have calls: "function_calls (rs ! i) \<noteq> []"
      and ok: "calls_ok reg (function_calls (rs ! i))" by auto
    from tool_round_ok [OF ok] obtain rp where
      tr: "tool_round reg (function_calls (rs ! i)) = Inr (rp, round_trace reg (rs ! i))" by blast
    let ?u = "\<lparr>role = JStr ''user'', parts = rp\<rparr>"
    let ?h' = "h @ [?u] @ [\<lparr>role = JStr ''model'', parts = rs ! Suc i\<rparr>]"
    have idx: "(length (h @ [?u]) - Suc base) div 2 = Suc i"
      using less.prems(2) by simp
    with True have send: "send_message (scripted base rs) h ?u = (rs ! Suc i, ?h')"
      by (simp add: send_message_def scripted_index Let_def)
    have dec: "length rs - Suc i < length rs - i" using True by simp
    have len: "length ?h' = base + 2 * Suc i + 2" using less.prems(2) by simp
    from less.hyps [OF dec True len less.prems(3,4), of "tr @ round_trace reg (rs ! i)"]
    obtain h'' where
      rec: "tool_loop reg (scripted base rs) (rs ! Suc i) (tr @ round_trace reg (rs ! i)) ?h' =
        Some (Inr (last rs, (tr @ round_trace reg (rs ! i)) @ concat (map (round_trace reg) (drop (Suc i) (butlast rs)))), h'')"
      and "length h'' = base + 2 * length rs" by blast
    moreover have "drop i (butlast rs) = rs ! i # drop (Suc i) (butlast rs)"
    proof -
      from True have i1: "i < length (butlast rs)" by simp
      from True have "butlast rs ! i = rs ! i" by (simp add: nth_butlast)
      with Cons_nth_drop_Suc [OF i1] show ?thesis by simp
    qed
    ultimately show ?thesis
      using calls tr send by (subst tool_loop.simps) simp
  qed
qed

lemma keeps_more_event_files [frame_intros]: "keeps_more (event_files env fs msg)"
  by (induction fs arbitrary: msg) (simp_all add: frame_intros)

lemma keeps_more_build_message [frame_intros]: "keeps_more (build_message env ev)"
  unfolding build_message_def by (intro frame_intros)

lemma world_more_eq:
  "mstate.more w' = mstate.more w \<Longrightarrow> acks w' = acks w \<and> posted w' = posted w"
  by (cases w, cases w') simp

lemma event_fun_steps:
  assumes "event_fun reg model env ev w = Some (r, w')"
  shows "\<exists>w2. acks w2 = acks w @ [ev_ts ev] \<and> posted w2 = posted w \<and>
    ((\<exists>e. r = Inl e \<and> w' = w2) \<or>
     (\<exists>txt tr. r = Inr () \<and> w' = w2\<lparr>posted := posted w2 @ [publish txt (ev_channel ev) (ev_ts ev) tr]\<rparr>))"
proof -
  let ?w1 = "w\<lparr>acks := acks w @ [ev_ts ev]\<rparr>"
  have ev: "event_fun reg model env ev w =
     pbind (build_message env ev) (\<lambda>(msg, hist).
     pbind (run_local (chat_turn reg model hist msg)) (\<lambda>(txt, tr).
     modify (\<lambda>w. w\<lparr>posted := posted w @ [publish txt (ev_channel ev) (ev_ts ev) tr]\<rparr>))) ?w1"
    by (simp add: event_fun_def pbind_def)
  show ?thesis
  proof (cases "build_message env ev ?w1")
    case None
    with assms ev show ?thesis by (simp add: pbind_def)
  next
    case (Some bm)
    then obtain rb w2 where bm: "build_message env ev ?w1 = Some (rb, w2)" by (cases bm) auto
    have "mstate.more w2 = mstate.more ?w1"
      using keeps_more_build_message bm unfolding keeps_more_def by blast
    then have w2: "acks w2 = acks w @ [ev_ts ev] \<and> posted w2 = posted w"
      using world_more_eq [of w2 ?w1] by simp
    show ?thesis
    proof (cases rb)
      case (Inl e)
      with assms ev bm w2 show ?thesis by (auto simp: pbind_def)
    next
      case (Inr mh)
      obtain msg hist where mh: "mh = (msg, hist)" by (cases mh)
      show ?thesis
      proof (cases "chat_turn reg model hist msg")
        case None
        with assms ev bm Inr mh show ?thesis by (simp add: pbind_def run_local_def)
      next
        case (Some ct)
        then obtain rc h2 where ct: "chat_turn reg model hist msg = Some (rc, h2)" by (cases ct) auto
        show ?thesis
        proof (cases rc)
          case (Inl e)
          with assms ev bm Inr mh ct w2 show ?thesis by (auto simp: pbind_def run_local_def)
        next
          case (Inr res)
          obtain answer tr where res: "res = (answer, tr)" by (cases res)
          from assms ev bm \<open>rb = Inr mh\<close> mh ct Inr res
          have "r = Inr () \<and> w' = w2\<lparr>posted := posted w2 @ [publish answer (ev_channel ev) (ev_ts ev) tr]\<rparr>"
            by (simp add: pbind_def run_local_def)
          with w2 show ?thesis by blast
        qed
      qed
    qed
  qed
qed

lemma event_fun_one_reply:
  assumes "event_fun reg model env ev w = Some (Inr u, w')"
  shows "acks w' = acks w @ [ev_ts ev] \<and>
    (\<exists>txt tr. posted w' = posted w @ [publish txt (ev_channel ev) (ev_ts ev) tr])"
  using event_fun_steps [OF assms] by fastforce

lemma weather_run:
  "event_fun module_registry weather_model example_env example_event example_world =
    Some (Inr (), example_world\<lparr>acks := [''1700000000.000300''],
      posted := [publish ''It is sunny in Tokyo.'' ''C01'' ''1700000000.000300''
        [CallRec ''get_current_weather'' [(''city'', JStr ''Tokyo'')],
         RespRec ''get_current_weather'' (JObj [(''city'', JStr ''Tokyo''), (''weather'', JStr ''sunny''),
            (''temperature'', JInt 30), (''unit'', JStr ''C'')])]]\<rparr>)"
  by (simp add: event_fun_def build_message_def chat_turn_def send_message_def start_chat_def
      tool_loop.simps run_local_def pbind_def Let_def example_event_def weather_model_def
      example_world_def module_registry_eq tool_round_def call_function_def get_current_weather_def
      get_current_weather_body_def response_parts_def response_recs_def final_text_def)

section \<open>Properties\<close>

text \<open>
  C5: one round of tool calls adds one call record per call and one response record per
  distinct tool name: responses are collected in a dict keyed by name, so a tool called twice
  in one response leaves two call records and one response record.
\<close>

theorem round_trace_length:
  assumes "calls_ok reg (function_calls r)"
  shows "length (round_trace reg r) = length (function_calls r) + card (fst ` set (function_calls r))"
proof -
  from run_calls_ok [OF assms, of "[]" "[]"] obtain resps' where
    rc: "run_calls reg (function_calls r) [] [] = Inr (resps', map (\<lambda>(n, a). CallRec n a) (function_calls r))"
    and d: "distinct (map fst resps')" and k: "set (map fst resps') = fst ` set (function_calls r)"
    by auto
  from distinct_card [OF d] have "length resps' = card (set (map fst resps'))" by simp
  with rc k show ?thesis
    by (simp add: round_trace_def tool_round_def response_recs_def)
qed

text \<open>
  C4: against a model that answers with K responses containing tool calls and then a text
  response, the chat turn runs exactly K tool rounds (the chat grows by two turns per send),
  returns the first text of the final response, and returns the concatenated round traces.
\<close>

theorem chat_turn_scripted:
  assumes "rs \<noteq> []"
    and "\<forall>r \<in> set (butlast rs). function_calls r \<noteq> [] \<and> calls_ok reg (function_calls r)"
    and "function_calls (last rs) = []" and "last rs = PText t # rest"
  shows "\<exists>h'. chat_turn reg (scripted (length h0) rs) (Some h0) msg =
      Some (Inr (t, concat (map (round_trace reg) (butlast rs))), h')
    \<and> length h' = length h0 + 2 * length rs"
proof -
  have steps: "\<forall>j. Suc j < length rs \<longrightarrow> function_calls (rs ! j) \<noteq> [] \<and> calls_ok reg (function_calls (rs ! j))"
  proof (intro allI impI)
    fix j assume j: "Suc j < length rs"
    then have "butlast rs ! j \<in> set (butlast rs)" by (simp add: nth_mem)
    moreover from j have "butlast rs ! j = rs ! j" by (simp add: nth_butlast)
    ultimately show "function_calls (rs ! j) \<noteq> [] \<and> calls_ok reg (function_calls (rs ! j))"
      using assms(2) by metis
  qed
  let ?h1 = "h0 @ [msg] @ [\<lparr>role = JStr ''model'', parts = rs ! 0\<rparr>]"
  from assms(1) have send: "send_message (scripted (length h0) rs) (start_chat (Some h0)) msg = (rs ! 0, ?h1)"
    by (simp add: send_message_def scripted_index start_chat_def Let_def)
  from assms(1) have "0 < length rs" by simp
  from tool_loop_scripted [OF this _ steps assms(3), of ?h1 "length h0" "[]"]
  obtain h' where loop: "tool_loop reg (scripted (length h0) rs) (rs ! 0) [] ?h1 =
      Some (Inr (last rs, concat (map (round_trace reg) (butlast rs))), h')"
    and len: "length h' = length h0 + 2 * length rs" by auto
  from send loop len assms(4) show ?thesis
    by (simp add: chat_turn_def final_text_def)
qed

text \<open>
  C6: the tool loop has no iteration bound: if every response of the model calls registered
  tools, the loop never returns.
\<close>

theorem tool_loop_diverges:
  assumes "keeps_calling reg model resp"
  shows "tool_loop reg model resp tr h = None"
proof (rule ccontr)
  assume "tool_loop reg model resp tr h \<noteq> None"
  then obtain r where ret: "tool_loop reg model resp tr h = Some r" by blast
  have "\<not> keeps_calling reg model resp"
  proof (rule tool_loop.raw_induct [where P = "\<lambda>reg model resp tr h r. \<not> keeps_calling reg model resp", OF _ ret])
    fix lp :: "registry \<Rightarrow> llm \<Rightarrow> part list \<Rightarrow> trace_rec list \<Rightarrow> (turn list, part list \<times> trace_rec list) prog"
      and reg model resp tr h r
    assume IH: "\<And>reg model resp tr h r. lp reg model resp tr h = Some r \<Longrightarrow> \<not> keeps_calling reg model resp"
      and eq: "(if function_calls resp = [] then Some (Inr (resp, tr), h)
        else case tool_round reg (function_calls resp) of Inl e \<Rightarrow> Some (Inl e, h)
          | Inr (rparts, rrecs) \<Rightarrow>
              (case send_message model h \<lparr>role = JStr ''user'', parts = rparts\<rparr> of
                 (resp', h') \<Rightarrow> lp reg model resp' (tr @ rrecs) h')) = Some r"
    show "\<not> keeps_calling reg model resp"
    proof
      assume kc: "keeps_calling reg model resp"
      then have calls: "function_calls resp \<noteq> []" and ok: "calls_ok reg (function_calls resp)"
        by (simp_all add: keeps_calling_def)
      from tool_round_ok [OF ok] obtain rp where
        tr: "tool_round reg (function_calls resp) = Inr (rp, round_trace reg resp)" by blast
      let ?h' = "h @ [\<lparr>role = JStr ''user'', parts = rp\<rparr>]"
      from eq calls tr have "lp reg model (model ?h') (tr @ round_trace reg resp)
          (?h' @ [\<lparr>role = JStr ''model'', parts = model ?h'\<rparr>]) = Some r"
        by (simp add: send_message_def Let_def)
      then have "\<not> keeps_calling reg model (model ?h')" by (rule IH)
      moreover from kc have "keeps_calling reg model (model ?h')"
        by (simp add: keeps_calling_def)
      ultimately show False by contradiction
    qed
  qed
  with assms show False by contradiction
qed

text \<open>
  C7: a turn that fails posts nothing: the event is acknowledged, and no reply or trace is
  published.
\<close>

theorem event_fun_error_no_reply:
  assumes "event_fun reg model env ev w = Some (Inl e, w')"
  shows "acks w' = acks w @ [ev_ts ev] \<and> posted w' = posted w"
  using event_fun_steps [OF assms] by auto

text \<open>
  C14: a top-level mention without files that the model answers with text and no tool call
  is answered with that text by \<open>say\<close>, in the event's thread, without an attachment.
\<close>

theorem event_fun_plain:
  assumes "ev_thread_ts ev = None" and "ev_files ev = []"
    and "model [\<lparr>role = JStr ''user'', parts = [PText (ev_text ev)]\<rparr>] = PText t # rest"
    and "function_calls rest = []"
  shows "event_fun reg model env ev w =
    Some (Inr (), w\<lparr>acks := acks w @ [ev_ts ev], posted := posted w @ [Say t (ev_channel ev) (ev_ts ev)]\<rparr>)"
  using assms
  by (simp add: event_fun_def build_message_def chat_turn_def send_message_def start_chat_def
      tool_loop.simps final_text_def publish_def run_local_def pbind_def Let_def)

text \<open>
  C13: when the model calls a tool that is not registered, the turn aborts with the
  \<open>Tool not found\<close> error and no reply is published.
\<close>

theorem event_fun_tool_not_found:
  assumes "ev_thread_ts ev = None" and "ev_files ev = []"
    and "function_calls (model [\<lparr>role = JStr ''user'', parts = [PText (ev_text ev)]\<rparr>]) = (n, a) # cs"
    and "n \<notin> fst ` set reg"
  shows "event_fun reg model env ev w = Some (Inl (ToolNotFound n), w\<lparr>acks := acks w @ [ev_ts ev]\<rparr>)"
proof -
  from assms(4) have "map_of reg n = None" by (simp add: map_of_eq_None_iff)
  then have "tool_round reg ((n, a) # cs) = Inl (ToolNotFound n)"
    by (simp add: tool_round_def call_function_def)
  with assms(1-3) show ?thesis
    by (simp add: event_fun_def build_message_def chat_turn_def send_message_def start_chat_def
        tool_loop.simps run_local_def pbind_def Let_def)
qed

section \<open>Witnesses\<close>

theorem chat_turn_scripted_witness:
  "\<exists>h'. chat_turn module_registry (scripted 0 weather_rounds) (Some [])
      \<lparr>role = JStr ''user'', parts = [PText ''weather?'']\<rparr> =
      Some (Inr (''It is sunny in Tokyo.'', concat (map (round_trace module_registry) (butlast weather_rounds))), h')
    \<and> length h' = 0 + 2 * length weather_rounds"
  using chat_turn_scripted [of weather_rounds module_registry "''It is sunny in Tokyo.''" "[]" "[]"
      "\<lparr>role = JStr ''user'', parts = [PText ''weather?'']\<rparr>"]
  by (simp add: weather_rounds_def calls_ok_def module_registry_eq call_function_def
      get_current_weather_def get_current_weather_body_def)

theorem round_trace_length_witness:
  "length (round_trace module_registry
     [PCall ''get_current_weather'' [(''city'', JStr ''Tokyo'')],
      PCall ''get_current_weather'' [(''city'', JStr ''Osaka'')]]) = 3"
  using round_trace_length [of module_registry
     "[PCall ''get_current_weather'' [(''city'', JStr ''Tokyo'')],
       PCall ''get_current_weather'' [(''city'', JStr ''Osaka'')]]"]
  by (simp add: calls_ok_def module_registry_eq call_function_def
      get_current_weather_def get_current_weather_body_def)

theorem tool_loop_diverges_witness:
  "keeps_calling module_registry weather_loop_model (weather_loop_model []) \<and>
   tool_loop module_registry weather_loop_model (weather_loop_model []) [] [] = None"
proof -
  have kc: "keeps_calling module_registry weather_loop_model (weather_loop_model [])"
    by (simp add: keeps_calling_def weather_loop_model_def calls_ok_def module_registry_eq
        call_function_def get_current_weather_def get_current_weather_body_def)
  show ?thesis using kc tool_loop_diverges [OF kc] by simp
qed

theorem event_fun_plain_witness:
  "event_fun module_registry greeting_model example_env example_event example_world =
    Some (Inr (), example_world\<lparr>acks := [''1700000000.000300''],
      posted := [Say ''Hello!'' ''C01'' ''1700000000.000300'']\<rparr>)"
  using event_fun_plain [of example_event greeting_model "''Hello!''" "[]" module_registry example_env example_world]
  by (simp add: example_event_def greeting_model_def example_world_def)

theorem event_fun_tool_not_found_witness:
  "event_fun module_registry search_model example_env example_event example_world =
    Some (Inl (ToolNotFound ''web_search''), example_world\<lparr>acks := [''1700000000.000300'']\<rparr>)"
  using event_fun_tool_not_found [of example_event search_model "''web_search''" "[(''query'', JStr ''Tokyo'')]" "[]"
      module_registry example_env example_world]
  by (simp add: example_event_def search_model_def example_world_def module_registry_eq)

theorem event_fun_error_no_reply_witness:
  "\<exists>e w'. event_fun module_registry search_model example_env example_event example_world = Some (Inl e, w') \<and>
     acks w' = [''1700000000.000300''] \<and> posted w' = []"
proof -
  have run: "event_fun module_registry search_model example_env example_event example_world =
      Some (Inl (ToolNotFound ''web_search''), example_world\<lparr>acks := [''1700000000.000300'']\<rparr>)"
    by (simp add: event_fun_def build_message_def chat_turn_def send_message_def start_chat_def
        tool_loop.simps run_local_def pbind_def Let_def example_event_def search_model_def
        example_world_def module_registry_eq tool_round_def call_function_def)
  from event_fun_error_no_reply [OF run] run show ?thesis by (simp add: example_world_def)
qed

end
