(* ===== verification/TurnMachine.thy ===== *)
theory TurnMachine
  imports Orchestrator
begin

text \<open>
  The tool-calling cycle of one chat turn (\<open>src/slack_agent/events/app_mention.py\<close>,
  lines 181--215) as an explicit state machine: a response is inspected for calls, the calls
  are executed as one round, and their results are sent back, until a response without calls
  ends the turn or a tool raises. The partial function \<open>Orchestrator.tool_loop\<close> computes
  exactly the outcomes of this machine, and every reachable state carries a trace in which the
  call records and the response records name the same tools.
\<close>

section \<open>States and steps\<close>

text \<open>
  \<open>Inspecting\<close>: a model response, the trace so far and the chat history;
  \<open>Executing\<close>: the calls of that response, about to run as one round;
  \<open>Done\<close> and \<open>Aborted\<close>: the turn's outcome, a final response or the exception a tool raised.
\<close>

datatype orch_state =
    Inspecting "part list" "trace_rec list" "turn list"
  | Executing "(string \<times> kwargs) list" "trace_rec list" "turn list"
  | Done "part list" "trace_rec list" "turn list"
  | Aborted error "turn list"

text \<open>
  One step: a response without calls ends the turn (the \<open>while\<close> condition of line 181 fails);
  a response with calls moves to executing them; a round whose tools all return sends the
  response parts as a user turn and inspects the model's answer; a tool that raises aborts.
\<close>

inductive orch_step :: "registry \<Rightarrow> llm \<Rightarrow> orch_state \<Rightarrow> orch_state \<Rightarrow> bool"
  for reg :: registry and model :: llm where
  inspect_done: "function_calls resp = [] \<Longrightarrow>
     orch_step reg model (Inspecting resp tr h) (Done resp tr h)"
| inspect_calls: "function_calls resp \<noteq> [] \<Longrightarrow>
     orch_step reg model (Inspecting resp tr h) (Executing (function_calls resp) tr h)"
| execute_ok: "tool_round reg cs = Inr (rp, recs) \<Longrightarrow>
     send_message model h \<lparr>role = JStr ''user'', parts = rp\<rparr> = (resp', h') \<Longrightarrow>
     orch_step reg model (Executing cs tr h) (Inspecting resp' (tr @ recs) h')"
| execute_fail: "tool_round reg cs = Inl e \<Longrightarrow>
     orch_step reg model (Executing cs tr h) (Aborted e h)"

section \<open>Trace invariant\<close>

text \<open>
  The names in a trace's call records and in its response records; the trace is matched when
  both name the same set of tools (every call has a response of that name, and every response
  answers a call).
\<close>

fun call_names :: "trace_rec list \<Rightarrow> string list" where
  "call_names [] = []"
| "call_names (CallRec n a # tr) = n # call_names tr"
| "call_names (RespRec n v # tr) = call_names tr"

fun resp_names :: "trace_rec list \<Rightarrow> string list" where
  "resp_names [] = []"
| "resp_names (CallRec n a # tr) = resp_names tr"
| "resp_names (RespRec n v # tr) = n # resp_names tr"

definition trace_matched :: "trace_rec list \<Rightarrow> bool" where
  "trace_matched tr \<longleftrightarrow> set (call_names tr) = set (resp_names tr)"

fun state_trace_ok :: "orch_state \<Rightarrow> bool" where
  "state_trace_ok (Inspecting resp tr h) = trace_matched tr"
| "state_trace_ok (Executing cs tr h) = trace_matched tr"
| "state_trace_ok (Done resp tr h) = trace_matched tr"
| "state_trace_ok (Aborted e h) = True"

text \<open>What a final state returns, in the result type of \<open>tool_loop\<close>.\<close>

fun outcome :: "orch_state \<Rightarrow> ((error + part list \<times> trace_rec list) \<times> turn list) option" where
  "outcome (Done resp tr h) = Some (Inr (resp, tr), h)"
| "outcome (Aborted e h) = Some (Inl e, h)"
| "outcome _ = None"

section \<open>Lemmas\<close>

inductive_cases inspecting_stepE: "orch_step reg model (Inspecting resp tr h) t"
inductive_cases executing_stepE: "orch_step reg model (Executing cs tr h) t"
inductive_cases done_stepE: "orch_step reg model (Done resp tr h) t"
inductive_cases aborted_stepE: "orch_step reg model (Aborted e h) t"

lemma orch_step_deterministic:
  "orch_step reg model s t \<Longrightarrow> orch_step reg model s u \<Longrightarrow> t = u"
  by (induction rule: orch_step.induct) (auto elim: inspecting_stepE executing_stepE)

lemma outcome_final: "outcome s \<noteq> None \<Longrightarrow> \<not> orch_step reg model s t"
  by (cases s) (auto elim: done_stepE aborted_stepE)

lemma tool_loop_sound:
  assumes "tool_loop reg model resp tr h = Some r"
  shows "\<exists>t. (orch_step reg model)\<^sup>*\<^sup>* (Inspecting resp tr h) t \<and> outcome t = Some r"
proof (rule tool_loop.raw_induct [where P = "\<lambda>reg model resp tr h r.
    \<exists>t. (orch_step reg model)\<^sup>*\<^sup>* (Inspecting resp tr h) t \<and> outcome t = Some r", OF _ assms])
  fix lp :: "registry \<Rightarrow> llm \<Rightarrow> part list \<Rightarrow> trace_rec list \<Rightarrow> (turn list, part list \<times> trace_rec list) prog"
    and reg model resp tr h r
  assume IH: "\<And>reg model resp tr h r. lp reg model resp tr h = Some r \<Longrightarrow>
      \<exists>t. (orch_step reg model)\<^sup>*\<^sup>* (Inspecting resp tr h) t \<and> outcome t = Some r"
    and eq: "(if function_calls resp = [] then Some (Inr (resp, tr), h)
      else case tool_round reg (function_calls resp) of Inl e \<Rightarrow> Some (Inl e, h)
        | Inr (rparts, rrecs) \<Rightarrow>
            (case send_message model h \<lparr>role = JStr ''user'', parts = rparts\<rparr> of
               (resp', h') \<Rightarrow> lp reg model resp' (tr @ rrecs) h')) = Some r"
  show "\<exists>t. (orch_step reg model)\<^sup>*\<^sup>* (Inspecting resp tr h) t \<and> outcome t = Some r"
  proof (cases "function_calls resp = []")
    case True
    with eq have "r = (Inr (resp, tr), h)" by simp
    moreover from True have "orch_step reg model (Inspecting resp tr h) (Done resp tr h)"
      by (rule orch_step.inspect_done)
    ultimately show ?thesis by (intro exI [of _ "Done resp tr h"]) auto
  next
    case calls: False
    then have ins: "orch_step reg model (Inspecting resp tr h) (Executing (function_calls resp) tr h)"
      by (rule orch_step.inspect_calls)
    show ?thesis
    proof (cases "tool_round reg (function_calls resp)")
      case (Inl e)
      with calls eq have "r = (Inl e, h)" by simp
      moreover from Inl have "orch_step reg model (Executing (function_calls resp) tr h) (Aborted e h)"
        by (rule orch_step.execute_fail)
      ultimately show ?thesis using ins
        by (intro exI [of _ "Aborted e h"]) (auto intro: converse_rtranclp_into_rtranclp)
    next
      case (Inr rr)
      obtain rp recs where rr: "rr = (rp, recs)" by (cases rr)
      obtain resp' h' where send: "send_message model h \<lparr>role = JStr ''user'', parts = rp\<rparr> = (resp', h')"
        by (cases "send_message model h \<lparr>role = JStr ''user'', parts = rp\<rparr>")
      from calls eq Inr rr send have "lp reg model resp' (tr @ recs) h' = Some r" by simp
      from IH [OF this] obtain t where
        run: "(orch_step reg model)\<^sup>*\<^sup>* (Inspecting resp' (tr @ recs) h') t" and out: "outcome t = Some r"
        by blast
      from Inr rr send have "orch_step reg model (Executing (function_calls resp) tr h) (Inspecting resp' (tr @ recs) h')"
        by (simp add: orch_step.execute_ok)
      with ins run have "(orch_step reg model)\<^sup>*\<^sup>* (Inspecting resp tr h) t"
        by (meson converse_rtranclp_into_rtranclp)
      with out show ?thesis by blast
    qed
  qed
qed

lemma tool_loop_complete:
  assumes "(orch_step reg model)\<^sup>*\<^sup>* s t" and "outcome t = Some r"
  shows "(case s of Inspecting resp tr h \<Rightarrow> tool_loop reg model resp tr h = Some r
    | Executing cs tr h \<Rightarrow>
        (case tool_round reg cs of Inl e \<Rightarrow> Some (Inl e, h)
         | Inr (rp, recs) \<Rightarrow> (case send_message model h \<lparr>role = JStr ''user'', parts = rp\<rparr> of
             (resp', h') \<Rightarrow> tool_loop reg model resp' (tr @ recs) h')) = Some r
    | _ \<Rightarrow> outcome s = Some r)"
  using assms
proof (induction rule: converse_rtranclp_induct)
  case base
  then show ?case by (cases t) simp_all
next
  case (step s s')
  from step.hyps(1) step.IH step.prems show ?case
  proof (cases rule: orch_step.cases)
    case (inspect_done resp tr h)
    with step.IH step.prems show ?thesis by (subst tool_loop.simps) simp
  next
    case (inspect_calls resp tr h)
    with step.IH step.prems show ?thesis by (subst tool_loop.simps) (simp split: sum.splits prod.splits)
  next
    case (execute_ok cs rp recs h resp' h' tr)
    with step.IH step.prems show ?thesis by simp
  next
    case (execute_fail cs e h tr)
    with step.IH step.prems show ?thesis by simp
  qed
qed

lemma call_names_append [simp]: "call_names (xs @ ys) = call_names xs @ call_names ys"
  by (induction xs rule: call_names.induct) simp_all

lemma resp_names_append [simp]: "resp_names (xs @ ys) = resp_names xs @ resp_names ys"
  by (induction xs rule: resp_names.induct) simp_all

lemma call_names_calls [simp]: "call_names (map (\<lambda>(n, a). CallRec n a) cs) = map fst cs"
  by (induction cs) auto

lemma resp_names_calls [simp]: "resp_names (map (\<lambda>(n, a). CallRec n a) cs) = []"
  by (induction cs) auto

lemma names_response_recs [simp]:
  "call_names (response_recs resps) = []" "resp_names (response_recs resps) = map fst resps"
  by (induction resps) (auto simp: response_recs_def)

lemma run_calls_Inr:
  assumes "run_calls reg cs resps tr = Inr (resps', tr')"
  shows "tr' = tr @ map (\<lambda>(n, a). CallRec n a) cs \<and> set (map fst resps') = set (map fst resps) \<union> fst ` set cs"
  using assms
proof (induction cs arbitrary: resps tr)
  case Nil
  then show ?case by simp
next
  case (Cons c cs)
  obtain n a where c: "c = (n, a)" by (cases c)
  with Cons.prems obtain v where
    "run_calls reg cs (dict_set resps n v) (tr @ [CallRec n a]) = Inr (resps', tr')"
    by (auto split: sum.splits)
  from Cons.IH [OF this] c show ?case by (auto simp: keys_dict_set)
qed

lemma tool_round_matched:
  "tool_round reg cs = Inr (rp, recs) \<Longrightarrow> trace_matched recs"
  by (auto simp: tool_round_def trace_matched_def split: sum.splits prod.splits dest!: run_calls_Inr)

lemma trace_matched_append:
  "trace_matched tr \<Longrightarrow> trace_matched recs \<Longrightarrow> trace_matched (tr @ recs)"
  by (simp add: trace_matched_def)

lemma orch_step_trace_ok:
  "orch_step reg model s t \<Longrightarrow> state_trace_ok s \<Longrightarrow> state_trace_ok t"
  by (induction rule: orch_step.induct) (auto intro: trace_matched_append tool_round_matched)

lemma reachable_trace_ok:
  assumes "(orch_step reg model)\<^sup>*\<^sup>* s t" and "state_trace_ok s"
  shows "state_trace_ok t"
  using assms by (induction rule: rtranclp_induct) (auto intro: orch_step_trace_ok)

section \<open>Properties\<close>

text \<open>
  C9: every trace a chat turn returns, and so every trace the handler attaches to its reply,
  is matched: the tools named by its call records are exactly those named by its response
  records.
\<close>

theorem chat_turn_trace_matched:
  assumes "chat_turn reg model hist msg = Some (Inr (answer, tr), h')"
  shows "trace_matched tr"
proof -
  obtain resp h1 where send: "send_message model (start_chat hist) msg = (resp, h1)"
    by (cases "send_message model (start_chat hist) msg")
  with assms obtain resp' where
    loop: "tool_loop reg model resp [] h1 = Some (Inr (resp', tr), h')"
    by (auto simp: chat_turn_def split: option.splits sum.splits prod.splits)
  from tool_loop_sound [OF loop] obtain t where
    run: "(orch_step reg model)\<^sup>*\<^sup>* (Inspecting resp [] h1) t" and out: "outcome t = Some (Inr (resp', tr), h')"
    by blast
  have "state_trace_ok t" by (rule reachable_trace_ok [OF run]) (simp add: trace_matched_def)
  with out show ?thesis by (cases t) auto
qed

text \<open>
  C8: the loop of the handler refines the state machine and conversely: \<open>tool_loop\<close> returns
  a result exactly when the machine, started on the same response, trace and history, reaches
  a final state with that outcome.
\<close>

theorem tool_loop_machine:
  "tool_loop reg model resp tr h = Some r \<longleftrightarrow>
     (\<exists>t. (orch_step reg model)\<^sup>*\<^sup>* (Inspecting resp tr h) t \<and> outcome t = Some r)"
proof
  assume "tool_loop reg model resp tr h = Some r"
  then show "\<exists>t. (orch_step reg model)\<^sup>*\<^sup>* (Inspecting resp tr h) t \<and> outcome t = Some r"
    by (rule tool_loop_sound)
next
  assume "\<exists>t. (orch_step reg model)\<^sup>*\<^sup>* (Inspecting resp tr h) t \<and> outcome t = Some r"
  then obtain t where "(orch_step reg model)\<^sup>*\<^sup>* (Inspecting resp tr h) t" and "outcome t = Some r" by blast
  from tool_loop_complete [OF this] show "tool_loop reg model resp tr h = Some r" by simp
qed

section \<open>Witnesses\<close>

theorem chat_turn_trace_matched_witness:
  "chat_turn module_registry weather_model None \<lparr>role = JStr ''user'', parts = [PText ''weather?'']\<rparr> =
     Some (Inr (''It is sunny in Tokyo.'',
       [CallRec ''get_current_weather'' [(''city'', JStr ''Tokyo'')],
        RespRec ''get_current_weather'' (JObj [(''city'', JStr ''Tokyo''), (''weather'', JStr ''sunny''),
            (''temperature'', JInt 30), (''unit'', JStr ''C'')])]),
       [\<lparr>role = JStr ''user'', parts = [PText ''weather?'']\<rparr>,
        \<lparr>role = JStr ''model'', parts = [PCall ''get_current_weather'' [(''city'', JStr ''Tokyo'')]]\<rparr>,
        \<lparr>role = JStr ''user'', parts = [PResp ''get_current_weather'' (JObj [(''result'',
            JObj [(''city'', JStr ''Tokyo''), (''weather'', JStr ''sunny''),
            (''temperature'', JInt 30), (''unit'', JStr ''C'')])])]\<rparr>,
        \<lparr>role = JStr ''model'', parts = [PText ''It is sunny in Tokyo.'']\<rparr>]) \<and>
   trace_matched [CallRec ''get_current_weather'' [(''city'', JStr ''Tokyo'')],
        RespRec ''get_current_weather'' (JObj [(''city'', JStr ''Tokyo''), (''weather'', JStr ''sunny''),
            (''temperature'', JInt 30), (''unit'', JStr ''C'')])]"
proof -
  have run: "chat_turn module_registry weather_model None \<lparr>role = JStr ''user'', parts = [PText ''weather?'']\<rparr> =
     Some (Inr (''It is sunny in Tokyo.'',
       [CallRec ''get_current_weather'' [(''city'', JStr ''Tokyo'')],
        RespRec ''get_current_weather'' (JObj [(''city'', JStr ''Tokyo''), (''weather'', JStr ''sunny''),
            (''temperature'', JInt 30), (''unit'', JStr ''C'')])]),
       [\<lparr>role = JStr ''user'', parts = [PText ''weather?'']\<rparr>,
        \<lparr>role = JStr ''model'', parts = [PCall ''get_current_weather'' [(''city'', JStr ''Tokyo'')]]\<rparr>,
        \<lparr>role = JStr ''user'', parts = [PResp ''get_current_weather'' (JObj [(''result'',
            JObj [(''city'', JStr ''Tokyo''), (''weather'', JStr ''sunny''),
            (''temperature'', JInt 30), (''unit'', JStr ''C'')])])]\<rparr>,
        \<lparr>role = JStr ''model'', parts = [PText ''It is sunny in Tokyo.'']\<rparr>])"
    by (simp add: chat_turn_def send_message_def start_chat_def tool_loop.simps Let_def weather_model_def
        module_registry_eq tool_round_def call_function_def get_current_weather_def
        get_current_weather_body_def response_parts_def response_recs_def final_text_def)
  show ?thesis using run chat_turn_trace_matched [OF run] by simp
qed

theorem tool_loop_machine_witness:
  "\<exists>t. (orch_step module_registry weather_model)\<^sup>*\<^sup>*
      (Inspecting [PCall ''get_current_weather'' [(''city'', JStr ''Tokyo'')]] []
         [\<lparr>role = JStr ''user'', parts = [PText ''weather?'']\<rparr>,
          \<lparr>role = JStr ''model'', parts = [PCall ''get_current_weather'' [(''city'', JStr ''Tokyo'')]]\<rparr>]) t
    \<and> outcome t = Some (Inr ([PText ''It is sunny in Tokyo.''],
       [CallRec ''get_current_weather'' [(''city'', JStr ''Tokyo'')],
        RespRec ''get_current_weather'' (JObj [(''city'', JStr ''Tokyo''), (''weather'', JStr ''sunny''),
            (''temperature'', JInt 30), (''unit'', JStr ''C'')])]),
       [\<lparr>role = JStr ''user'', parts = [PText ''weather?'']\<rparr>,
        \<lparr>role = JStr ''model'', parts = [PCall ''get_current_weather'' [(''city'', JStr ''Tokyo'')]]\<rparr>,
        \<lparr>role = JStr ''user'', parts = [PResp ''get_current_weather'' (JObj [(''result'',
            JObj [(''city'', JStr ''Tokyo''), (''weather'', JStr ''sunny''),
            (''temperature'', JInt 30), (''unit'', JStr ''C'')])])]\<rparr>,
        \<lparr>role = JStr ''model'', parts = [PText ''It is sunny in Tokyo.'']\<rparr>])"
  by (simp add: tool_loop_machine [symmetric] send_message_def tool_loop.simps Let_def weather_model_def
      module_registry_eq tool_round_def call_function_def get_current_weather_def
      get_current_weather_body_def response_parts_def response_recs_def)

end
