(* ===== verification/Cache.thy ===== *)
theory Cache
  imports Media
begin

text \<open>
  The invariant of the process-wide \<open>file_upload_dict\<close> and the Gemini backend, and what it
  gives the callers of \<open>get_file_part\<close>: every cache entry names an upload of that same Slack
  file (its display name is the file id) or an upload the backend no longer has, and no upload
  name the backend will hand out later is in use yet. Under it, every attachment
  \<open>get_file_part\<close> resolves is an upload of that attachment, current in the backend.
\<close>

section \<open>Predicates\<close>

text \<open>Reading an upload name back as the number the backend counted: used to show that the
  backend never hands out the same name twice.\<close>

definition parse_nat :: "string \<Rightarrow> nat" where
  "parse_nat cs = foldl (\<lambda>n c. 10 * n + (of_char c - 48)) 0 cs"

text \<open>A file object that is what \<open>genai.get_file\<close> answers for its name right now.\<close>

definition current :: "'a mstate_scheme \<Rightarrow> gfile \<Rightarrow> bool" where
  "current s f \<longleftrightarrow> genai_get_file (gemini s) (gname f) = Inr f"

text \<open>A current upload of the Slack file \<open>fid\<close>.\<close>

definition resolved :: "'a mstate_scheme \<Rightarrow> string \<Rightarrow> gfile \<Rightarrow> bool" where
  "resolved s fid f \<longleftrightarrow> current s f \<and> display_name f = fid"

text \<open>The invariant: cache entries point to uploads of their own key, and every upload name
  from the backend's counter on is unused by the backend and by the cache.\<close>

definition cache_ok :: "'a mstate_scheme \<Rightarrow> bool" where
  "cache_ok s \<longleftrightarrow> (\<forall>k n st. file_upload_dict s k = Some n \<longrightarrow> bfiles (gemini s) n = Some st \<longrightarrow> st_display st = k)"

definition names_fresh :: "'a mstate_scheme \<Rightarrow> bool" where
  "names_fresh s \<longleftrightarrow> (\<forall>i. uploads (gemini s) \<le> i \<longrightarrow>
     bfiles (gemini s) (''files/'' @ nat_digits i) = None \<and> ''files/'' @ nat_digits i \<notin> ran (file_upload_dict s))"

definition media_ok :: "'a mstate_scheme \<Rightarrow> bool" where
  "media_ok s \<longleftrightarrow> cache_ok s \<and> names_fresh s"

section \<open>Lemmas\<close>

declare nat_digits.simps [simp del]

lemma parse_nat_snoc: "parse_nat (cs @ [c]) = 10 * parse_nat cs + (of_char c - 48)"
  by (simp add: parse_nat_def)

lemma of_char_digit: "(k::nat) < 10 \<Longrightarrow> of_char (char_of (48 + k) :: char) = 48 + k"
  by (simp add: of_char_of)

lemma parse_nat_digits: "parse_nat (nat_digits n) = n"
proof (induction n rule: nat_digits.induct)
  case (1 n)
  show ?case
  proof (cases "n < 10")
    case True
    then show ?thesis by (simp add: nat_digits.simps parse_nat_def of_char_digit)
  next
    case False
    then have "parse_nat (nat_digits n) = 10 * parse_nat (nat_digits (n div 10)) + n mod 10"
      by (simp add: nat_digits.simps parse_nat_snoc of_char_digit)
    with 1 False show ?thesis by simp
  qed
qed

lemma nat_digits_inj: "nat_digits m = nat_digits n \<Longrightarrow> m = n"
  by (metis parse_nat_digits)

lemma ran_upd_sub: "ran (m(k \<mapsto> v)) \<subseteq> insert v (ran m)"
  by (auto simp: ran_def)

lemma ran_del_sub: "ran (m(k := None)) \<subseteq> ran m"
  by (auto simp: ran_def)

lemma current_display:
  "current s f \<Longrightarrow> \<exists>st. bfiles (gemini s) (gname f) = Some st \<and> st_display st = display_name f"
  by (auto simp: current_def genai_get_file_def file_view_def split: option.splits
      dest: arg_cong [where f = display_name, symmetric])

lemma media_ok_evict:
  assumes "media_ok s"
  shows "media_ok (s\<lparr>file_upload_dict := (file_upload_dict s)(k := None)\<rparr>)"
proof -
  have "ran ((file_upload_dict s)(k := None)) \<subseteq> ran (file_upload_dict s)" by (rule ran_del_sub)
  with assms show ?thesis
    unfolding media_ok_def cache_ok_def names_fresh_def by auto
qed

lemma lookup_cached_ok:
  assumes ok: "media_ok s" and run: "lookup_cached fid s = Some (r, s')"
  shows "media_ok s' \<and> gemini s' = gemini s \<and> (\<forall>f. r = Inr (Some f) \<longrightarrow> resolved s' fid f)"
proof (cases "file_upload_dict s fid")
  case None
  with run have "r = Inr None" and "s' = s" by (simp_all add: lookup_cached_def)
  with ok show ?thesis by simp
next
  case (Some n)
  show ?thesis
  proof (cases "genai_get_file (gemini s) n")
    case (Inr f)
    with Some run have r: "r = Inr (Some f)" and s': "s' = s" by (simp_all add: lookup_cached_def)
    from Inr have "gname f = n" by (rule genai_get_file_name)
    with Inr have "current s f" by (simp add: current_def)
    moreover from this obtain st where "bfiles (gemini s) (gname f) = Some st" and "st_display st = display_name f"
      by (blast dest: current_display)
    ultimately show ?thesis using ok Some \<open>gname f = n\<close> r s'
      by (auto simp: resolved_def media_ok_def cache_ok_def)
  next
    case (Inl e)
    with Some run have "s' = s \<or> s' = s\<lparr>file_upload_dict := (file_upload_dict s)(fid := None)\<rparr>"
      and "r \<noteq> Inr (Some f)" for f
      by (auto simp: lookup_cached_def split: if_splits)
    with ok media_ok_evict [OF ok, of fid] show ?thesis by auto
  qed
qed

lemma media_ok_upload:
  assumes ok: "media_ok s"
  shows "media_ok (s\<lparr>gemini := (gemini s)\<lparr>bfiles := (bfiles (gemini s))(upload_name (gemini s) \<mapsto> st),
            uploads := Suc (uploads (gemini s))\<rparr>\<rparr>)"
proof -
  let ?b = "gemini s" and ?n = "upload_name (gemini s)"
  from ok have fresh: "?n \<notin> ran (file_upload_dict s)" and unused: "bfiles ?b ?n = None"
    by (simp_all add: media_ok_def names_fresh_def upload_name_def)
  have other: "''files/'' @ nat_digits i \<noteq> ?n" if "Suc (uploads ?b) \<le> i" for i
    using that nat_digits_inj [of i "uploads ?b"] by (auto simp: upload_name_def)
  have "cache_ok (s\<lparr>gemini := ?b\<lparr>bfiles := (bfiles ?b)(?n \<mapsto> st), uploads := Suc (uploads ?b)\<rparr>\<rparr>)"
    unfolding cache_ok_def
  proof (intro allI impI)
    fix k m st'
    assume k: "file_upload_dict (s\<lparr>gemini := ?b\<lparr>bfiles := (bfiles ?b)(?n \<mapsto> st), uploads := Suc (uploads ?b)\<rparr>\<rparr>) k = Some m"
      and m: "bfiles (gemini (s\<lparr>gemini := ?b\<lparr>bfiles := (bfiles ?b)(?n \<mapsto> st), uploads := Suc (uploads ?b)\<rparr>\<rparr>)) m = Some st'"
    from k have k': "file_upload_dict s k = Some m" by simp
    with fresh have "m \<noteq> ?n" by (auto simp: ran_def)
    with m have "bfiles ?b m = Some st'" by simp
    with k' ok show "st_display st' = k" by (auto simp: media_ok_def cache_ok_def)
  qed
  moreover have "names_fresh (s\<lparr>gemini := ?b\<lparr>bfiles := (bfiles ?b)(?n \<mapsto> st), uploads := Suc (uploads ?b)\<rparr>\<rparr>)"
    using ok other by (auto simp: media_ok_def names_fresh_def)
  ultimately show ?thesis by (simp add: media_ok_def)
qed

lemma upload_from_slack_ok:
  assumes ok: "media_ok s" and run: "upload_from_slack dl url fid mime s = Some (r, s')"
  shows "media_ok s' \<and> (\<forall>f. r = Inr f \<longrightarrow> resolved s' fid f)"
proof (cases "requests_get dl url")
  case (Inl e)
  with run ok show ?thesis by (auto simp: upload_from_slack_def)
next
  case (Inr content)
  let ?b = "gemini s" and ?n = "upload_name (gemini s)"
  define st where "st = \<lparr>st_display = fid, st_mime = mime, st_bytes = content,
     st_ready = map_option (\<lambda>d. clock ?b + d) (delay_of ?b mime), st_final = outcome_of ?b mime\<rparr>"
  define b' where "b' = ?b\<lparr>bfiles := (bfiles ?b)(?n \<mapsto> st), uploads := Suc (uploads ?b)\<rparr>"
  from Inr run have r: "r = Inr (file_view b' ?n st)" and s': "s' = s\<lparr>gemini := b'\<rparr>"
    by (simp_all add: upload_from_slack_def genai_upload_file_def Let_def st_def b'_def)
  have "media_ok s'" using media_ok_upload [OF ok, of st] by (simp add: s' b'_def)
  moreover have "resolved s' fid (file_view b' ?n st)"
    by (simp add: resolved_def current_def genai_get_file_def s' b'_def file_view_def st_def)
  ultimately show ?thesis using r by simp
qed

lemma media_ok_cong:
  "file_upload_dict s' = file_upload_dict s \<Longrightarrow> bfiles (gemini s') = bfiles (gemini s) \<Longrightarrow>
     uploads (gemini s') = uploads (gemini s) \<Longrightarrow> media_ok s' = media_ok s"
  by (simp add: media_ok_def cache_ok_def names_fresh_def)

lemma wait_processing_ok:
  assumes ok: "media_ok s" and run: "wait_processing f s = Some (r, s')"
  shows "media_ok s' \<and> (resolved s fid f \<longrightarrow> (\<forall>f'. r = Inr f' \<longrightarrow> resolved s' fid f'))"
proof -
  from wait_processing_post [OF run] have post: "wait_post f s (r, s')" .
  then have same: "file_upload_dict s' = file_upload_dict s" "bfiles (gemini s') = bfiles (gemini s)"
      "uploads (gemini s') = uploads (gemini s)"
    by (simp_all add: wait_post_def)
  have "resolved s' fid f'" if res: "resolved s fid f" and r: "r = Inr f'" for f'
  proof -
    from post r res have name: "gname f' = gname f" and cur: "current s' f'"
      by (auto simp: wait_post_def resolved_def current_def)
    from res obtain st where "bfiles (gemini s) (gname f) = Some st" and "st_display st = fid"
      by (auto simp: resolved_def dest: current_display)
    moreover from cur obtain st' where "bfiles (gemini s') (gname f') = Some st'"
        and "st_display st' = display_name f'"
      by (blast dest: current_display)
    ultimately show ?thesis using same name cur by (simp add: resolved_def)
  qed
  moreover from ok media_ok_cong [OF same] have "media_ok s'" by simp
  ultimately show ?thesis by blast
qed

lemma media_ok_record:
  assumes ok: "media_ok s" and res: "resolved s fid f"
  shows "media_ok (s\<lparr>file_upload_dict := (file_upload_dict s)(fid \<mapsto> gname f)\<rparr>)"
    and "resolved (s\<lparr>file_upload_dict := (file_upload_dict s)(fid \<mapsto> gname f)\<rparr>) fid f"
proof -
  from res obtain st where st: "bfiles (gemini s) (gname f) = Some st" and d: "st_display st = fid"
    by (auto simp: resolved_def dest: current_display)
  have "ran ((file_upload_dict s)(fid \<mapsto> gname f)) \<subseteq> insert (gname f) (ran (file_upload_dict s))"
    by (rule ran_upd_sub)
  then have nr: "''files/'' @ nat_digits i \<notin> ran ((file_upload_dict s)(fid \<mapsto> gname f))"
    if "uploads (gemini s) \<le> i" for i
  proof -
    from ok that have a: "bfiles (gemini s) (''files/'' @ nat_digits i) = None"
      and b: "''files/'' @ nat_digits i \<notin> ran (file_upload_dict s)"
      by (simp_all add: media_ok_def names_fresh_def)
    from a st have "''files/'' @ nat_digits i \<noteq> gname f" by auto
    with b \<open>ran ((file_upload_dict s)(fid \<mapsto> gname f)) \<subseteq> insert (gname f) (ran (file_upload_dict s))\<close>
    show ?thesis by blast
  qed
  have "names_fresh (s\<lparr>file_upload_dict := (file_upload_dict s)(fid \<mapsto> gname f)\<rparr>)"
    unfolding names_fresh_def
  proof (intro allI impI conjI)
    fix i
    assume i: "uploads (gemini (s\<lparr>file_upload_dict := (file_upload_dict s)(fid \<mapsto> gname f)\<rparr>)) \<le> i"
    with ok show "bfiles (gemini (s\<lparr>file_upload_dict := (file_upload_dict s)(fid \<mapsto> gname f)\<rparr>))
        (''files/'' @ nat_digits i) = None"
      by (simp add: media_ok_def names_fresh_def)
    from i nr show "''files/'' @ nat_digits i \<notin> ran (file_upload_dict (s\<lparr>file_upload_dict := (file_upload_dict s)(fid \<mapsto> gname f)\<rparr>))"
      by simp
  qed
  moreover have "cache_ok (s\<lparr>file_upload_dict := (file_upload_dict s)(fid \<mapsto> gname f)\<rparr>)"
    using ok st d by (simp add: media_ok_def cache_ok_def)
  ultimately show "media_ok (s\<lparr>file_upload_dict := (file_upload_dict s)(fid \<mapsto> gname f)\<rparr>)"
    by (simp add: media_ok_def)
  from res show "resolved (s\<lparr>file_upload_dict := (file_upload_dict s)(fid \<mapsto> gname f)\<rparr>) fid f"
    by (simp add: resolved_def current_def)
qed

lemma fetch_ok:
  assumes ok: "media_ok s" and c: "\<forall>f. cached = Some f \<longrightarrow> resolved s fid f"
    and run: "(case cached of None \<Rightarrow> upload_from_slack dl url fid mime | Some f \<Rightarrow> ok f) s = Some (r, s')"
  shows "media_ok s' \<and> (\<forall>f. r = Inr f \<longrightarrow> resolved s' fid f)"
proof (cases cached)
  case None
  with run have "upload_from_slack dl url fid mime s = Some (r, s')" by simp
  with ok show ?thesis by (rule upload_from_slack_ok)
next
  case (Some f)
  with run c ok show ?thesis by auto
qed

lemma settle_ok:
  assumes ok: "media_ok s" and res: "resolved s fid f"
    and run: "(if v then wait_processing f else ok f) s = Some (r, s')"
  shows "media_ok s' \<and> (\<forall>f'. r = Inr f' \<longrightarrow> resolved s' fid f')"
proof (cases v)
  case True
  with run have "wait_processing f s = Some (r, s')" by simp
  from wait_processing_ok [OF ok this] res show ?thesis by blast
next
  case False
  with run res ok show ?thesis by auto
qed

lemma get_file_part_ok:
  assumes ok: "media_ok s" and run: "get_file_part dl url fid mime s = Some (r, s')"
  shows "media_ok s' \<and> (\<forall>f. r = Inr (Some f) \<longrightarrow> display_name f = fid \<and> current s' f)"
proof (cases "mime \<in> set SUPPORTED_MIME_TYPES")
  case False
  with run ok show ?thesis by (auto simp: get_file_part_def)
next
  case True
  with run have "pbind (lookup_cached fid) (\<lambda>cached.
        pbind (case cached of None \<Rightarrow> upload_from_slack dl url fid mime | Some f \<Rightarrow> ok f) (\<lambda>f.
        pbind (if str_contains ''video'' mime then wait_processing f else ok f) (\<lambda>f.
        pbind (modify (\<lambda>s. s\<lparr>file_upload_dict := (file_upload_dict s)(fid \<mapsto> gname f)\<rparr>)) (\<lambda>_.
        ok (Some f))))) s = Some (r, s')"
    by (simp add: get_file_part_def)
  then show ?thesis
  proof (cases rule: pbind_SomeE)
    case (Exc e)
    with lookup_cached_ok [OF ok] show ?thesis by blast
  next
    case (Ret cached s1)
    from lookup_cached_ok [OF ok Ret(1)] have ok1: "media_ok s1"
      and c1: "\<forall>f. cached = Some f \<longrightarrow> resolved s1 fid f" by auto
    from Ret(2) show ?thesis
    proof (cases rule: pbind_SomeE)
      case (Exc e)
      with fetch_ok [OF ok1 c1] show ?thesis by blast
    next
      case (Ret f s2)
      from fetch_ok [OF ok1 c1 Ret(1)] have ok2: "media_ok s2" and res2: "resolved s2 fid f" by auto
      from Ret(2) show ?thesis
      proof (cases rule: pbind_SomeE)
        case (Exc e)
        with settle_ok [OF ok2 res2] show ?thesis by blast
      next
        case (Ret f' s3)
        from settle_ok [OF ok2 res2 Ret(1)] have ok3: "media_ok s3" and res3: "resolved s3 fid f'" by auto
        from Ret(2) have "r = Inr (Some f')"
          and "s' = s3\<lparr>file_upload_dict := (file_upload_dict s3)(fid \<mapsto> gname f')\<rparr>"
          by (simp_all add: pbind_def)
        with media_ok_record [OF ok3 res3] show ?thesis by (simp add: resolved_def)
      qed
    qed
  qed
qed

lemma get_file_part_records:
  assumes "get_file_part dl url fid mime s = Some (Inr (Some f), s')"
  shows "file_upload_dict s' fid = Some (gname f)"
proof -
  from assms have sup: "mime \<in> set SUPPORTED_MIME_TYPES"
    by (auto simp: get_file_part_def split: if_splits)
  with assms show ?thesis by (auto simp: get_file_part_def dest!: pbind_Some_Inr)
qed

section \<open>Properties\<close>

text \<open>
  C10: from a state satisfying the cache invariant, a supported attachment that
  \<open>get_file_part\<close> resolves is an upload of that same Slack file (display name = file id),
  current in the backend, and recorded in \<open>file_upload_dict\<close> under the file id; the invariant
  holds again afterwards. The model is never handed another attachment's upload.
\<close>

theorem get_file_part_own_upload:
  assumes ok: "media_ok s" and run: "get_file_part dl url fid mime s = Some (Inr (Some f), s')"
  shows "display_name f = fid \<and> current s' f \<and> file_upload_dict s' fid = Some (gname f) \<and> media_ok s'"
  using get_file_part_ok [OF ok run] get_file_part_records [OF run] by simp

section \<open>Witnesses\<close>

theorem get_file_part_own_upload_witness:
  "media_ok (example_mstate\<lparr>file_upload_dict := Map.empty\<rparr>) \<and>
   (\<exists>f s'. get_file_part example_downloads ''https://files.slack.com/F01'' ''F01'' ''image/png''
      (example_mstate\<lparr>file_upload_dict := Map.empty\<rparr>) = Some (Inr (Some f), s') \<and>
      display_name f = ''F01'' \<and> current s' f \<and> file_upload_dict s' ''F01'' = Some (gname f) \<and> media_ok s')"
proof -
  have ok: "media_ok (example_mstate\<lparr>file_upload_dict := Map.empty\<rparr>)"
    by (simp add: media_ok_def cache_ok_def names_fresh_def example_mstate_def example_backend_def)
  have "\<exists>f s'. get_file_part example_downloads ''https://files.slack.com/F01'' ''F01'' ''image/png''
      (example_mstate\<lparr>file_upload_dict := Map.empty\<rparr>) = Some (Inr (Some f), s')"
    by (simp add: pbind_def get_file_part_def lookup_cached_def upload_from_slack_def requests_get_def
        example_downloads_def genai_upload_file_def Let_def example_mstate_def SUPPORTED_MIME_TYPES_def)
  then obtain f s' where run: "get_file_part example_downloads ''https://files.slack.com/F01'' ''F01''
      ''image/png'' (example_mstate\<lparr>file_upload_dict := Map.empty\<rparr>) = Some (Inr (Some f), s')"
    by blast
  from get_file_part_own_upload [OF ok run] ok run show ?thesis by blast
qed

end
