(* ===== verification/App.thy ===== *)
theory App
  imports TurnMachine Cache
begin

text \<open>
  The process around the handler: \<open>make_app_mention_event\<close> seeds \<open>file_upload_dict\<close> from
  the Gemini file listing (\<open>src/slack_agent/events/app_mention.py\<close>, lines 48--68),
  \<open>make_main_function\<close> (\<open>src/slack_agent/main_function.py\<close>) gives the model the
  registry's tools and registers the handler, and Slack's socket-mode app delivers mentions to
  it one after the other. The cache invariant of \<open>Cache\<close> holds from start-up on across any
  sequence of mentions; each mention is acknowledged once and answered at most once.
\<close>

section \<open>Start-up\<close>

text \<open>
  \<open>genai.list_files()\<close>: the backend's uploads, in the order the listing pages return the
  names \<open>ns\<close> (the pager walks every page; \<open>page_size\<close> only sets their length).
\<close>

definition genai_list_files :: "backend \<Rightarrow> string list \<Rightarrow> gfile list" where
  "genai_list_files b ns =
     concat (map (\<lambda>n. case bfiles b n of None \<Rightarrow> [] | Some st \<Rightarrow> [file_view b n st]) ns)"

text \<open>Lines 55--68: the process state the handler closes over when it is made.\<close>

definition make_app_mention_event :: "backend \<Rightarrow> string list \<Rightarrow> world" where
  "make_app_mention_event b ns =
     \<lparr>file_upload_dict = init_upload_dict (genai_list_files b ns), gemini = b, acks = [], posted = []\<rparr>"

text \<open>
  \<open>make_main_function\<close>: the tools declared to the model (\<open>tools=get_functions()\<close>) and
  the state of the registered \<open>app_mention\<close> handler.
\<close>

definition make_main_function :: "registry \<Rightarrow> backend \<Rightarrow> string list \<Rightarrow> tool_fn list \<times> world" where
  "make_main_function reg b ns = (get_functions reg, make_app_mention_event b ns)"

section \<open>Event delivery\<close>

text \<open>
  \<open>SocketModeHandler(app).start()\<close>: mentions are handed to \<open>event_fun\<close> in order; an
  exception of one handler run is reported for that event and the next event is handled.
\<close>

fun dispatch :: "registry \<Rightarrow> llm \<Rightarrow> slack_env \<Rightarrow> event list \<Rightarrow> world \<Rightarrow> ((error + unit) list \<times> world) option" where
  "dispatch reg model env [] w = Some ([], w)"
| "dispatch reg model env (ev # evs) w =
     (case event_fun reg model env ev w of
        None \<Rightarrow> None
      | Some (r, w') \<Rightarrow>
          (case dispatch reg model env evs w' of
             None \<Rightarrow> None
           | Some (rs, w'') \<Rightarrow> Some (r # rs, w'')))"

text \<open>
  \<open>main.py\<close>, lines 22--31: build the main function and run it; the mentions Slack delivers
  while it runs are \<open>evs\<close>. The tokens, model name and system instruction are configuration
  that reaches only the external services.
\<close>

definition run_main ::
  "registry \<Rightarrow> llm \<Rightarrow> slack_env \<Rightarrow> backend \<Rightarrow> string list \<Rightarrow> event list \<Rightarrow> ((error + unit) list \<times> world) option" where
  "run_main reg model env b ns evs = dispatch reg model env evs (snd (make_main_function reg b ns))"

text \<open>The channel and thread a reply is posted to.\<close>

fun reply_target :: "reply \<Rightarrow> string \<times> string" where
  "reply_target (Say t ch ts) = (ch, ts)"
| "reply_target (FileUpload fname c body ch ts) = (ch, ts)"

text \<open>A mention in a thread Slack returns no messages for.\<close>

definition example_empty_thread_event :: event where
  "example_empty_thread_event = \<lparr>ev_channel = ''C01'', ev_ts = ''1700000000.000900'',
     ev_text = ''<@U0BOT> hi'', ev_files = [], ev_thread_ts = Some ''1700000000.000800''\<rparr>"

section \<open>Lemmas\<close>

declare nat_digits.simps [simp del]

lemma init_upload_dict_map_of:
  "init_upload_dict fs = map_of (rev (map (\<lambda>f. (display_name f, gname f)) fs))"
proof -
  have "fold (\<lambda>f d. d(display_name f \<mapsto> gname f)) fs m =
        m ++ map_of (rev (map (\<lambda>f. (display_name f, gname f)) fs))" for m
    by (induction fs arbitrary: m) (simp_all add: map_add_def fun_eq_iff split: option.splits)
  then show ?thesis by (simp add: init_upload_dict_def)
qed

lemma preserves_media_get_file_part [inv_intros]: "preserves media_ok (get_file_part dl url fid mime)"
  unfolding preserves_def using get_file_part_ok by blast

lemma preserves_media_thread_files [inv_intros]: "preserves media_ok (thread_files env fs tms ps)"
  by (induction fs arbitrary: tms ps) (simp_all add: inv_intros)

lemma preserves_media_thread_loop [inv_intros]: "preserves media_ok (thread_loop env ms tms)"
  by (induction ms arbitrary: tms) (simp_all add: thread_message_def inv_intros)

lemma preserves_media_get_thread_messages [inv_intros]: "preserves media_ok (get_thread_messages env ch ts)"
  unfolding get_thread_messages_def by (intro inv_intros)

lemma preserves_media_event_files [inv_intros]: "preserves media_ok (event_files env fs msg)"
  by (induction fs arbitrary: msg) (simp_all add: inv_intros)

lemma preserves_media_build_message [inv_intros]: "preserves media_ok (build_message env ev)"
  unfolding build_message_def by (intro inv_intros)

lemma media_ok_world_fields [simp]:
  "media_ok (w\<lparr>acks := a\<rparr>) = media_ok w" "media_ok (w\<lparr>posted := p\<rparr>) = media_ok w"
  by (simp_all add: media_ok_def cache_ok_def names_fresh_def)

lemma preserves_media_event_fun [inv_intros]: "preserves media_ok (event_fun reg model env ev)"
  unfolding event_fun_def by (intro inv_intros) simp_all

lemma init_upload_dict_snoc:
  "init_upload_dict (fs @ [f]) = (init_upload_dict fs)(display_name f \<mapsto> gname f)"
  by (simp add: init_upload_dict_def)

lemma init_upload_dict_SomeD:
  "init_upload_dict fs k = Some n \<Longrightarrow> \<exists>f \<in> set fs. display_name f = k \<and> gname f = n"
  by (auto simp: init_upload_dict_map_of dest!: map_of_SomeD)

lemma listed_file:
  "f \<in> set (genai_list_files b ns) \<Longrightarrow> \<exists>st. bfiles b (gname f) = Some st \<and> st_display st = display_name f"
  by (auto simp: genai_list_files_def file_view_def split: option.splits dest: sym)

lemma media_ok_startup:
  assumes "\<forall>i. uploads b \<le> i \<longrightarrow> bfiles b (''files/'' @ nat_digits i) = None"
  shows "media_ok (make_app_mention_event b ns)"
proof -
  let ?fs = "genai_list_files b ns"
  have "cache_ok (make_app_mention_event b ns)"
    unfolding cache_ok_def
  proof (intro allI impI)
    fix k n st
    assume "file_upload_dict (make_app_mention_event b ns) k = Some n"
      and st: "bfiles (gemini (make_app_mention_event b ns)) n = Some st"
    then obtain f where "f \<in> set ?fs" "display_name f = k" "gname f = n"
      by (auto simp: make_app_mention_event_def dest: init_upload_dict_SomeD)
    with st listed_file show "st_display st = k" by (fastforce simp: make_app_mention_event_def)
  qed
  moreover have "names_fresh (make_app_mention_event b ns)"
    unfolding names_fresh_def
  proof (intro allI impI conjI)
    fix i
    assume i: "uploads (gemini (make_app_mention_event b ns)) \<le> i"
    with assms show unused: "bfiles (gemini (make_app_mention_event b ns)) (''files/'' @ nat_digits i) = None"
      by (simp add: make_app_mention_event_def)
    show "''files/'' @ nat_digits i \<notin> ran (file_upload_dict (make_app_mention_event b ns))"
    proof
      assume "''files/'' @ nat_digits i \<in> ran (file_upload_dict (make_app_mention_event b ns))"
      then obtain k where "init_upload_dict ?fs k = Some (''files/'' @ nat_digits i)"
        by (auto simp: ran_def make_app_mention_event_def)
      then obtain f where "f \<in> set ?fs" and "gname f = ''files/'' @ nat_digits i"
        by (blast dest: init_upload_dict_SomeD)
      with listed_file unused show False by (fastforce simp: make_app_mention_event_def)
    qed
  qed
  ultimately show ?thesis by (simp add: media_ok_def)
qed

lemma dispatch_preserves_media_ok:
  "media_ok w \<Longrightarrow> dispatch reg model env evs w = Some (rs, w') \<Longrightarrow> media_ok w'"
proof (induction evs arbitrary: w rs)
  case Nil
  then show ?case by simp
next
  case (Cons ev evs)
  from Cons.prems(2) obtain r w1 rs' where
    ev: "event_fun reg model env ev w = Some (r, w1)" and rest: "dispatch reg model env evs w1 = Some (rs', w')"
    by (auto split: option.splits)
  from preservesD [OF preserves_media_event_fun Cons.prems(1) ev] have "media_ok w1" .
  from Cons.IH [OF this rest] show ?case .
qed

section \<open>Properties\<close>

text \<open>
  C11: the cache invariant is established at start-up, for any backend whose upload counter is
  ahead of the names it holds, and holds after any sequence of mentions the app dispatches:
  no cache entry ever points to another attachment's upload.
\<close>

theorem startup_dispatch_media_ok:
  assumes "\<forall>i. uploads b \<le> i \<longrightarrow> bfiles b (''files/'' @ nat_digits i) = None"
    and "run_main reg model env b ns evs = Some (rs, w')"
  shows "media_ok w'"
proof -
  have "snd (make_main_function reg b ns) = make_app_mention_event b ns"
    by (simp add: make_main_function_def)
  with assms(2) media_ok_startup [OF assms(1), of ns] show ?thesis
    unfolding run_main_def
    by (metis dispatch_preserves_media_ok)
qed

text \<open>
  C12: dispatching a sequence of mentions acknowledges every mention once, in order, reports one
  outcome per mention, and posts exactly one reply for each mention whose turn succeeded, in the
  channel and thread of that mention and in the order of the mentions; a failed mention gets none.
\<close>

theorem dispatch_replies:
  assumes "dispatch reg model env evs w = Some (rs, w')"
  shows "acks w' = acks w @ map ev_ts evs \<and> length rs = length evs \<and>
    map reply_target (posted w') = map reply_target (posted w) @
      map (\<lambda>(ev, r). (ev_channel ev, ev_ts ev)) (filter (\<lambda>(ev, r). r = Inr ()) (zip evs rs))"
  using assms
proof (induction evs arbitrary: w rs)
  case Nil
  then show ?case by simp
next
  case (Cons ev evs)
  from Cons.prems obtain r w1 rs' where
    ev: "event_fun reg model env ev w = Some (r, w1)" and rest: "dispatch reg model env evs w1 = Some (rs', w')"
    and rs: "rs = r # rs'"
    by (auto split: option.splits)
  from Cons.IH [OF rest] have IH: "acks w' = acks w1 @ map ev_ts evs \<and> length rs' = length evs \<and>
    map reply_target (posted w') = map reply_target (posted w1) @
      map (\<lambda>(ev, r). (ev_channel ev, ev_ts ev)) (filter (\<lambda>(ev, r). r = Inr ()) (zip evs rs'))" .
  from event_fun_steps [OF ev] obtain w2 where w2: "acks w2 = acks w @ [ev_ts ev]" "posted w2 = posted w"
    and cases: "(\<exists>e. r = Inl e \<and> w1 = w2) \<or>
      (\<exists>txt tr. r = Inr () \<and> w1 = w2\<lparr>posted := posted w2 @ [publish txt (ev_channel ev) (ev_ts ev) tr]\<rparr>)"
    by blast
  from cases show ?case
  proof
    assume "\<exists>e. r = Inl e \<and> w1 = w2"
    with IH w2 rs show ?thesis by auto
  next
    assume "\<exists>txt tr. r = Inr () \<and> w1 = w2\<lparr>posted := posted w2 @ [publish txt (ev_channel ev) (ev_ts ev) tr]\<rparr>"
    with IH w2 rs show ?thesis by (auto simp: publish_def)
  qed
qed

text \<open>
  C32: the start-up cache maps a display name to the name of the last listed upload with that
  display name, and has no entry for a display name no listed upload has: all listed files are
  entered, however many pages the listing has.
\<close>

theorem init_upload_dict_listing:
  "init_upload_dict fs k =
     (case filter (\<lambda>f. display_name f = k) fs of [] \<Rightarrow> None | gs \<Rightarrow> Some (gname (last gs)))"
  by (induction fs rule: rev_induct) (auto simp: init_upload_dict_def [of "[]"] init_upload_dict_snoc split: list.splits)

section \<open>Witnesses\<close>

theorem startup_dispatch_media_ok_witness:
  "\<exists>rs w'. run_main module_registry greeting_model example_env example_backend [''files/0'']
      [example_event] = Some (rs, w') \<and> media_ok w'"
proof -
  have fresh: "\<forall>i. uploads example_backend \<le> i \<longrightarrow> bfiles example_backend (''files/'' @ nat_digits i) = None"
    by (simp add: example_backend_def)
  have "\<exists>rs w'. run_main module_registry greeting_model example_env example_backend [''files/0'']
      [example_event] = Some (rs, w')"
    by (simp add: run_main_def make_main_function_def make_app_mention_event_def event_fun_def build_message_def
        chat_turn_def send_message_def start_chat_def tool_loop.simps final_text_def run_local_def
        pbind_def Let_def example_event_def greeting_model_def)
  then obtain rs w' where run: "run_main module_registry greeting_model example_env example_backend
      [''files/0''] [example_event] = Some (rs, w')"
    by blast
  from startup_dispatch_media_ok [OF fresh run] run show ?thesis by blast
qed

theorem dispatch_replies_witness:
  "\<exists>w'. dispatch module_registry weather_model example_env [example_event, example_empty_thread_event]
      example_world = Some ([Inr (), Inl UnpackError], w') \<and>
    acks w' = [''1700000000.000300'', ''1700000000.000900''] \<and>
    map reply_target (posted w') = [(''C01'', ''1700000000.000300'')]"
proof -
  let ?w1 = "example_world\<lparr>acks := [''1700000000.000300''],
      posted := [publish ''It is sunny in Tokyo.'' ''C01'' ''1700000000.000300''
        [CallRec ''get_current_weather'' [(''city'', JStr ''Tokyo'')],
         RespRec ''get_current_weather'' (JObj [(''city'', JStr ''Tokyo''), (''weather'', JStr ''sunny''),
            (''temperature'', JInt 30), (''unit'', JStr ''C'')])]]\<rparr>"
  have e2: "event_fun module_registry weather_model example_env example_empty_thread_event ?w1 =
      Some (Inl UnpackError, ?w1\<lparr>acks := acks ?w1 @ [''1700000000.000900'']\<rparr>)"
    by (simp add: event_fun_def build_message_def get_thread_messages_def split_last_def
        pbind_def example_empty_thread_event_def example_env_def)
  have run: "dispatch module_registry weather_model example_env [example_event, example_empty_thread_event]
      example_world = Some ([Inr (), Inl UnpackError], ?w1\<lparr>acks := acks ?w1 @ [''1700000000.000900'']\<rparr>)"
    by (simp add: weather_run e2)
  from dispatch_replies [OF run] run show ?thesis
    by (auto simp: example_world_def example_event_def example_empty_thread_event_def)
qed

end
