(* ===== verification/Entry.thy ===== *)
theory Entry
  imports App
begin

text \<open>
  \<open>src/main.py\<close>: the configuration the process reads before it starts, and the run. The
  tokens come from the process environment after \<open>dotenv.load_dotenv()\<close> has added the
  variables of a \<open>.env\<close> file that the environment does not already set; a missing token is a
  \<open>KeyError\<close> before anything starts. The system instruction (lines 14--20) is a constant
  prompt text passed only to the model service and is not represented.
\<close>

section \<open>Configuration\<close>

text \<open>Line 5: \<open>load_dotenv()\<close> keeps the variables already set (\<open>override=False\<close>).\<close>

definition load_dotenv :: "(string \<rightharpoonup> string) \<Rightarrow> (string \<rightharpoonup> string) \<Rightarrow> (string \<rightharpoonup> string)" where
  "load_dotenv dotenv environ = dotenv ++ environ"

text \<open>\<open>os.environ[k]\<close>: \<open>KeyError\<close> when the variable is not set.\<close>

definition environ_get :: "(string \<rightharpoonup> string) \<Rightarrow> string \<Rightarrow> error + string" where
  "environ_get environ k = (case environ k of None \<Rightarrow> Inl (KeyError k) | Some v \<Rightarrow> Inr v)"

text \<open>The values \<open>main.py\<close> hands to \<open>make_main_function\<close>.\<close>

record config =
  google_api_token :: string
  slack_bot_token :: string
  slack_app_token :: string
  model_name :: string

definition MODEL_NAME :: string where
  "MODEL_NAME = ''gemini-2.0-flash-exp''"

text \<open>The variables lines 8--10 read, in the order they are read.\<close>

definition REQUIRED_VARS :: "string list" where
  "REQUIRED_VARS = [''GOOGLE_API_TOKEN'', ''SLACK_BOT_TOKEN'', ''SLACK_APP_TOKEN'']"

text \<open>Lines 7--13.\<close>

definition read_config :: "(string \<rightharpoonup> string) \<Rightarrow> error + config" where
  "read_config environ =
     (case environ_get environ ''GOOGLE_API_TOKEN'' of Inl e \<Rightarrow> Inl e | Inr g \<Rightarrow>
      case environ_get environ ''SLACK_BOT_TOKEN'' of Inl e \<Rightarrow> Inl e | Inr b \<Rightarrow>
      case environ_get environ ''SLACK_APP_TOKEN'' of Inl e \<Rightarrow> Inl e | Inr a \<Rightarrow>
        Inr \<lparr>google_api_token = g, slack_bot_token = b, slack_app_token = a, model_name = MODEL_NAME\<rparr>)"

section \<open>The process\<close>

text \<open>
  The credentials and model each external client is built with: \<open>App(token=...)\<close>
  (\<open>main_function.py\<close>, line 17), \<open>SocketModeHandler(app, app_token=...)\<close> (line 31),
  \<open>genai.configure(api_key=...)\<close> and \<open>GenerativeModel(model_name=...)\<close>
  (\<open>app_mention.py\<close>, lines 55--61), reached through the keyword arguments of lines 20--27.
\<close>

record clients =
  bolt_token :: string
  socket_token :: string
  genai_key :: string
  gen_model :: string

text \<open>
  \<open>make_main_function(model_name=..., google_api_token=..., slack_bot_token=...,
  slack_app_token=...)\<close>: which configuration value reaches which client.
\<close>

definition main_clients :: "config \<Rightarrow> clients" where
  "main_clients cfg =
     \<lparr>bolt_token = slack_bot_token cfg, socket_token = slack_app_token cfg,
      genai_key = google_api_token cfg, gen_model = model_name cfg\<rparr>"

text \<open>
  Lines 5--31: read the configuration, then build the main function with it (lines 23--29)
  and run it: the clients it configures and the outcome of the run.
\<close>

definition main_py ::
  "(string \<rightharpoonup> string) \<Rightarrow> (string \<rightharpoonup> string) \<Rightarrow> registry \<Rightarrow> llm \<Rightarrow> slack_env \<Rightarrow> backend \<Rightarrow> string list
     \<Rightarrow> event list \<Rightarrow> (error + clients \<times> (error + unit) list \<times> world) option" where
  "main_py environ dotenv reg model env b ns evs =
     (case read_config (load_dotenv dotenv environ) of
        Inl e \<Rightarrow> Some (Inl e)
      | Inr cfg \<Rightarrow> map_option (\<lambda>r. Inr (main_clients cfg, r)) (run_main reg model env b ns evs))"

section \<open>Lemmas\<close>

lemma read_config_values:
  "environ ''GOOGLE_API_TOKEN'' = Some g \<Longrightarrow> environ ''SLACK_BOT_TOKEN'' = Some bt \<Longrightarrow>
   environ ''SLACK_APP_TOKEN'' = Some at \<Longrightarrow>
   read_config environ = Inr \<lparr>google_api_token = g, slack_bot_token = bt, slack_app_token = at,
     model_name = MODEL_NAME\<rparr>"
  by (simp add: read_config_def environ_get_def)

section \<open>Properties\<close>

text \<open>
  C36: when a token is set neither in the environment nor in \<open>.env\<close>, \<open>main.py\<close> stops with
  \<open>KeyError\<close> naming the first such variable in the order the lines read them, and no mention
  is handled.
\<close>

theorem main_py_missing_var:
  assumes "filter (\<lambda>k. k \<notin> dom (load_dotenv dotenv environ)) REQUIRED_VARS = k # ks"
  shows "main_py environ dotenv reg model env b ns evs = Some (Inl (KeyError k))"
  using assms
  by (auto simp: REQUIRED_VARS_def main_py_def read_config_def environ_get_def split: if_splits option.splits)

text \<open>
  C37: when the three tokens are set, in the environment or in \<open>.env\<close> (the environment
  winning), \<open>main.py\<close> runs the app, with the Slack app built on the bot token, the socket-mode
  handler on the app token, the Gemini library configured with the Google token and the model
  \<open>gemini-2.0-flash-exp\<close>.
\<close>

theorem main_py_clients:
  assumes "load_dotenv dotenv environ ''GOOGLE_API_TOKEN'' = Some g"
    and "load_dotenv dotenv environ ''SLACK_BOT_TOKEN'' = Some bt"
    and "load_dotenv dotenv environ ''SLACK_APP_TOKEN'' = Some at"
  shows "main_py environ dotenv reg model env b ns evs =
    map_option (\<lambda>r. Inr (\<lparr>bolt_token = bt, socket_token = at, genai_key = g,
        gen_model = ''gemini-2.0-flash-exp''\<rparr>, r)) (run_main reg model env b ns evs)"
  using read_config_values [OF assms]
  by (simp add: main_py_def main_clients_def MODEL_NAME_def)

section \<open>Witnesses\<close>

theorem main_py_missing_var_witness:
  "main_py [''GOOGLE_API_TOKEN'' \<mapsto> ''g-token''] [''SLACK_APP_TOKEN'' \<mapsto> ''xapp-token'']
      module_registry greeting_model example_env example_backend [] [example_event]
   = Some (Inl (KeyError ''SLACK_BOT_TOKEN''))"
  by (rule main_py_missing_var [where ks = "[]"]) (simp add: REQUIRED_VARS_def load_dotenv_def)

theorem main_py_clients_witness:
  "main_py [''GOOGLE_API_TOKEN'' \<mapsto> ''g-token'', ''SLACK_BOT_TOKEN'' \<mapsto> ''xoxb-token'']
      [''SLACK_APP_TOKEN'' \<mapsto> ''xapp-token'', ''SLACK_BOT_TOKEN'' \<mapsto> ''old-bot-token'']
      module_registry greeting_model example_env example_backend [] [example_event]
   = map_option (\<lambda>r. Inr (\<lparr>bolt_token = ''xoxb-token'', socket_token = ''xapp-token'', genai_key = ''g-token'',
        gen_model = ''gemini-2.0-flash-exp''\<rparr>, r))
      (run_main module_registry greeting_model example_env example_backend [] [example_event])"
  by (rule main_py_clients) (simp_all add: load_dotenv_def)

end
