(* ===== verification/Handler.thy ===== *)
theory Handler
  imports Orchestrator
begin

text \<open>
  What the handler sends to the model for a mention outside a thread, and how it ends a turn
  whose final response has no parts (\<open>src/slack_agent/events/app_mention.py\<close>, lines
  166--175 and 217). The message is the mention's text followed by one part per attachment that
  resolved, in attachment order: the reverse of the thread path, where a message's files come
  before its text (\<open>Thread.get_thread_messages_last\<close>).
\<close>

section \<open>Example attachments\<close>

definition example_png_file :: sfile where
  "example_png_file = \<lparr>sf_id = ''F01'', sf_name = ''chart.png'', sf_mimetype = ''image/png'',
     sf_url = ''https://files.slack.com/F01''\<rparr>"

definition example_zip_file :: sfile where
  "example_zip_file = \<lparr>sf_id = ''F03'', sf_name = ''logs.zip'', sf_mimetype = ''application/zip'',
     sf_url = ''https://files.slack.com/F03''\<rparr>"

definition example_file_event :: event where
  "example_file_event = \<lparr>ev_channel = ''C01'', ev_ts = ''1700000000.000400'',
     ev_text = ''<@U0BOT> what is in these?'', ev_files = [example_png_file, example_zip_file],
     ev_thread_ts = None\<rparr>"

definition example_file_env :: slack_env where
  "example_file_env = example_env\<lparr>downloads := example_downloads\<rparr>"

section \<open>Lemmas\<close>

lemma event_files_shape:
  assumes "event_files env fs msg s = Some (Inr ps, s')"
  shows "\<exists>qs. ps = msg @ qs \<and> list_all is_file_part qs \<and> length qs \<le> length fs"
  using assms
proof (induction fs arbitrary: msg s)
  case Nil
  then show ?case by simp
next
  case (Cons f fs)
  from Cons.prems obtain fp s1 where
    "event_files env fs (case fp of None \<Rightarrow> msg | Some g \<Rightarrow> msg @ [PFile g]) s1 = Some (Inr ps, s')"
    by (auto simp: pbind_def split: option.splits sum.splits)
  from Cons.IH [OF this] obtain qs where
    "ps = (case fp of None \<Rightarrow> msg | Some g \<Rightarrow> msg @ [PFile g]) @ qs" and "list_all is_file_part qs"
    and "length qs \<le> length fs" by blast
  then show ?case
    by (cases fp) (auto intro!: exI [of _ qs] exI [of _ "PFile _ # qs"])
qed

lemma event_files_unsupported:
  "list_all (\<lambda>f. sf_mimetype f \<notin> set SUPPORTED_MIME_TYPES) fs \<Longrightarrow> event_files env fs msg s = Some (Inr msg, s)"
  by (induction fs arbitrary: msg) (simp_all add: get_file_part_def)

section \<open>Properties\<close>

text \<open>
  C33: for a mention outside a thread there is no history, and the message is a user turn whose
  first part is the mention's text, followed by at most one file part per attachment.
\<close>

theorem build_message_text_first:
  assumes "ev_thread_ts ev = None" and "build_message env ev s = Some (Inr (msg, hist), s')"
  shows "hist = None \<and> role msg = JStr ''user'' \<and>
    (\<exists>qs. parts msg = PText (ev_text ev) # qs \<and> list_all is_file_part qs \<and> length qs \<le> length (ev_files ev))"
proof -
  from assms obtain ps where
    ef: "event_files env (ev_files ev) [PText (ev_text ev)] s = Some (Inr ps, s')"
    and msg: "msg = \<lparr>role = JStr ''user'', parts = ps\<rparr>" and h: "hist = None"
    by (auto simp: build_message_def pbind_def split: option.splits sum.splits)
  from event_files_shape [OF ef] msg h show ?thesis by auto
qed

text \<open>
  C34: attachments of unsupported MIME types contribute no part and cause no download, upload or
  cache change: a mention outside a thread whose attachments are all unsupported becomes the
  text alone.
\<close>

theorem build_message_unsupported:
  assumes "ev_thread_ts ev = None"
    and "list_all (\<lambda>f. sf_mimetype f \<notin> set SUPPORTED_MIME_TYPES) (ev_files ev)"
  shows "build_message env ev s = Some (Inr (\<lparr>role = JStr ''user'', parts = [PText (ev_text ev)]\<rparr>, None), s)"
  using assms by (simp add: build_message_def pbind_apply(1) [OF event_files_unsupported])

text \<open>
  C35: a final response without parts makes \<open>parts[0]\<close> raise \<open>IndexError\<close>: the mention is
  acknowledged and nothing is posted.
\<close>

theorem event_fun_empty_answer:
  assumes "ev_thread_ts ev = None" and "ev_files ev = []"
    and "model [\<lparr>role = JStr ''user'', parts = [PText (ev_text ev)]\<rparr>] = []"
  shows "event_fun reg model env ev w = Some (Inl IndexError, w\<lparr>acks := acks w @ [ev_ts ev]\<rparr>)"
  using assms
  by (simp add: event_fun_def build_message_def chat_turn_def send_message_def start_chat_def
      tool_loop.simps final_text_def run_local_def pbind_def Let_def)

section \<open>Witnesses\<close>

theorem build_message_text_first_witness:
  "\<exists>msg hist s'. build_message example_file_env example_file_event
      (example_mstate\<lparr>file_upload_dict := Map.empty\<rparr>) = Some (Inr (msg, hist), s') \<and>
    hist = None \<and> role msg = JStr ''user'' \<and>
    (\<exists>qs. parts msg = PText ''<@U0BOT> what is in these?'' # qs \<and> list_all is_file_part qs \<and> length qs \<le> 2)"
proof -
  have "\<exists>msg hist s'. build_message example_file_env example_file_event
      (example_mstate\<lparr>file_upload_dict := Map.empty\<rparr>) = Some (Inr (msg, hist), s')"
    by (simp add: build_message_def example_file_event_def example_file_env_def example_png_file_def
        example_zip_file_def pbind_def get_file_part_def lookup_cached_def upload_from_slack_def
        requests_get_def example_downloads_def genai_upload_file_def Let_def example_mstate_def
        SUPPORTED_MIME_TYPES_def)
  then obtain msg hist s' where run: "build_message example_file_env example_file_event
      (example_mstate\<lparr>file_upload_dict := Map.empty\<rparr>) = Some (Inr (msg, hist), s')" by blast
  have ev: "ev_thread_ts example_file_event = None" by (simp add: example_file_event_def)
  from build_message_text_first [OF ev run] run show ?thesis
    by (auto simp: example_file_event_def)
qed

theorem build_message_unsupported_witness:
  "build_message example_file_env (example_file_event\<lparr>ev_files := [example_zip_file]\<rparr>) example_mstate =
     Some (Inr (\<lparr>role = JStr ''user'', parts = [PText ''<@U0BOT> what is in these?'']\<rparr>, None), example_mstate)"
  using build_message_unsupported [of "example_file_event\<lparr>ev_files := [example_zip_file]\<rparr>"
      example_file_env example_mstate]
  by (simp add: example_file_event_def example_zip_file_def SUPPORTED_MIME_TYPES_def)

theorem event_fun_empty_answer_witness:
  "event_fun module_registry (\<lambda>h. []) example_env example_event example_world =
     Some (Inl IndexError, example_world\<lparr>acks := [''1700000000.000300'']\<rparr>)"
  using event_fun_empty_answer [of example_event "\<lambda>h. []" module_registry example_env example_world]
  by (simp add: example_event_def example_world_def)

end
