(* ===== verification/Reuse.thy ===== *)
theory Reuse
  imports App Handler
begin

text \<open>
  The process-wide \<open>file_upload_dict\<close> across mentions, with Gemini deleting uploads on its
  own: a Slack attachment that many mentions carry is uploaded once, and again only after
  Gemini lost the upload (\<open>src/slack_agent/events/app_mention.py\<close>, lines 65 and 99--125,
  through the handler and the delivery of mentions). The invariant \<open>upload_budget\<close> holds
  between the steps of \<open>get_file_part\<close> and between occurrences.
\<close>

section \<open>Mentions and expiries\<close>

text \<open>
  What happens while the process runs: Slack delivers a mention to the handler, or Gemini
  deletes an upload on its own.
\<close>

datatype occurrence = Mention event | Expire string

text \<open>
  The run of the process over such occurrences: mentions are handled one after the other as
  by \<open>dispatch\<close>, expiries change only the backend.
\<close>

fun deliver :: "registry \<Rightarrow> llm \<Rightarrow> slack_env \<Rightarrow> occurrence list \<Rightarrow> world \<Rightarrow> ((error + unit) list \<times> world) option" where
  "deliver reg model env [] w = Some ([], w)"
| "deliver reg model env (Mention ev # os) w =
     (case event_fun reg model env ev w of
        None \<Rightarrow> None
      | Some (r, w') \<Rightarrow>
          (case deliver reg model env os w' of
             None \<Rightarrow> None
           | Some (rs, w'') \<Rightarrow> Some (r # rs, w'')))"
| "deliver reg model env (Expire n # os) w = deliver reg model env os (w\<lparr>gemini := genai_expire (gemini w) n\<rparr>)"

fun expiries :: "occurrence list \<Rightarrow> nat" where
  "expiries [] = 0"
| "expiries (Mention ev # os) = expiries os"
| "expiries (Expire n # os) = Suc (expiries os)"

fun mention_with :: "sfile \<Rightarrow> occurrence \<Rightarrow> bool" where
  "mention_with f (Mention ev) = (ev_thread_ts ev = None \<and> ev_files ev = [f])"
| "mention_with f (Expire n) = True"

section \<open>Invariant\<close>

text \<open>
  With budget \<open>u\<close>: the upload count is at most \<open>u\<close>, or at most one more and the cache maps
  the attachment to a file the backend holds (so the next lookup hits).
\<close>

definition upload_budget :: "string \<Rightarrow> nat \<Rightarrow> 'a mstate_scheme \<Rightarrow> bool" where
  "upload_budget fid u s \<longleftrightarrow> uploads (gemini s) \<le> u \<or>
     (uploads (gemini s) \<le> Suc u \<and> (\<exists>n. file_upload_dict s fid = Some n \<and> n \<in> dom (bfiles (gemini s))))"

text \<open>A file object held by the backend, with at most one upload over the budget made.\<close>

definition placed :: "nat \<Rightarrow> 'a mstate_scheme \<Rightarrow> gfile \<Rightarrow> bool" where
  "placed u s f \<longleftrightarrow> gname f \<in> dom (bfiles (gemini s)) \<and> uploads (gemini s) \<le> Suc u"

section \<open>Lemmas\<close>

declare nat_digits.simps [simp del]

text \<open>The polling loop never raises for a file the backend holds: it only re-reads it.\<close>

lemma wait_processing_no_error:
  assumes "wait_processing f s = Some (Inl e, s')" and "gname f \<in> dom (bfiles (gemini s))"
  shows False
proof -
  have "gname f \<in> dom (bfiles (gemini s)) \<longrightarrow> (\<forall>e'. fst (Inl e :: error + gfile, s') \<noteq> Inl e')"
  proof (rule wait_processing.raw_induct [where P = "\<lambda>f s r. gname f \<in> dom (bfiles (gemini s)) \<longrightarrow> (\<forall>e'. fst r \<noteq> Inl e')",
        OF _ assms(1)])
    fix w :: "gfile \<Rightarrow> ('a mstate_scheme, gfile) prog" and f s r
    assume IH: "\<And>f s r. w f s = Some r \<Longrightarrow> gname f \<in> dom (bfiles (gemini s)) \<longrightarrow> (\<forall>e'. fst r \<noteq> Inl e')"
      and eq: "(if gstate f = PROCESSING
        then let s' = s\<lparr>gemini := sleep5 (gemini s)\<rparr>
             in case genai_get_file (gemini s') (gname f) of
                Inl e \<Rightarrow> Some (Inl e, s') | Inr f' \<Rightarrow> w f' s'
        else Some (Inr f, s)) = Some r"
    show "gname f \<in> dom (bfiles (gemini s)) \<longrightarrow> (\<forall>e'. fst r \<noteq> Inl e')"
    proof
      assume d: "gname f \<in> dom (bfiles (gemini s))"
      show "\<forall>e'. fst r \<noteq> Inl e'"
      proof (cases "gstate f = PROCESSING")
        case False
        with eq show ?thesis by auto
      next
        case True
        let ?s' = "s\<lparr>gemini := sleep5 (gemini s)\<rparr>"
        from d obtain st where st: "bfiles (gemini ?s') (gname f) = Some st"
          by (auto simp: sleep5_def)
        then have get: "genai_get_file (gemini ?s') (gname f) = Inr (file_view (gemini ?s') (gname f) st)"
          by (simp add: genai_get_file_def)
        with True eq have "w (file_view (gemini ?s') (gname f) st) ?s' = Some r" by simp
        moreover from st have "gname (file_view (gemini ?s') (gname f) st) \<in> dom (bfiles (gemini ?s'))"
          by (auto simp: file_view_def)
        ultimately show ?thesis using IH by blast
      qed
    qed
  qed
  with assms(2) show False by simp
qed

lemma upload_budget_start: "upload_budget fid (uploads (gemini s)) s"
  by (simp add: upload_budget_def)

lemma upload_budget_expire:
  "upload_budget fid u w \<Longrightarrow> upload_budget fid (Suc u) (w\<lparr>gemini := genai_expire (gemini w) n\<rparr>)"
  by (auto simp: upload_budget_def genai_expire_def)

lemma upload_budget_world [simp]:
  "upload_budget fid u0 (w\<lparr>acks := a\<rparr>) = upload_budget fid u0 w"
  "upload_budget fid u0 (w\<lparr>posted := p\<rparr>) = upload_budget fid u0 w"
  by (simp_all add: upload_budget_def)

lemma lookup_cached_once:
  assumes j: "upload_budget fid u0 s" and run: "lookup_cached fid s = Some (r, s1)"
  shows "upload_budget fid u0 s1 \<and> gemini s1 = gemini s \<and> (r = Inr None \<longrightarrow> uploads (gemini s1) \<le> u0)
    \<and> (\<forall>f. r = Inr (Some f) \<longrightarrow> placed u0 s1 f)"
proof (cases "file_upload_dict s fid")
  case None
  with run j show ?thesis by (auto simp: lookup_cached_def upload_budget_def)
next
  case (Some n)
  show ?thesis
  proof (cases "genai_get_file (gemini s) n")
    case (Inr f)
    from Inr have "gname f = n" by (rule genai_get_file_name)
    with Inr Some run j show ?thesis
      by (auto simp: lookup_cached_def placed_def upload_budget_def genai_get_file_def split: option.splits)
  next
    case (Inl e)
    then have "n \<notin> dom (bfiles (gemini s))" by (auto simp: genai_get_file_def split: option.splits)
    with Some j have "uploads (gemini s) \<le> u0" by (auto simp: upload_budget_def)
    with Inl Some run show ?thesis by (auto simp: lookup_cached_def upload_budget_def split: if_splits)
  qed
qed

lemma fetch_once:
  assumes j: "upload_budget fid u0 s"
    and none: "cached = None \<Longrightarrow> uploads (gemini s) \<le> u0"
    and some: "\<forall>f. cached = Some f \<longrightarrow> placed u0 s f"
    and run: "(case cached of None \<Rightarrow> upload_from_slack dl url fid mime | Some f \<Rightarrow> ok f) s = Some (r, s')"
  shows "(\<forall>e. r = Inl e \<longrightarrow> upload_budget fid u0 s') \<and> (\<forall>f. r = Inr f \<longrightarrow> placed u0 s' f)"
proof (cases cached)
  case None
  show ?thesis
  proof (cases "requests_get dl url")
    case (Inl e)
    with None run j show ?thesis by (auto simp: upload_from_slack_def)
  next
    case (Inr content)
    with None run none show ?thesis
      by (auto simp: upload_from_slack_def genai_upload_file_def Let_def placed_def file_view_def)
  qed
next
  case (Some f)
  with run some show ?thesis by auto
qed

lemma settle_once:
  assumes p: "placed u0 s f" and run: "(if v then wait_processing f else ok f) s = Some (r, s')"
  shows "\<exists>f'. r = Inr f' \<and> placed u0 s' f' \<and> file_upload_dict s' = file_upload_dict s"
proof (cases v)
  case True
  with run have w: "wait_processing f s = Some (r, s')" by simp
  from wait_processing_post [OF w] have post: "wait_post f s (r, s')" .
  show ?thesis
  proof (cases r)
    case (Inl e)
    with w p show ?thesis by (auto simp: placed_def dest: wait_processing_no_error)
  next
    case (Inr f')
    with post p show ?thesis by (auto simp: wait_post_def placed_def)
  qed
next
  case False
  with run p show ?thesis by auto
qed

lemma record_once:
  "placed u0 s f \<Longrightarrow> upload_budget fid u0 (s\<lparr>file_upload_dict := (file_upload_dict s)(fid \<mapsto> gname f)\<rparr>)"
  by (auto simp: placed_def upload_budget_def)

lemma get_file_part_once:
  assumes j: "upload_budget fid u0 s" and run: "get_file_part dl url fid mime s = Some (r, s')"
  shows "upload_budget fid u0 s'"
proof (cases "mime \<in> set SUPPORTED_MIME_TYPES")
  case False
  with run j show ?thesis by (auto simp: get_file_part_def)
next
  case True
  with run have "pbind (lookup_cached fid) (\<lambda>cached.
        pbind (case cached of None \<Rightarrow> upload_from_slack dl url fid mime | Some f \<Rightarrow> ok f) (\<lambda>f.
        pbind (if str_contains ''video'' mime then wait_processing f else ok f) (\<lambda>f.
        pbind (modify (\<lambda>s. s\<lparr>file_upload_dict := (file_upload_dict s)(fid \<mapsto> gname f)\<rparr>)) (\<lambda>_.
        ok (Some f))))) s = Some (r, s')"
    by (simp add: get_file_part_def)
  then show ?thesis
  proof (cases rule: pbind_SomeE)
    case (Exc e)
    with lookup_cached_once [OF j] show ?thesis by blast
  next
    case (Ret cached s1)
    from lookup_cached_once [OF j Ret(1)] have j1: "upload_budget fid u0 s1"
      and n1: "cached = None \<Longrightarrow> uploads (gemini s1) \<le> u0"
      and p1: "\<forall>f. cached = Some f \<longrightarrow> placed u0 s1 f" by auto
    from Ret(2) show ?thesis
    proof (cases rule: pbind_SomeE)
      case (Exc e)
      with fetch_once [OF j1 n1 p1] show ?thesis by blast
    next
      case (Ret f s2)
      from fetch_once [OF j1 n1 p1 Ret(1)] have p2: "placed u0 s2 f" by blast
      from Ret(2) show ?thesis
      proof (cases rule: pbind_SomeE)
        case (Exc e)
        with settle_once [OF p2] show ?thesis by blast
      next
        case (Ret f' s3)
        from settle_once [OF p2 Ret(1)] have p3: "placed u0 s3 f'" by auto
        from Ret(2) have "s' = s3\<lparr>file_upload_dict := (file_upload_dict s3)(fid \<mapsto> gname f')\<rparr>"
          by (simp add: pbind_def)
        with record_once [OF p3] show ?thesis by simp
      qed
    qed
  qed
qed

lemma preserves_once_get_file_part:
  "preserves (upload_budget fid u0) (get_file_part dl url fid mime)"
  unfolding preserves_def by (blast intro: get_file_part_once)

lemma preserves_once_event_fun:
  assumes "ev_thread_ts ev = None" and "ev_files ev = [f]"
  shows "preserves (upload_budget (sf_id f) u0) (event_fun reg model env ev)"
proof -
  have ef: "preserves (upload_budget (sf_id f) u0) (event_files env (ev_files ev) [PText (ev_text ev)])"
    using assms(2) by (simp add: inv_intros preserves_once_get_file_part)
  have "preserves (upload_budget (sf_id f) u0) (build_message env ev)"
    unfolding build_message_def using assms(1)
    by (simp only: option.case) (rule preserves_pbind [OF ef], rule preserves_ok)
  then show ?thesis
    unfolding event_fun_def by (intro inv_intros) simp_all
qed

lemma deliver_mentions: "deliver reg model env (map Mention evs) w = dispatch reg model env evs w"
  by (induction evs arbitrary: w) (simp_all split: option.splits)

lemma deliver_budget:
  assumes "list_all (mention_with f) os"
    and "upload_budget (sf_id f) u w" and "deliver reg model env os w = Some (rs, w')"
  shows "upload_budget (sf_id f) (u + expiries os) w'"
  using assms
proof (induction os arbitrary: u w rs)
  case Nil
  then show ?case by simp
next
  case (Cons o1 os)
  show ?case
  proof (cases o1)
    case (Mention ev)
    with Cons.prems(3) obtain r w1 rs' where
      ev: "event_fun reg model env ev w = Some (r, w1)" and rest: "deliver reg model env os w1 = Some (rs', w')"
      by (auto split: option.splits)
    from Cons.prems(1) Mention have "ev_thread_ts ev = None" "ev_files ev = [f]" by simp_all
    from preservesD [OF preserves_once_event_fun [OF this] Cons.prems(2) ev]
    have "upload_budget (sf_id f) u w1" .
    with Cons.prems(1) rest Cons.IH [of u w1 rs'] Mention show ?thesis by simp
  next
    case (Expire n)
    with Cons.prems(3) have rest: "deliver reg model env os (w\<lparr>gemini := genai_expire (gemini w) n\<rparr>) = Some (rs, w')"
      by simp
    from upload_budget_expire [OF Cons.prems(2)] have "upload_budget (sf_id f) (Suc u) (w\<lparr>gemini := genai_expire (gemini w) n\<rparr>)" .
    with Cons.prems(1) rest Cons.IH [of "Suc u" _ rs] Expire show ?thesis by simp
  qed
qed

section \<open>Properties\<close>

text \<open>
  C38: when every delivered mention is outside a thread and carries the same single attachment,
  the process uploads that attachment at most once more than the number of uploads Gemini
  deleted meanwhile, however many mentions there are and whatever their turns do: after an
  upload, the cache entry makes every later resolution a hit until Gemini loses the file, and
  then the code uploads it once again. Mentions are handled one after the other; two mentions
  handled concurrently could both miss the cache.
\<close>

theorem deliver_uploads_bounded:
  assumes "list_all (mention_with f) os"
    and "deliver reg model env os w = Some (rs, w')"
  shows "uploads (gemini w') \<le> Suc (uploads (gemini w) + expiries os)"
  using deliver_budget [OF assms(1) upload_budget_start assms(2)]
  by (auto simp: upload_budget_def)

section \<open>Witnesses\<close>

theorem deliver_uploads_bounded_witness:
  "\<exists>rs w'. deliver module_registry greeting_model example_file_env
      [Mention (example_file_event\<lparr>ev_files := [example_png_file]\<rparr>), Expire ''files/0'',
       Mention (example_file_event\<lparr>ev_ts := ''1700000000.000500'', ev_files := [example_png_file]\<rparr>),
       Mention (example_file_event\<lparr>ev_ts := ''1700000000.000600'', ev_files := [example_png_file]\<rparr>)]
      example_world = Some (rs, w') \<and> uploads (gemini w') \<le> 2"
proof -
  have "\<exists>rs w'. deliver module_registry greeting_model example_file_env
      [Mention (example_file_event\<lparr>ev_files := [example_png_file]\<rparr>), Expire ''files/0'',
       Mention (example_file_event\<lparr>ev_ts := ''1700000000.000500'', ev_files := [example_png_file]\<rparr>),
       Mention (example_file_event\<lparr>ev_ts := ''1700000000.000600'', ev_files := [example_png_file]\<rparr>)]
      example_world = Some (rs, w')"
    by (simp add: event_fun_def build_message_def chat_turn_def send_message_def start_chat_def
        tool_loop.simps final_text_def run_local_def pbind_def Let_def greeting_model_def
        example_file_event_def example_file_env_def example_png_file_def example_world_def
        get_file_part_def lookup_cached_def upload_from_slack_def requests_get_def example_downloads_def
        genai_upload_file_def genai_get_file_def genai_expire_def SUPPORTED_MIME_TYPES_def upload_name_def
        nat_digits.simps example_backend_def)
  then obtain rs w' where run: "deliver module_registry greeting_model example_file_env
      [Mention (example_file_event\<lparr>ev_files := [example_png_file]\<rparr>), Expire ''files/0'',
       Mention (example_file_event\<lparr>ev_ts := ''1700000000.000500'', ev_files := [example_png_file]\<rparr>),
       Mention (example_file_event\<lparr>ev_ts := ''1700000000.000600'', ev_files := [example_png_file]\<rparr>)]
      example_world = Some (rs, w')" by blast
  have os: "list_all (mention_with example_png_file)
      [Mention (example_file_event\<lparr>ev_files := [example_png_file]\<rparr>), Expire ''files/0'',
       Mention (example_file_event\<lparr>ev_ts := ''1700000000.000500'', ev_files := [example_png_file]\<rparr>),
       Mention (example_file_event\<lparr>ev_ts := ''1700000000.000600'', ev_files := [example_png_file]\<rparr>)]"
    by (simp add: example_file_event_def)
  from deliver_uploads_bounded [OF os run] run show ?thesis
    by (auto simp: example_world_def example_backend_def)
qed

end
