(* ===== verification/Spec2Isabelle.thy ===== *)
theory Spec2Isabelle
  imports Entry Reuse
begin

text \<open>
  \<^bold>\<open>A verification model of slack_agent.\<close>

  slack_agent is a Slack bot (\<open>src/\<close>): \<open>main.py\<close> reads its tokens and starts
  \<open>make_main_function\<close> (\<open>slack_agent/main_function.py\<close>), which registers one
  handler, \<open>event_fun\<close> of \<open>slack_agent/events/app_mention.py\<close>, for Slack mentions,
  and gives the Gemini model the tools of the registry
  \<open>slack_agent/functions/utils/registry.py\<close> (one tool,
  \<open>get_current_weather\<close> of \<open>slack_agent/functions/example.py\<close>). For each mention
  the handler rebuilds the conversation from the Slack thread, resolving attachments to
  Gemini uploads through a process-wide cache and replaying earlier tool calls from a
  \<open>function_call.json\<close> attachment; it then runs the model, executing the tool calls it
  asks for until it answers in text, and posts the answer, with the tool trace attached as
  \<open>function_call.json\<close> when tools ran.

  \<^bold>\<open>Theories.\<close> Each part is one theory; each theory starts with what it holds.
  \<^item> \<open>Prelude\<close>: JSON values, the exceptions of the program (\<open>error\<close>), Python's
    insertion-ordered dict as an association list (\<open>dict_set\<close>, \<open>dict_get\<close>), and
    the program type \<open>('s, 'a) prog\<close>: state in, and either divergence (\<open>None\<close>) or
    a result or exception with the new state. Effects made before an exception stay.
  \<^item> \<open>Registry\<close>: \<open>register\<close>, \<open>get_functions\<close>, \<open>call_function\<close> over the
    module dict \<open>_function_registry\<close>, and \<open>get_current_weather\<close>. The abstraction
    \<open>registry_abs\<close> (\<open>map_of\<close>) refines the dict to a finite map.
  \<^item> \<open>Media\<close>: \<open>SUPPORTED_MIME_TYPES\<close>, \<open>file_upload_dict\<close> (record
    \<open>mstate\<close>, with the Gemini backend) and \<open>get_file_part\<close>, split as in the code
    into \<open>lookup_cached\<close> (lines 103--111), \<open>upload_from_slack\<close> (113--117) and
    the video polling loop \<open>wait_processing\<close> (119--122), a
    \<^theory_text>\<open>partial_function (option)\<close> because the code polls without bound.
    The Gemini File API is an environment: a store of uploads, each with the time its
    processing ends (\<open>None\<close> if never) and its final state, and a clock that
    \<open>time.sleep(5)\<close> advances. The collection \<open>frame_intros\<close> shows that the
    media and thread layers change nothing but the cache and the backend.
  \<^item> \<open>History\<close>: turns and parts, the decoder \<open>get_function_call_history\<close>
    (\<open>decode_part\<close>, \<open>decode_message\<close>, \<open>decode_history\<close>) with
    \<open>json.loads\<close> as a parameter, and the trace records the handler writes
    (\<open>rec_json\<close>, \<open>trace_json\<close>).
  \<^item> \<open>Thread\<close>: \<open>get_thread_messages\<close> as \<open>thread_files\<close> (one message's
    files), \<open>thread_message\<close>, \<open>thread_loop\<close> and the final unpacking
    \<open>split_last\<close>; Slack's \<open>conversations_replies\<close>, file downloads and
    \<open>json.loads\<close> are the environment \<open>slack_env\<close>.
  \<^item> \<open>Orchestrator\<close>: the chat session (\<open>start_chat\<close>, \<open>send_message\<close>) with
    the model as an oracle from chat history to response parts, one round of calls
    (\<open>function_calls\<close>, \<open>run_calls\<close>, \<open>tool_round\<close>), the unbounded loop
    \<open>tool_loop\<close> (\<^theory_text>\<open>partial_function (option)\<close>), \<open>chat_turn\<close>,
    \<open>publish\<close>, and \<open>event_fun\<close> over the record \<open>world\<close>, which extends
    \<open>mstate\<close> with the acknowledged events and the posted replies.
  \<^item> \<open>TurnMachine\<close>: the send/inspect/execute cycle of one turn as an inductive step
    relation \<open>orch_step\<close> on the states \<open>Inspecting\<close>, \<open>Executing\<close>,
    \<open>Done\<close> and \<open>Aborted\<close>, and the trace invariant \<open>trace_matched\<close>
    (call records and response records name the same tools), proved for every reachable
    state by rule induction.
  \<^item> \<open>Cache\<close>: the invariant \<open>media_ok\<close> of \<open>file_upload_dict\<close> and the backend
    (each entry names an upload of its own Slack file or one the backend lost; upload names
    from the backend's counter on are unused), proved preserved by each step of
    \<open>get_file_part\<close>. Upload names are distinct because their digits read back
    (\<open>parse_nat_digits\<close>).
  \<^item> \<open>App\<close>: start-up (\<open>genai_list_files\<close>, \<open>make_app_mention_event\<close> seeding the cache),
    \<open>make_main_function\<close> (tools declared to the model), the delivery of mentions to the
    handler one after another (\<open>dispatch\<close>) and \<open>main.py\<close>'s run (\<open>run_main\<close>); the
    collection \<open>inv_intros\<close> of the prelude carries \<open>media_ok\<close> through the thread, the
    message and the handler.
  \<^item> \<open>Handler\<close>: what the handler sends for a mention outside a thread (text first, then
    the resolved attachments, unsupported ones dropped) and the end of a turn whose final
    response has no parts.
  \<^item> \<open>Entry\<close>: \<open>main.py\<close>: \<open>load_dotenv\<close>, the \<open>os.environ\<close> reads of the three tokens
    (\<open>read_config\<close>, \<open>KeyError\<close> on a missing one), the clients each value is passed to
    (\<open>main_clients\<close>) and the run (\<open>main_py\<close>).
  \<^item> \<open>Reuse\<close>: the cache across mentions and Gemini's deletions of uploads
    (\<open>occurrence\<close>, \<open>deliver\<close>): the invariant \<open>upload_budget\<close> carried through
    \<open>get_file_part\<close>, the handler and each occurrence.
  \<^item> this theory: how Slack shows a reply in the thread (\<open>reply_message\<close>), and the
    property that spans the handler, the reply and the next reconstruction.

  \<^bold>\<open>What is proved.\<close>
  \<^item> The trace does not round-trip (\<open>tool_reply_breaks_thread\<close>, with
    \<open>History.decode_trace_fails\<close> and \<open>History.decode_part_rec\<close>): the handler
    writes a flat list of call/response records, the decoder expects
    \<open>{"role", "parts"}\<close> messages and reads \<open>value\<close> where the writer put
    \<open>response\<close>. After a reply that used a tool, every later mention in that thread
    fails with \<open>KeyError('parts')\<close>. The decoder does read back exactly the nested
    layout it was written for (\<open>History.decode_history_roundtrip\<close>).
  \<^item> The tool loop: exactly K rounds against a model that asks for tools K times
    (\<open>Orchestrator.chat_turn_scripted\<close>), a trace of one call record per call and one
    response record per distinct tool name per round (\<open>Orchestrator.round_trace_length\<close>),
    no termination when the model keeps asking (\<open>Orchestrator.tool_loop_diverges\<close>).
    \<open>tool_loop\<close> computes exactly the outcomes of the state machine
    (\<open>TurnMachine.tool_loop_machine\<close>), and every trace a turn returns is matched
    (\<open>TurnMachine.chat_turn_trace_matched\<close>).
  \<^item> The handler: one reply per successful turn, none on failure
    (\<open>Orchestrator.event_fun_error_no_reply\<close>), the plain-text scenario and the
    unregistered-tool abort.
  \<^item> The cache: unsupported types are dropped, resolution is idempotent, a lost upload
    is evicted and re-uploaded once, a failed download propagates with the eviction kept,
    and the video wait returns exactly when the backend finishes processing.
  \<^item> The cache invariant: a resolved attachment is always that attachment's own current upload
    and is recorded under its id (\<open>Cache.get_file_part_own_upload\<close>); the invariant holds from
    start-up across every delivered mention (\<open>App.startup_dispatch_media_ok\<close>). The start-up
    cache is the map from each listed display name to its last listed upload
    (\<open>App.init_upload_dict_listing\<close>). The video poll returns at most 4 seconds after
    processing ends (\<open>Media.wait_processing_clock\<close>).
  \<^item> The process: each delivered mention is acknowledged once and in order and gets exactly
    one reply in its thread iff its turn succeeds (\<open>App.dispatch_replies\<close>).
  \<^item> The decoder returns only call parts and \<open>{"result": v}\<close> response parts
    (\<open>History.decode_history_parts_type\<close>).
  \<^item> With Gemini deleting uploads on its own (\<open>genai_expire\<close>, interleaved with the
    mentions by \<open>Reuse.deliver\<close>), mentions carrying the same attachment upload it at most
    once more than the number of deletions (\<open>Reuse.deliver_uploads_bounded\<close>); the polling
    loop never raises for a file the backend holds.
  \<^item> Message building and configuration: outside a thread the mention's text comes first and
    unsupported attachments are dropped without side effects (\<open>Handler.build_message_text_first\<close>,
    \<open>Handler.build_message_unsupported\<close>); an empty final response is an \<open>IndexError\<close> with
    no reply (\<open>Handler.event_fun_empty_answer\<close>); a missing token stops \<open>main.py\<close> with
    \<open>KeyError\<close> for the first missing variable (\<open>Entry.main_py_missing_var\<close>), and with all
    three set it runs the app with each token on its own client (\<open>Entry.main_py_clients\<close>).
  \<^item> Thread reconstruction: the new message is always the last Slack message's turn, a
    thread without attachments gives N-1 history turns in order, and an empty thread fails.
  \<^item> The registry: dispatch after \<open>register\<close>, its invariant, the not-found error, and
    the order of \<open>get_functions\<close>.

  \<^bold>\<open>Bounds and fuel.\<close> No fuel is used. The two loops of the program without a bound,
  the video poll and the tool loop, are \<^theory_text>\<open>partial_function (option)\<close>
  definitions; each has a theorem that it returns when the environment lets it (processing
  ends; the model stops calling tools) and a theorem that it does not return otherwise.
  All other recursion is structural on lists.

  \<^bold>\<open>Not modelled.\<close> The system instruction of \<open>main.py\<close> (a constant prompt text);
  what the external clients do with their tokens and model name beyond being built with them
  (\<open>Entry.main_clients\<close>). Slack's socket-mode handler runs listeners on a thread pool; the
  model delivers mentions one after the other (\<open>dispatch\<close>, \<open>Reuse.deliver\<close>), so races
  between concurrent mentions (two resolutions of one attachment both missing the cache, two
  reconstructions of one thread) are outside it. The Slack thread environment does not change
  during a run; the effect of a posted reply on a later thread is the subject of
  \<open>tool_reply_breaks_thread\<close>. The Gemini model's choices and the JSON library are external
  and appear only as oracles or parameters. The Gemini backend keeps an upload until
  \<open>genai_expire\<close> deletes it; exceptions of the external services other than
  \<open>PermissionDenied\<close> and a network failure of a download are outside the model (an HTTP
  error response is a body like any other and is uploaded, as the code, without
  \<open>raise_for_status\<close>, does).
\<close>

section \<open>How Slack shows a reply\<close>

text \<open>
  A \<open>say\<close> becomes a bot message with its text; a \<open>files_upload_v2\<close> becomes a bot
  message whose text is the comment and whose one file is the upload, served at the URL
  Slack assigns.
\<close>

fun reply_message :: "string \<Rightarrow> string \<Rightarrow> reply \<Rightarrow> smessage" where
  "reply_message fid url (Say t ch ts) = \<lparr>bot_profile = True, stext = Some t, sfiles = []\<rparr>"
| "reply_message fid url (FileUpload fname c body ch ts) =
     \<lparr>bot_profile = True, stext = Some c,
      sfiles = [\<lparr>sf_id = fid, sf_name = fname, sf_mimetype = ''application/json'', sf_url = url\<rparr>]\<rparr>"

text \<open>
  The thread after the weather example: the mention, the bot's reply as Slack shows it,
  and a follow-up mention; the uploaded body is served and parses back to the trace.
\<close>

definition weather_trace :: "trace_rec list" where
  "weather_trace =
     [CallRec ''get_current_weather'' [(''city'', JStr ''Tokyo'')],
      RespRec ''get_current_weather'' (JObj [(''city'', JStr ''Tokyo''), (''weather'', JStr ''sunny''),
         (''temperature'', JInt 30), (''unit'', JStr ''C'')])]"

definition env_after_reply :: slack_env where
  "env_after_reply =
     \<lparr>downloads = [''https://files.slack.com/F20'' \<mapsto> ''TRACE-BODY''],
      loads = (\<lambda>b. if b = ''TRACE-BODY'' then Some (trace_json weather_trace) else None),
      replies = (\<lambda>ch ts.
        [\<lparr>bot_profile = False, stext = Some ''<@U0BOT> weather in Tokyo?'', sfiles = []\<rparr>,
         reply_message ''F20'' ''https://files.slack.com/F20''
           (publish ''It is sunny in Tokyo.'' ''C01'' ''1700000000.000300'' weather_trace),
         \<lparr>bot_profile = False, stext = Some ''<@U0BOT> and tomorrow?'', sfiles = []\<rparr>])\<rparr>"

section \<open>Properties spanning the handler and the thread\<close>

text \<open>
  C1: after the handler answers a mention with a reply that used a tool, reconstructing the
  thread that holds this reply fails with \<open>KeyError(\<open>parts\<close>)\<close>, provided the body
  Slack serves for the upload parses back to what was uploaded and the earlier messages have
  no attachments: the bot can no longer answer in that thread.
\<close>

theorem tool_reply_breaks_thread:
  assumes run: "event_fun reg model env ev w = Some (Inr (), w')"
    and upload: "last (posted w') = FileUpload fname comment body ch ts"
    and thread: "replies env' ch' tts = pre @ reply_message fid url (last (posted w')) # post"
    and plain: "\<forall>m \<in> set pre. sfiles m = []"
    and served: "downloads env' url = Some (dumps body)"
    and json: "loads env' (dumps body) = Some body"
  shows "get_thread_messages env' ch' tts s = Some (Inl (KeyError ''parts''), s)"
proof -
  from event_fun_one_reply [OF run] obtain answer tr where
    posted: "posted w' = posted w @ [publish answer (ev_channel ev) (ev_ts ev) tr]" by blast
  with upload have pub: "publish answer (ev_channel ev) (ev_ts ev) tr = FileUpload fname comment body ch ts"
    by simp
  then have tr: "tr \<noteq> []" and fname: "fname = TRACE_FILE_NAME" and body: "body = trace_json tr"
    by (auto simp: publish_def split: if_splits)
  let ?f = "\<lparr>sf_id = fid, sf_name = fname, sf_mimetype = ''application/json'', sf_url = url\<rparr>"
  from thread upload have th: "replies env' ch' tts = pre @ reply_message fid url
      (FileUpload fname comment body ch ts) # post" by simp
  show ?thesis
  proof (rule get_thread_messages_trace [OF th plain])
    show "sfiles (reply_message fid url (FileUpload fname comment body ch ts)) = ?f # []" by simp
    show "sf_name ?f = TRACE_FILE_NAME" using fname by simp
    show "downloads env' (sf_url ?f) = Some (dumps body)" using served by simp
    show "loads env' (dumps body) = Some (trace_json tr)" using json body by simp
    show "tr \<noteq> []" by (rule tr)
  qed
qed

section \<open>Witnesses\<close>

theorem tool_reply_breaks_thread_witness:
  "get_thread_messages env_after_reply ''C01'' ''1700000000.000300'' example_mstate =
     Some (Inl (KeyError ''parts''), example_mstate)"
proof -
  let ?w' = "example_world\<lparr>acks := [''1700000000.000300''],
      posted := [publish ''It is sunny in Tokyo.'' ''C01'' ''1700000000.000300'' weather_trace]\<rparr>"
  have run: "event_fun module_registry weather_model example_env example_event example_world = Some (Inr (), ?w')"
    using weather_run by (simp add: weather_trace_def)
  have up: "last (posted ?w') = FileUpload TRACE_FILE_NAME ''It is sunny in Tokyo.'' (trace_json weather_trace)
      ''C01'' ''1700000000.000300''"
    by (simp add: publish_def weather_trace_def)
  have th: "replies env_after_reply ''C01'' ''1700000000.000300'' =
      [\<lparr>bot_profile = False, stext = Some ''<@U0BOT> weather in Tokyo?'', sfiles = []\<rparr>] @
      reply_message ''F20'' ''https://files.slack.com/F20'' (last (posted ?w')) #
      [\<lparr>bot_profile = False, stext = Some ''<@U0BOT> and tomorrow?'', sfiles = []\<rparr>]"
    by (simp add: env_after_reply_def)
  show ?thesis
    by (rule tool_reply_breaks_thread [OF run up th, where dumps = "\<lambda>b. ''TRACE-BODY''"])
       (simp_all add: env_after_reply_def)
qed

end
